theory Spec2Isabelle
  imports Main "HOL-Library.Word"
begin

unbundle bit_operations_syntax

section \<open>Scheme values\<close>

text \<open>
  The extension runtime's values (\<^verbatim>\<open>SCM\<close>).  Immediate values, strings, symbols, proper
  lists and procedures are the runtime's own; the smob constructors are the foreign
  handles of \<^verbatim>\<open>guile/*.c\<close>.  A \<^verbatim>\<open><gdb:exception>\<close> smob carries \<^verbatim>\<open>base.aux\<close>, \<^verbatim>\<open>key\<close>
  and \<^verbatim>\<open>args\<close>; a \<^verbatim>\<open><gdb:iterator>\<close> smob carries \<^verbatim>\<open>base.aux\<close>, \<^verbatim>\<open>object\<close>,
  \<^verbatim>\<open>progress\<close> and \<^verbatim>\<open>next_x\<close>; \<^verbatim>\<open><gdb:symtab>\<close>, \<^verbatim>\<open><gdb:symbol>\<close> and
  \<^verbatim>\<open><gdb:type>\<close> smobs are shared and mutated in place, so the value holds the address
  of its \<^verbatim>\<open>symtab_smob\<close>, \<^verbatim>\<open>symbol_smob\<close> or \<^verbatim>\<open>type_smob\<close> struct.  Every other smob is
  its type tag and data word.  A procedure is named by a number; what calling it does is
  given by the evaluator passed to \<^verbatim>\<open>gdbscm_safe_call_1\<close>.
\<close>

type_synonym scm_t_bits = nat

datatype scm =
    SCM_BOOL_F
  | SCM_BOOL_T
  | SCM_UNSPECIFIED
  | SCM_Integer int
  | SCM_String string
  | SCM_Symbol string
  | SCM_List "scm list"
  | SCM_Procedure nat
  | SCM_Port nat
  | Exception_smob scm scm scm
  | Iterator_smob scm scm scm scm
  | Symtab_smob nat
  | Symbol_smob nat
  | Type_smob nat
  | Other_smob scm_t_bits nat

abbreviation SCM_EOL :: scm where
  "SCM_EOL \<equiv> SCM_List []"

definition scm_list_1 :: "scm \<Rightarrow> scm" where
  "scm_list_1 a = SCM_List [a]"

definition scm_list_2 :: "scm \<Rightarrow> scm \<Rightarrow> scm" where
  "scm_list_2 a b = SCM_List [a, b]"

definition scm_list_3 :: "scm \<Rightarrow> scm \<Rightarrow> scm \<Rightarrow> scm" where
  "scm_list_3 a b c = SCM_List [a, b, c]"

definition scm_list_4 :: "scm \<Rightarrow> scm \<Rightarrow> scm \<Rightarrow> scm \<Rightarrow> scm" where
  "scm_list_4 a b c d = SCM_List [a, b, c, d]"

definition gdbscm_is_false :: "scm \<Rightarrow> bool" where
  "gdbscm_is_false x = (x = SCM_BOOL_F)"

definition gdbscm_is_procedure :: "scm \<Rightarrow> bool" where
  "gdbscm_is_procedure x = (case x of SCM_Procedure p \<Rightarrow> True | _ \<Rightarrow> False)"

text \<open>
  A non-local exit.  \<^verbatim>\<open>scm_throw (key, args)\<close> is \<open>Throw key args\<close>; a failed
  \<^verbatim>\<open>gdb_assert\<close> is an internal error of the host.
\<close>

datatype failure =
    Throw scm scm
  | Internal_error string

section \<open>Exception objects (scm-exception.c)\<close>

text \<open>The symbols made by \<^verbatim>\<open>gdbscm_initialize_exceptions\<close>, and Guile's own keys.\<close>

definition exscm_error_symbol :: scm where
  "exscm_error_symbol = SCM_Symbol ''gdb:error''"

definition exscm_memory_error_symbol :: scm where
  "exscm_memory_error_symbol = SCM_Symbol ''gdb:memory-error''"

definition gdbscm_invalid_object_error_symbol :: scm where
  "gdbscm_invalid_object_error_symbol = SCM_Symbol ''gdb:invalid-object-error''"

definition exscm_out_of_range_error_symbol :: scm where
  "exscm_out_of_range_error_symbol = SCM_Symbol ''out-of-range''"

definition exscm_with_stack_error_symbol :: scm where
  "exscm_with_stack_error_symbol = SCM_Symbol ''gdb:with-stack''"

definition exscm_signal_symbol :: scm where
  "exscm_signal_symbol = SCM_Symbol ''signal''"

definition scm_arg_type_key :: scm where
  "scm_arg_type_key = SCM_Symbol ''wrong-type-arg''"

definition scm_misc_error_key :: scm where
  "scm_misc_error_key = SCM_Symbol ''misc-error''"

text \<open>
  \<^verbatim>\<open>gdbscm_make_exception\<close>: a fresh \<^verbatim>\<open><gdb:exception>\<close> with \<^verbatim>\<open>aux\<close> set to \<^verbatim>\<open>#f\<close> by
  \<^verbatim>\<open>gdbscm_init_gsmob\<close>.  The creation counter \<^verbatim>\<open>gdbscm_exception_count\<close>, read only by
  \<^verbatim>\<open>%exception-count\<close>, is left out of the model.
\<close>

definition gdbscm_make_exception :: "scm \<Rightarrow> scm \<Rightarrow> scm" where
  "gdbscm_make_exception key args = Exception_smob SCM_BOOL_F key args"

definition gdbscm_is_exception :: "scm \<Rightarrow> bool" where
  "gdbscm_is_exception x = (case x of Exception_smob aux key args \<Rightarrow> True | _ \<Rightarrow> False)"

definition gdbscm_make_exception_with_stack :: "scm \<Rightarrow> scm \<Rightarrow> scm \<Rightarrow> scm" where
  "gdbscm_make_exception_with_stack key args stack =
     gdbscm_make_exception exscm_with_stack_error_symbol
       (SCM_List (key # stack # (case args of SCM_List xs \<Rightarrow> xs | _ \<Rightarrow> [args])))"

definition gdbscm_make_error_scm :: "scm \<Rightarrow> scm \<Rightarrow> scm \<Rightarrow> scm \<Rightarrow> scm \<Rightarrow> scm" where
  "gdbscm_make_error_scm key subr message args data =
     gdbscm_make_exception key (scm_list_4 subr message args data)"

definition gdbscm_make_error ::
  "scm \<Rightarrow> string option \<Rightarrow> string option \<Rightarrow> scm \<Rightarrow> scm \<Rightarrow> scm" where
  "gdbscm_make_error key subr message args data =
     gdbscm_make_error_scm key
       (case subr of None \<Rightarrow> SCM_BOOL_F | Some s \<Rightarrow> SCM_String s)
       (case message of None \<Rightarrow> SCM_BOOL_F | Some m \<Rightarrow> SCM_String m)
       args data"

text \<open>\<^verbatim>\<open>%d\<close> of \<^verbatim>\<open>xstrprintf\<close>.\<close>

definition digit_char :: "nat \<Rightarrow> char" where
  "digit_char d = char_of (48 + d)"

function decimal :: "nat \<Rightarrow> string" where
  "decimal n = (if n < 10 then [digit_char n] else decimal (n div 10) @ [digit_char (n mod 10)])"
  by pat_completeness auto
termination
  by (relation "measure id") auto

definition printf_d :: "int \<Rightarrow> string" where
  "printf_d i = (if i < 0 then CHR ''-'' # decimal (nat (- i)) else decimal (nat i))"

definition gdbscm_make_type_error :: "string option \<Rightarrow> int \<Rightarrow> scm \<Rightarrow> string option \<Rightarrow> scm" where
  "gdbscm_make_type_error subr arg_pos bad_value expected_type =
     (let msg =
        (if arg_pos > 0 then
           (case expected_type of
              Some t \<Rightarrow> ''Wrong type argument in position '' @ printf_d arg_pos
                         @ '' (expecting '' @ t @ ''): ~S''
            | None \<Rightarrow> ''Wrong type argument in position '' @ printf_d arg_pos @ '': ~S'')
         else
           (case expected_type of
              Some t \<Rightarrow> ''Wrong type argument (expecting '' @ t @ ''): ~S''
            | None \<Rightarrow> ''Wrong type argument: ~S''))
      in gdbscm_make_error scm_arg_type_key subr (Some msg)
           (scm_list_1 bad_value) (scm_list_1 bad_value))"

definition gdbscm_make_arg_error :: "scm \<Rightarrow> string option \<Rightarrow> int \<Rightarrow> scm \<Rightarrow> string \<Rightarrow> scm" where
  "gdbscm_make_arg_error key subr arg_pos bad_value error =
     (let msg =
        (if arg_pos > 0 then error @ '' in position '' @ printf_d arg_pos @ '': ~S''
         else error @ '': ~S'')
      in gdbscm_make_error key subr (Some msg) (scm_list_1 bad_value) (scm_list_1 bad_value))"

definition gdbscm_make_invalid_object_error :: "string option \<Rightarrow> int \<Rightarrow> scm \<Rightarrow> string \<Rightarrow> scm" where
  "gdbscm_make_invalid_object_error subr arg_pos bad_value error =
     gdbscm_make_arg_error gdbscm_invalid_object_error_symbol subr arg_pos bad_value error"

definition gdbscm_make_out_of_range_error :: "string option \<Rightarrow> int \<Rightarrow> scm \<Rightarrow> string \<Rightarrow> scm" where
  "gdbscm_make_out_of_range_error subr arg_pos bad_value error =
     gdbscm_make_arg_error exscm_out_of_range_error_symbol subr arg_pos bad_value error"

definition gdbscm_make_memory_error :: "string option \<Rightarrow> string option \<Rightarrow> scm \<Rightarrow> scm" where
  "gdbscm_make_memory_error subr msg args =
     gdbscm_make_error exscm_memory_error_symbol subr msg args SCM_EOL"

text \<open>
  \<^verbatim>\<open>SCM_ASSERT_TYPE\<close> fails through Guile's \<^verbatim>\<open>scm_wrong_type_arg_msg\<close>, which throws
  \<^verbatim>\<open>wrong-type-arg\<close> with the position and the expected type as message arguments.
\<close>

definition scm_wrong_type_arg_msg :: "string \<Rightarrow> int \<Rightarrow> scm \<Rightarrow> string \<Rightarrow> failure" where
  "scm_wrong_type_arg_msg subr pos bad_value szMessage =
     (if pos = 0 then
        Throw scm_arg_type_key
          (scm_list_4 (SCM_String subr) (SCM_String ''Wrong type argument (expecting ~A): ~S'')
             (scm_list_2 (SCM_String szMessage) bad_value) (scm_list_1 bad_value))
      else
        Throw scm_arg_type_key
          (scm_list_4 (SCM_String subr)
             (SCM_String ''Wrong type argument in position ~A (expecting ~A): ~S'')
             (scm_list_3 (SCM_Integer pos) (SCM_String szMessage) bad_value)
             (scm_list_1 bad_value)))"

text \<open>
  \<^verbatim>\<open>gdbscm_exception_key\<close>, \<^verbatim>\<open>gdbscm_exception_args\<close>: the argument is checked with
  \<^verbatim>\<open>gdbscm_is_exception\<close> alone.
\<close>

definition gdbscm_exception_key :: "scm \<Rightarrow> failure + scm" where
  "gdbscm_exception_key self =
     (case self of
        Exception_smob aux key args \<Rightarrow> Inr key
      | _ \<Rightarrow> Inl (scm_wrong_type_arg_msg ''gdbscm_exception_key'' 1 self ''gdb:exception''))"

definition gdbscm_exception_args :: "scm \<Rightarrow> failure + scm" where
  "gdbscm_exception_args self =
     (case self of
        Exception_smob aux key args \<Rightarrow> Inr args
      | _ \<Rightarrow> Inl (scm_wrong_type_arg_msg ''gdbscm_exception_args'' 1 self ''gdb:exception''))"

text \<open>
  \<^verbatim>\<open>gdbscm_throw\<close>: \<^verbatim>\<open>scm_throw\<close> of the exception's key and args.  Its callers pass
  \<^verbatim>\<open><gdb:exception>\<close> objects; for anything else the accessor's own type error is thrown.
\<close>

definition gdbscm_throw :: "scm \<Rightarrow> failure" where
  "gdbscm_throw exception =
     (case gdbscm_exception_key exception of
        Inl f \<Rightarrow> f
      | Inr key \<Rightarrow>
          (case gdbscm_exception_args exception of
             Inl f \<Rightarrow> f
           | Inr args \<Rightarrow> Throw key args))"

definition gdbscm_invalid_object_error :: "string option \<Rightarrow> int \<Rightarrow> scm \<Rightarrow> string \<Rightarrow> failure" where
  "gdbscm_invalid_object_error subr arg_pos bad_value error =
     gdbscm_throw (gdbscm_make_invalid_object_error subr arg_pos bad_value error)"

definition gdbscm_out_of_range_error :: "string option \<Rightarrow> int \<Rightarrow> scm \<Rightarrow> string \<Rightarrow> failure" where
  "gdbscm_out_of_range_error subr arg_pos bad_value error =
     gdbscm_throw (gdbscm_make_out_of_range_error subr arg_pos bad_value error)"

definition gdbscm_memory_error :: "string option \<Rightarrow> string option \<Rightarrow> scm \<Rightarrow> failure" where
  "gdbscm_memory_error subr msg args = gdbscm_throw (gdbscm_make_memory_error subr msg args)"

text \<open>
  The host's exception record (\<^verbatim>\<open>struct gdb_exception\<close>): the reason and error codes and
  the formatted message.  Only the codes the conversion tests are named.
\<close>

datatype return_reason = RETURN_QUIT | RETURN_ERROR | RETURN_other int

datatype errors = GDB_NO_ERROR | GENERIC_ERROR | MEMORY_ERROR | Other_error int

record gdb_exception =
  reason :: return_reason
  error :: errors
  message :: string

text \<open>The platform's interrupt signal number, \<^verbatim>\<open>SIGINT\<close> of \<^verbatim>\<open><signal.h>\<close>.\<close>

definition SIGINT :: int where
  "SIGINT = 2"

definition gdbscm_scm_from_gdb_exception :: "gdb_exception \<Rightarrow> scm" where
  "gdbscm_scm_from_gdb_exception exception =
     (if reason exception = RETURN_QUIT then
        gdbscm_make_error exscm_signal_symbol None (Some ''User interrupt'')
          SCM_EOL (scm_list_1 (SCM_Integer SIGINT))
      else
        (let key = (if error exception = MEMORY_ERROR then exscm_memory_error_symbol
                    else exscm_error_symbol)
         in gdbscm_make_error key None (Some ''~A'')
              (scm_list_1 (SCM_String (message exception))) SCM_BOOL_F))"

definition gdbscm_throw_gdb_exception :: "gdb_exception \<Rightarrow> failure" where
  "gdbscm_throw_gdb_exception exception = gdbscm_throw (gdbscm_scm_from_gdb_exception exception)"

section \<open>Smobs and the conversion hooks (scm-smob.c)\<close>

text \<open>
  Smob type tags are the opaque, distinct, non-zero numbers \<^verbatim>\<open>scm_make_smob_type\<close> hands
  out; fixed numbers stand for the five tags the model names, and \<open>Other_smob k d\<close> is a
  smob of the \<open>k\<close>-th further type.  Tag \<open>0\<close> is the wildcard of
  \<^verbatim>\<open>gdbscm_scm_to_gsmob_safe\<close>.  Values that are not smobs have no smob tag.
\<close>

definition exception_smob_tag :: scm_t_bits where
  "exception_smob_tag = 1"

definition iterator_smob_tag :: scm_t_bits where
  "iterator_smob_tag = 2"

definition symtab_smob_tag :: scm_t_bits where
  "symtab_smob_tag = 3"

definition symbol_smob_tag :: scm_t_bits where
  "symbol_smob_tag = 4"

definition type_smob_tag :: scm_t_bits where
  "type_smob_tag = 5"

fun smob_tag_of :: "scm \<Rightarrow> scm_t_bits option" where
  "smob_tag_of (Exception_smob aux key args) = Some exception_smob_tag"
| "smob_tag_of (Iterator_smob aux object progress next_x) = Some iterator_smob_tag"
| "smob_tag_of (Symtab_smob a) = Some symtab_smob_tag"
| "smob_tag_of (Symbol_smob a) = Some symbol_smob_tag"
| "smob_tag_of (Type_smob a) = Some type_smob_tag"
| "smob_tag_of (Other_smob k d) = Some (k + 6)"
| "smob_tag_of _ = None"

definition SCM_SMOB_PREDICATE :: "scm_t_bits \<Rightarrow> scm \<Rightarrow> bool" where
  "SCM_SMOB_PREDICATE tag x = (smob_tag_of x = Some tag)"

text \<open>
  The module's globals: the table \<^verbatim>\<open>registered_gsmobs\<close> and the values of the two hook
  variables \<^verbatim>\<open>*smob->scm*\<close> and \<^verbatim>\<open>*scm->smob*\<close>.
\<close>

record gsmob_globals =
  registered_gsmobs :: "scm_t_bits set"
  scm_from_smob_var :: scm
  scm_to_smob_var :: scm

definition register_gsmob :: "scm_t_bits \<Rightarrow> gsmob_globals \<Rightarrow> failure + gsmob_globals" where
  "register_gsmob gsmob_code g =
     (if gsmob_code \<in> registered_gsmobs g then Inl (Internal_error ''*slot == NULL'')
      else Inr (g\<lparr>registered_gsmobs := insert gsmob_code (registered_gsmobs g)\<rparr>))"

definition gdbscm_is_gsmob :: "gsmob_globals \<Rightarrow> scm \<Rightarrow> bool" where
  "gdbscm_is_gsmob g x =
     (case smob_tag_of x of None \<Rightarrow> False | Some t \<Rightarrow> t \<in> registered_gsmobs g)"

text \<open>
  What calling a Scheme value on one argument does: it returns a value, or throws a key
  and arguments, with the stack captured at the throw (\<^verbatim>\<open>#f\<close> when none was recorded).
  The evaluator is the extension runtime, a parameter of everything that calls out.
\<close>

datatype call_outcome =
    Returns scm
  | Throws scm scm scm

type_synonym evaluator = "scm \<Rightarrow> scm \<Rightarrow> call_outcome"

text \<open>
  Modelled from the spec: \<^verbatim>\<open>gdbscm_safe_call_1\<close> (scm-safe-call.c) is not among the
  sources.  A thrown failure is captured and returned as an Exception Value rather than
  propagated, in the wrapped form when a stack snapshot was captured.
\<close>

definition gdbscm_safe_call_1 :: "evaluator \<Rightarrow> scm \<Rightarrow> scm \<Rightarrow> scm" where
  "gdbscm_safe_call_1 ev proc arg =
     (case ev proc arg of
        Returns v \<Rightarrow> v
      | Throws key args stack \<Rightarrow>
          (if \<not> gdbscm_is_false stack then gdbscm_make_exception_with_stack key args stack
           else gdbscm_make_exception key args))"

definition gdbscm_scm_from_gsmob_safe :: "gsmob_globals \<Rightarrow> evaluator \<Rightarrow> scm \<Rightarrow> scm" where
  "gdbscm_scm_from_gsmob_safe g ev smob =
     (let proc = scm_from_smob_var g
      in if gdbscm_is_false proc then smob
         else gdbscm_safe_call_1 ev proc smob)"

definition gdbscm_scm_from_gsmob_unsafe ::
  "gsmob_globals \<Rightarrow> evaluator \<Rightarrow> scm \<Rightarrow> failure + scm" where
  "gdbscm_scm_from_gsmob_unsafe g ev smob =
     (let result = gdbscm_scm_from_gsmob_safe g ev smob
      in if gdbscm_is_exception result then Inl (gdbscm_throw result)
         else Inr result)"

definition gdbscm_scm_to_gsmob_safe ::
  "gsmob_globals \<Rightarrow> evaluator \<Rightarrow> scm \<Rightarrow> scm_t_bits \<Rightarrow> scm" where
  "gdbscm_scm_to_gsmob_safe g ev x tag =
     (if (if tag \<noteq> 0 then SCM_SMOB_PREDICATE tag x else gdbscm_is_gsmob g x) then x
      else
        (let proc = scm_to_smob_var g
         in if gdbscm_is_false proc then SCM_BOOL_F
            else
              (let result = gdbscm_safe_call_1 ev proc x
               in if gdbscm_is_false result then SCM_BOOL_F
                  else if gdbscm_is_exception result then result
                  else if (if tag \<noteq> 0 then SCM_SMOB_PREDICATE tag result
                           else gdbscm_is_gsmob g result) then result
                  else gdbscm_make_out_of_range_error None 0 result
                         ''Result of *scm->smob* must be requested gsmob or #f'')))"

definition gdbscm_scm_to_gsmob_unsafe ::
  "gsmob_globals \<Rightarrow> evaluator \<Rightarrow> scm \<Rightarrow> scm_t_bits \<Rightarrow> failure + scm" where
  "gdbscm_scm_to_gsmob_unsafe g ev x tag =
     (let result = gdbscm_scm_to_gsmob_safe g ev x tag
      in if gdbscm_is_exception result then Inl (gdbscm_throw result)
         else Inr result)"


text \<open>
  The test \<^verbatim>\<open>gdbscm_scm_to_gsmob_safe\<close> makes of its argument and again of the hook's
  result: the smob predicate for a given tag, any registered gsmob for the wildcard.
\<close>

definition requested_gsmob :: "gsmob_globals \<Rightarrow> scm_t_bits \<Rightarrow> scm \<Rightarrow> bool" where
  "requested_gsmob g tag x = (if tag \<noteq> 0 then SCM_SMOB_PREDICATE tag x else gdbscm_is_gsmob g x)"


section \<open>Iterators (scm-iterator.c)\<close>

definition iterator_smob_name :: string where
  "iterator_smob_name = ''gdb:iterator''"

definition itscm_make_iterator_smob :: "scm \<Rightarrow> scm \<Rightarrow> scm \<Rightarrow> scm" where
  "itscm_make_iterator_smob object progress next = Iterator_smob SCM_BOOL_F object progress next"

definition gdbscm_make_iterator ::
  "gsmob_globals \<Rightarrow> evaluator \<Rightarrow> scm \<Rightarrow> scm \<Rightarrow> scm \<Rightarrow> failure + scm" where
  "gdbscm_make_iterator g ev object progress next =
     (if \<not> gdbscm_is_procedure next then
        Inl (scm_wrong_type_arg_msg ''gdbscm_make_iterator'' 3 next ''procedure'')
      else
        (let i_scm = itscm_make_iterator_smob object progress next
         in gdbscm_scm_from_gsmob_unsafe g ev i_scm))"

definition itscm_is_iterator :: "scm \<Rightarrow> bool" where
  "itscm_is_iterator x = SCM_SMOB_PREDICATE iterator_smob_tag x"

definition itscm_scm_to_iterator_gsmob :: "gsmob_globals \<Rightarrow> evaluator \<Rightarrow> scm \<Rightarrow> scm" where
  "itscm_scm_to_iterator_gsmob g ev x = gdbscm_scm_to_gsmob_safe g ev x iterator_smob_tag"

definition itscm_get_iterator_arg_unsafe ::
  "gsmob_globals \<Rightarrow> evaluator \<Rightarrow> scm \<Rightarrow> int \<Rightarrow> string \<Rightarrow> failure + scm" where
  "itscm_get_iterator_arg_unsafe g ev self arg_pos func_name =
     (let i_scm = itscm_scm_to_iterator_gsmob g ev self
      in if gdbscm_is_exception i_scm then Inl (gdbscm_throw i_scm)
         else if \<not> itscm_is_iterator i_scm then
           Inl (scm_wrong_type_arg_msg func_name arg_pos self iterator_smob_name)
         else Inr i_scm)"

text \<open>The fields of the \<^verbatim>\<open>iterator_smob\<close> behind a value that passed \<^verbatim>\<open>itscm_is_iterator\<close>.\<close>

fun iterator_smob_object :: "scm \<Rightarrow> scm" where
  "iterator_smob_object (Iterator_smob aux object progress next_x) = object"
| "iterator_smob_object x = SCM_UNSPECIFIED"

fun iterator_smob_progress :: "scm \<Rightarrow> scm" where
  "iterator_smob_progress (Iterator_smob aux object progress next_x) = progress"
| "iterator_smob_progress x = SCM_UNSPECIFIED"

fun iterator_smob_next_x :: "scm \<Rightarrow> scm" where
  "iterator_smob_next_x (Iterator_smob aux object progress next_x) = next_x"
| "iterator_smob_next_x x = SCM_UNSPECIFIED"

definition gdbscm_iterator_object :: "gsmob_globals \<Rightarrow> evaluator \<Rightarrow> scm \<Rightarrow> failure + scm" where
  "gdbscm_iterator_object g ev self =
     (case itscm_get_iterator_arg_unsafe g ev self 1 ''gdbscm_iterator_object'' of
        Inl f \<Rightarrow> Inl f
      | Inr i_scm \<Rightarrow> Inr (iterator_smob_object i_scm))"

definition gdbscm_iterator_progress :: "gsmob_globals \<Rightarrow> evaluator \<Rightarrow> scm \<Rightarrow> failure + scm" where
  "gdbscm_iterator_progress g ev self =
     (case itscm_get_iterator_arg_unsafe g ev self 1 ''gdbscm_iterator_progress'' of
        Inl f \<Rightarrow> Inl f
      | Inr i_scm \<Rightarrow> Inr (iterator_smob_progress i_scm))"

text \<open>
  \<^verbatim>\<open>gdbscm_iterator_next_x\<close>: the step procedure is read from the converted argument and
  called on \<^verbatim>\<open>self\<close>; the result of the safe call is returned as it is.
\<close>

definition gdbscm_iterator_next_x :: "gsmob_globals \<Rightarrow> evaluator \<Rightarrow> scm \<Rightarrow> failure + scm" where
  "gdbscm_iterator_next_x g ev self =
     (case itscm_get_iterator_arg_unsafe g ev self 1 ''gdbscm_iterator_next_x'' of
        Inl f \<Rightarrow> Inl f
      | Inr i_scm \<Rightarrow> Inr (gdbscm_safe_call_1 ev (iterator_smob_next_x i_scm) self))"

section \<open>Memory ports (scm-ports.c)\<close>

text \<open>
  \<^verbatim>\<open>CORE_ADDR\<close>, \<^verbatim>\<open>ULONGEST\<close> and \<^verbatim>\<open>size_t\<close> are unsigned 64-bit integers, \<^verbatim>\<open>LONGEST\<close> and
  \<^verbatim>\<open>scm_t_off\<close> the same bits read as two's complement, \<^verbatim>\<open>int\<close> is 32 bits wide.
\<close>

type_synonym CORE_ADDR = "64 word"
type_synonym ULONGEST = "64 word"
type_synonym LONGEST = "64 word"
type_synonym gdb_byte = "8 word"

record ioscm_memory_port =
  iomem_start :: CORE_ADDR
  iomem_end :: CORE_ADDR
  iomem_size :: ULONGEST
  iomem_current :: ULONGEST
  iomem_read_buf_size :: nat
  iomem_write_buf_size :: nat

datatype scm_t_port_rw_active = SCM_PORT_NEITHER | SCM_PORT_READ | SCM_PORT_WRITE

text \<open>
  The fields of Guile's \<^verbatim>\<open>scm_t_port\<close> the memory port uses.  A buffer is held as the
  bytes it currently delimits, a position as an offset from the buffer's start:
  \<open>pt_read_buf\<close> is the bytes of \<^verbatim>\<open>[read_buf, read_end)\<close> and \<open>pt_read_pos\<close> is
  \<^verbatim>\<open>read_pos - read_buf\<close>; \<open>pt_write_buf\<close> is the bytes of \<^verbatim>\<open>[write_buf, write_pos)\<close>, so
  \<^verbatim>\<open>write_pos - write_buf\<close> is its length.  \<open>pt_putback\<close> says that \<^verbatim>\<open>read_buf\<close> is
  \<^verbatim>\<open>putback_buf\<close>, in which case the \<open>pt_saved_\<close> fields hold the ordinary read buffer.
\<close>

record scm_t_port =
  pt_rw_random :: bool
  pt_rw_active :: scm_t_port_rw_active
  pt_read_buf_size :: nat
  pt_read_buf :: "gdb_byte list"
  pt_read_pos :: nat
  pt_write_buf_size :: nat
  pt_write_buf :: "gdb_byte list"
  pt_putback :: bool
  pt_saved_read_buf_size :: nat
  pt_saved_read_buf :: "gdb_byte list"
  pt_saved_read_pos :: nat

datatype mode_bit = SCM_OPN | SCM_RDNG | SCM_WRTNG | SCM_BUF0 | SCM_BUFLINE

record memory_port =
  mode_bits :: "mode_bit set"
  stream :: ioscm_memory_port
  pt :: scm_t_port

text \<open>
  The debuggee's memory is outside the sources.  A status of \<open>0\<close> is success, as for
  \<^verbatim>\<open>target_read_memory\<close> and \<^verbatim>\<open>target_write_memory\<close>; a read also gives the bytes it
  stored, byte \<open>i\<close> of the request at index \<open>i\<close>; a write gives the memory it leaves.
\<close>

record 'm target_ops =
  target_read_memory :: "'m \<Rightarrow> CORE_ADDR \<Rightarrow> nat \<Rightarrow> int \<times> (nat \<Rightarrow> gdb_byte)"
  target_write_memory :: "'m \<Rightarrow> CORE_ADDR \<Rightarrow> gdb_byte list \<Rightarrow> int \<times> 'm"

definition default_read_buf_size :: nat where
  "default_read_buf_size = 16"

definition default_write_buf_size :: nat where
  "default_write_buf_size = 16"

definition min_memory_port_buf_size :: nat where
  "min_memory_port_buf_size = 1"

definition max_memory_port_buf_size :: nat where
  "max_memory_port_buf_size = 4096"

definition out_of_range_buf_size :: string where
  "out_of_range_buf_size =
     ''size not between '' @ decimal min_memory_port_buf_size @ '' - ''
       @ decimal max_memory_port_buf_size"

definition SEEK_SET :: int where
  "SEEK_SET = 0"

definition SEEK_CUR :: int where
  "SEEK_CUR = 1"

definition SEEK_END :: int where
  "SEEK_END = 2"

definition EOF :: int where
  "EOF = - 1"

text \<open>\<^verbatim>\<open>ioscm_lseek_address\<close>: the result code and the updated stream data.\<close>

definition ioscm_lseek_address ::
  "ioscm_memory_port \<Rightarrow> LONGEST \<Rightarrow> int \<Rightarrow> failure + (int \<times> ioscm_memory_port)" where
  "ioscm_lseek_address iomem offset whence =
     (if \<not> iomem_current iomem \<le> iomem_size iomem then
        Inl (Internal_error ''iomem->current <= iomem->size'')
      else
        (let finish = (\<lambda>new_current.
               if new_current > iomem_size iomem then Inr (0, iomem)
               else Inr (1, iomem\<lparr>iomem_current := new_current\<rparr>))
         in if whence = SEEK_CUR then
              (if (offset <s 0 \<and> iomem_current iomem + offset > iomem_current iomem)
                  \<or> (0 \<le>s offset \<and> iomem_current iomem + offset < iomem_current iomem)
               then Inr (0, iomem)
               else finish (iomem_current iomem + offset))
            else if whence = SEEK_SET then finish offset
            else if whence = SEEK_END then
              (if offset = 0 then finish (iomem_size iomem) else Inr (0, iomem))
            else Inr (0, iomem)))"

text \<open>
  \<^verbatim>\<open>gdbscm_memory_port_fill_input\<close>: \<^verbatim>\<open>EOF\<close> or the first byte read.  Every port method
  returns its outcome together with the port as the call leaves it, also when it throws.
\<close>

definition gdbscm_memory_port_fill_input ::
  "'m target_ops \<Rightarrow> memory_port \<Rightarrow> 'm \<Rightarrow> (failure + int) \<times> memory_port" where
  "gdbscm_memory_port_fill_input ops p m =
     (let iomem = stream p
      in if iomem_current iomem \<ge> iomem_size iomem then (Inr EOF, p)
         else
           (let to_read =
                  (if pt_read_buf_size (pt p) > unat (iomem_size iomem - iomem_current iomem)
                   then unat (iomem_size iomem - iomem_current iomem)
                   else pt_read_buf_size (pt p))
            in case target_read_memory ops m (iomem_start iomem + iomem_current iomem) to_read of
                 (status, bytes) \<Rightarrow>
                   if status \<noteq> 0 then
                     (Inl (gdbscm_memory_error (Some ''gdbscm_memory_port_fill_input'')
                             (Some ''error reading memory'') SCM_EOL), p)
                   else
                     (Inr (uint (bytes 0)),
                      p\<lparr>pt := (pt p)\<lparr>pt_read_buf := map bytes [0..<to_read], pt_read_pos := 0\<rparr>,
                        stream := iomem\<lparr>iomem_current := iomem_current iomem + of_nat to_read\<rparr>\<rparr>)))"

text \<open>\<^verbatim>\<open>read_end - read_pos\<close> as a \<^verbatim>\<open>size_t\<close>.\<close>

definition read_remaining :: "scm_t_port \<Rightarrow> 64 word" where
  "read_remaining t = of_nat (length (pt_read_buf t)) - of_nat (pt_read_pos t)"

definition saved_read_remaining :: "scm_t_port \<Rightarrow> 64 word" where
  "saved_read_remaining t = of_nat (length (pt_saved_read_buf t)) - of_nat (pt_saved_read_pos t)"

definition gdbscm_memory_port_end_input ::
  "memory_port \<Rightarrow> 32 word \<Rightarrow> (failure + unit) \<times> memory_port" where
  "gdbscm_memory_port_end_input p offset =
     (let remaining = read_remaining (pt p)
      in if (offset <s 0 \<and> remaining + scast offset > remaining)
            \<or> (0 <s offset \<and> remaining + scast offset < remaining)
         then
           (Inl (gdbscm_out_of_range_error (Some ''gdbscm_memory_port_end_input'') 0
                   (SCM_Integer (sint offset)) ''overflow in offset calculation''), p)
         else
           (let offset' = (ucast (scast offset + remaining :: 64 word) :: 32 word)
            in if 0 <s offset' then
                 (let p1 = p\<lparr>pt := (pt p)\<lparr>pt_read_pos := length (pt_read_buf (pt p))\<rparr>\<rparr>
                  in case ioscm_lseek_address (stream p1) (scast (- offset')) SEEK_CUR of
                       Inl f \<Rightarrow> (Inl f, p1)
                     | Inr (rc, iomem') \<Rightarrow>
                         if rc = 0 then
                           (Inl (gdbscm_out_of_range_error
                                   (Some ''gdbscm_memory_port_end_input'') 0
                                   (SCM_Integer (sint offset')) ''bad offset''),
                            p1\<lparr>stream := iomem'\<rparr>)
                         else
                           (Inr (),
                            p1\<lparr>stream := iomem',
                               pt := (pt p1)\<lparr>pt_rw_active := SCM_PORT_NEITHER\<rparr>\<rparr>))
               else (Inr (), p\<lparr>pt := (pt p)\<lparr>pt_rw_active := SCM_PORT_NEITHER\<rparr>\<rparr>)))"

text \<open>
  Guile's \<^verbatim>\<open>scm_end_input\<close>, which the seek method calls: it drops the putback buffer,
  restoring the saved read buffer, and hands the count of its unread bytes to the port's
  \<^verbatim>\<open>end_input\<close> method.
\<close>

definition scm_end_input :: "memory_port \<Rightarrow> (failure + unit) \<times> memory_port" where
  "scm_end_input p =
     (if pt_putback (pt p) then
        gdbscm_memory_port_end_input
          (p\<lparr>pt := (pt p)\<lparr>pt_putback := False,
                            pt_read_buf := pt_saved_read_buf (pt p),
                            pt_read_pos := pt_saved_read_pos (pt p),
                            pt_read_buf_size := pt_saved_read_buf_size (pt p)\<rparr>\<rparr>)
          (ucast (read_remaining (pt p)))
      else gdbscm_memory_port_end_input p 0)"

definition gdbscm_memory_port_flush ::
  "'m target_ops \<Rightarrow> memory_port \<Rightarrow> 'm \<Rightarrow> (failure + unit) \<times> memory_port \<times> 'm" where
  "gdbscm_memory_port_flush ops p m =
     (let iomem = stream p; to_write = length (pt_write_buf (pt p))
      in if to_write = 0 then (Inr (), p, m)
         else if to_write > unat (iomem_size iomem - iomem_current iomem) then
           (Inl (gdbscm_out_of_range_error (Some ''gdbscm_memory_port_flush'') 0
                   (SCM_Integer (int to_write)) ''writing beyond end of memory range''), p, m)
         else
           (case target_write_memory ops m (iomem_start iomem + iomem_current iomem)
                   (pt_write_buf (pt p)) of
              (status, m') \<Rightarrow>
                if status \<noteq> 0 then
                  (Inl (gdbscm_memory_error (Some ''gdbscm_memory_port_flush'')
                          (Some ''error writing memory'') SCM_EOL), p, m')
                else
                  (Inr (),
                   p\<lparr>stream := iomem\<lparr>iomem_current := iomem_current iomem + of_nat to_write\<rparr>,
                     pt := (pt p)\<lparr>pt_write_buf := [], pt_rw_active := SCM_PORT_NEITHER\<rparr>\<rparr>,
                   m')))"

definition gdbscm_memory_port_write ::
  "'m target_ops \<Rightarrow> memory_port \<Rightarrow> 'm \<Rightarrow> gdb_byte list
     \<Rightarrow> (failure + unit) \<times> memory_port \<times> 'm" where
  "gdbscm_memory_port_write ops p m data =
     (case gdbscm_memory_port_flush ops p m of
        (Inl f, p1, m1) \<Rightarrow> (Inl f, p1, m1)
      | (Inr u, p1, m1) \<Rightarrow>
          (let iomem = stream p1
           in if length data > unat (iomem_size iomem - iomem_current iomem) then
                (Inl (gdbscm_out_of_range_error (Some ''gdbscm_memory_port_write'') 0
                        (SCM_Integer (int (length data)))
                        ''writing beyond end of memory range''), p1, m1)
              else
                (case target_write_memory ops m1 (iomem_start iomem + iomem_current iomem) data of
                   (status, m2) \<Rightarrow>
                     if status \<noteq> 0 then
                       (Inl (gdbscm_memory_error (Some ''gdbscm_memory_port_write'')
                               (Some ''error writing memory'') SCM_EOL), p1, m2)
                     else
                       (Inr (),
                        p1\<lparr>stream :=
                             iomem\<lparr>iomem_current := iomem_current iomem + of_nat (length data)\<rparr>\<rparr>,
                        m2))))"

text \<open>
  \<^verbatim>\<open>gdbscm_memory_port_seek\<close>.  Each branch computes a result code and, when that is
  non-zero, the position to report; a zero code is the \<^verbatim>\<open>bad seek\<close> error.
\<close>

definition seek_report ::
  "LONGEST \<Rightarrow> int \<Rightarrow> CORE_ADDR \<Rightarrow> (failure + 64 word)" where
  "seek_report offset rc result =
     (if rc = 0 then
        Inl (gdbscm_out_of_range_error (Some ''gdbscm_memory_port_seek'') 0
               (SCM_Integer (sint offset)) ''bad seek'')
      else Inr result)"

definition gdbscm_memory_port_seek ::
  "'m target_ops \<Rightarrow> memory_port \<Rightarrow> 'm \<Rightarrow> LONGEST \<Rightarrow> int
     \<Rightarrow> (failure + 64 word) \<times> memory_port \<times> 'm" where
  "gdbscm_memory_port_seek ops p m offset whence =
     (if pt_rw_active (pt p) = SCM_PORT_WRITE then
        (if offset \<noteq> 0 \<or> whence \<noteq> SEEK_CUR then
           (case gdbscm_memory_port_flush ops p m of
              (Inl f, p1, m1) \<Rightarrow> (Inl f, p1, m1)
            | (Inr u, p1, m1) \<Rightarrow>
                (case ioscm_lseek_address (stream p1) offset whence of
                   Inl f \<Rightarrow> (Inl f, p1, m1)
                 | Inr (rc, iomem') \<Rightarrow>
                     (seek_report offset rc (iomem_current iomem'), p1\<lparr>stream := iomem'\<rparr>, m1)))
         else
           (let current = iomem_current (stream p);
                delta = (of_nat (length (pt_write_buf (pt p))) :: 64 word)
            in if current + delta < current \<or> current + delta > iomem_size (stream p) + 1
               then (seek_report offset 0 0, p, m)
               else (seek_report offset 1 (current + delta), p, m)))
      else if pt_rw_active (pt p) = SCM_PORT_READ then
        (if offset \<noteq> 0 \<or> whence \<noteq> SEEK_CUR then
           (case scm_end_input p of
              (Inl f, p1) \<Rightarrow> (Inl f, p1, m)
            | (Inr u, p1) \<Rightarrow>
                (case ioscm_lseek_address (stream p1) offset whence of
                   Inl f \<Rightarrow> (Inl f, p1, m)
                 | Inr (rc, iomem') \<Rightarrow>
                     (seek_report offset rc (iomem_current iomem'), p1\<lparr>stream := iomem'\<rparr>, m)))
         else
           (let current = iomem_current (stream p);
                remaining = read_remaining (pt p)
            in if current - remaining > current \<or> current - remaining < iomem_start (stream p)
               then (seek_report offset 0 0, p, m)
               else
                 (let result = current - remaining
                  in if pt_putback (pt p) then
                       (let saved_remaining = saved_read_remaining (pt p)
                        in if result - saved_remaining > result
                              \<or> result - saved_remaining < iomem_start (stream p)
                           then (seek_report offset 0 result, p, m)
                           else (seek_report offset 1 (result - saved_remaining), p, m))
                     else (seek_report offset 1 result, p, m))))
      else
        (case ioscm_lseek_address (stream p) offset whence of
           Inl f \<Rightarrow> (Inl f, p, m)
         | Inr (rc, iomem') \<Rightarrow>
             (seek_report offset rc (iomem_current iomem'), p\<lparr>stream := iomem'\<rparr>, m)))"

text \<open>
  \<^verbatim>\<open>ioscm_parse_mode_bits\<close>, with Guile's \<^verbatim>\<open>scm_mode_bits\<close>, which reads the flags off the
  characters of the mode string.
\<close>

definition scm_mode_bits :: "string \<Rightarrow> mode_bit set" where
  "scm_mode_bits mode =
     {SCM_OPN}
     \<union> (if CHR ''r'' \<in> set mode \<or> CHR ''+'' \<in> set mode then {SCM_RDNG} else {})
     \<union> (if CHR ''w'' \<in> set mode \<or> CHR ''a'' \<in> set mode \<or> CHR ''+'' \<in> set mode
        then {SCM_WRTNG} else {})
     \<union> (if CHR ''0'' \<in> set mode then {SCM_BUF0} else {})
     \<union> (if CHR ''l'' \<in> set mode then {SCM_BUFLINE} else {})"

definition bad_mode_string :: "string \<Rightarrow> string \<Rightarrow> failure" where
  "bad_mode_string func_name mode =
     gdbscm_out_of_range_error (Some func_name) 0 (SCM_String mode) ''bad mode string''"

definition ioscm_parse_mode_bits :: "string \<Rightarrow> string \<Rightarrow> failure + mode_bit set" where
  "ioscm_parse_mode_bits func_name mode =
     (case mode of
        [] \<Rightarrow> Inl (bad_mode_string func_name mode)
      | c # rest \<Rightarrow>
          if c \<noteq> CHR ''r'' \<and> c \<noteq> CHR ''w'' then Inl (bad_mode_string func_name mode)
          else if \<not> list_all (\<lambda>x. x = CHR ''b'' \<or> x = CHR ''+'') rest
            then Inl (bad_mode_string func_name mode)
          else Inr (scm_mode_bits mode))"

text \<open>
  \<^verbatim>\<open>ioscm_open_port\<close> and \<^verbatim>\<open>ioscm_init_memory_port\<close>: a fresh port table entry, neither
  reading nor writing, with both buffers empty.
\<close>

definition ioscm_init_memory_port ::
  "mode_bit set \<Rightarrow> CORE_ADDR \<Rightarrow> CORE_ADDR \<Rightarrow> failure + memory_port" where
  "ioscm_init_memory_port bits start end_addr =
     (if \<not> start \<le> end_addr then Inl (Internal_error ''start <= end'')
      else if \<not> end_addr < NOT 0 then Inl (Internal_error ''end < ~(CORE_ADDR) 0'')
      else
        Inr \<lparr>mode_bits = bits,
             stream = \<lparr>iomem_start = start, iomem_end = end_addr,
                       iomem_size = end_addr - start + 1, iomem_current = 0,
                       iomem_read_buf_size = default_read_buf_size,
                       iomem_write_buf_size = default_write_buf_size\<rparr>,
             pt = \<lparr>pt_rw_random = True, pt_rw_active = SCM_PORT_NEITHER,
                   pt_read_buf_size = default_read_buf_size, pt_read_buf = [], pt_read_pos = 0,
                   pt_write_buf_size = default_write_buf_size, pt_write_buf = [],
                   pt_putback = False, pt_saved_read_buf_size = 0, pt_saved_read_buf = [],
                   pt_saved_read_pos = 0\<rparr>\<rparr>)"

text \<open>
  \<^verbatim>\<open>gdbscm_open_memory\<close>, on the arguments as \<^verbatim>\<open>gdbscm_parse_function_args\<close> leaves them:
  each of \<^verbatim>\<open>#:mode\<close>, \<^verbatim>\<open>#:start\<close> and \<^verbatim>\<open>#:size\<close> given or not.
\<close>

definition gdbscm_open_memory ::
  "string option \<Rightarrow> CORE_ADDR option \<Rightarrow> ULONGEST option \<Rightarrow> failure + memory_port" where
  "gdbscm_open_memory mode_arg start_arg size_arg =
     (let mode = (case mode_arg of None \<Rightarrow> ''r'' | Some s \<Rightarrow> s);
          start = (case start_arg of None \<Rightarrow> 0 | Some a \<Rightarrow> a)
      in if start = NOT 0 then
           Inl (gdbscm_out_of_range_error (Some ''gdbscm_open_memory'') 1 (SCM_Integer (- 1))
                  ''start address of 0xff..ff not allowed'')
         else
           (case (case size_arg of
                    Some sz \<Rightarrow>
                      if sz = 0 then
                        Inl (gdbscm_out_of_range_error (Some ''gdbscm_open_memory'') 0
                               (SCM_Integer 0) ''zero size'')
                      else if start + sz < start then
                        Inl (gdbscm_out_of_range_error (Some ''gdbscm_open_memory'') 0
                               (scm_list_2 (SCM_Integer (uint start)) (SCM_Integer (uint sz)))
                               ''start+size overflows'')
                      else if start + sz - 1 = NOT 0 then
                        Inl (gdbscm_out_of_range_error (Some ''gdbscm_open_memory'') 0
                               (scm_list_2 (SCM_Integer (uint start)) (SCM_Integer (uint sz)))
                               ''end address of 0xff..ff not allowed'')
                      else Inr (start + sz - 1)
                  | None \<Rightarrow> Inr (NOT 0 - 1)) of
              Inl f \<Rightarrow> Inl f
            | Inr end_addr \<Rightarrow>
                (case ioscm_parse_mode_bits ''gdbscm_open_memory'' mode of
                   Inl f \<Rightarrow> Inl f
                 | Inr bits \<Rightarrow> ioscm_init_memory_port bits start end_addr)))"

text \<open>
  \<^verbatim>\<open>ioscm_reinit_memory_port\<close>; \<open>port\<close> is the port as a Scheme value, for the error's
  argument list.  A fresh buffer delimits no bytes.
\<close>

definition scm_misc_error :: "string \<Rightarrow> string \<Rightarrow> scm \<Rightarrow> failure" where
  "scm_misc_error subr msg args =
     Throw scm_misc_error_key (scm_list_4 (SCM_String subr) (SCM_String msg) args SCM_BOOL_F)"

definition ioscm_reinit_memory_port ::
  "scm \<Rightarrow> memory_port \<Rightarrow> nat \<Rightarrow> nat \<Rightarrow> string \<Rightarrow> failure + memory_port" where
  "ioscm_reinit_memory_port port p read_buf_size write_buf_size func_name =
     (if \<not> (read_buf_size \<ge> min_memory_port_buf_size
             \<and> read_buf_size \<le> max_memory_port_buf_size) then
        Inl (Internal_error ''read_buf_size >= min_memory_port_buf_size && read_buf_size <= max_memory_port_buf_size'')
      else if \<not> (write_buf_size \<ge> min_memory_port_buf_size
                  \<and> write_buf_size \<le> max_memory_port_buf_size) then
        Inl (Internal_error ''write_buf_size >= min_memory_port_buf_size && write_buf_size <= max_memory_port_buf_size'')
      else if read_buf_size \<noteq> pt_read_buf_size (pt p) \<and> pt_read_buf (pt p) \<noteq> [] then
        Inl (scm_misc_error func_name ''read buffer not empty: ~a'' (scm_list_1 port))
      else if write_buf_size \<noteq> pt_write_buf_size (pt p) \<and> pt_write_buf (pt p) \<noteq> [] then
        Inl (scm_misc_error func_name ''write buffer not empty: ~a'' (scm_list_1 port))
      else
        (let p1 =
               (if read_buf_size \<noteq> pt_read_buf_size (pt p) then
                  p\<lparr>stream := (stream p)\<lparr>iomem_read_buf_size := read_buf_size\<rparr>,
                    pt := (pt p)\<lparr>pt_read_buf_size := read_buf_size,
                                  pt_read_buf := [], pt_read_pos := 0\<rparr>\<rparr>
                else p);
             p2 =
               (if write_buf_size \<noteq> pt_write_buf_size (pt p1) then
                  p1\<lparr>stream := (stream p1)\<lparr>iomem_write_buf_size := write_buf_size\<rparr>,
                     pt := (pt p1)\<lparr>pt_write_buf_size := write_buf_size, pt_write_buf := []\<rparr>\<rparr>
                else p1)
         in Inr p2))"

text \<open>
  The port table: the memory ports that exist, by the number in their Scheme value.
  \<^verbatim>\<open>gdbscm_is_memory_port\<close> holds of exactly those.
\<close>

type_synonym port_table = "nat \<rightharpoonup> memory_port"

definition memory_port_desc_name :: string where
  "memory_port_desc_name = ''gdb:memory-port''"

definition gdbscm_is_memory_port :: "port_table \<Rightarrow> scm \<Rightarrow> bool" where
  "gdbscm_is_memory_port tbl obj = (case obj of SCM_Port n \<Rightarrow> tbl n \<noteq> None | _ \<Rightarrow> False)"

definition scm_is_integer :: "scm \<Rightarrow> bool" where
  "scm_is_integer x = (case x of SCM_Integer i \<Rightarrow> True | _ \<Rightarrow> False)"

definition scm_is_unsigned_integer :: "scm \<Rightarrow> nat \<Rightarrow> nat \<Rightarrow> bool" where
  "scm_is_unsigned_integer x lo hi =
     (case x of SCM_Integer i \<Rightarrow> int lo \<le> i \<and> i \<le> int hi | _ \<Rightarrow> False)"

definition scm_to_uint :: "scm \<Rightarrow> nat" where
  "scm_to_uint x = (case x of SCM_Integer i \<Rightarrow> nat i | _ \<Rightarrow> 0)"

definition gdbscm_memory_port_range :: "port_table \<Rightarrow> scm \<Rightarrow> failure + scm" where
  "gdbscm_memory_port_range tbl port =
     (case (case port of SCM_Port n \<Rightarrow> tbl n | _ \<Rightarrow> None) of
        None \<Rightarrow>
          Inl (scm_wrong_type_arg_msg ''gdbscm_memory_port_range'' 1 port memory_port_desc_name)
      | Some p \<Rightarrow>
          Inr (scm_list_2 (SCM_Integer (uint (iomem_start (stream p))))
                 (SCM_Integer (uint (iomem_end (stream p))))))"

definition gdbscm_memory_port_read_buffer_size :: "port_table \<Rightarrow> scm \<Rightarrow> failure + scm" where
  "gdbscm_memory_port_read_buffer_size tbl port =
     (case (case port of SCM_Port n \<Rightarrow> tbl n | _ \<Rightarrow> None) of
        None \<Rightarrow>
          Inl (scm_wrong_type_arg_msg ''gdbscm_memory_port_read_buffer_size'' 1 port
                 memory_port_desc_name)
      | Some p \<Rightarrow> Inr (SCM_Integer (int (iomem_read_buf_size (stream p)))))"

definition gdbscm_memory_port_write_buffer_size :: "port_table \<Rightarrow> scm \<Rightarrow> failure + scm" where
  "gdbscm_memory_port_write_buffer_size tbl port =
     (case (case port of SCM_Port n \<Rightarrow> tbl n | _ \<Rightarrow> None) of
        None \<Rightarrow>
          Inl (scm_wrong_type_arg_msg ''gdbscm_memory_port_write_buffer_size'' 1 port
                 memory_port_desc_name)
      | Some p \<Rightarrow> Inr (SCM_Integer (int (iomem_write_buf_size (stream p)))))"

text \<open>The two setters return \<^verbatim>\<open>SCM_UNSPECIFIED\<close> and the table with the port updated.\<close>

definition gdbscm_set_memory_port_read_buffer_size_x ::
  "port_table \<Rightarrow> scm \<Rightarrow> scm \<Rightarrow> failure + (scm \<times> port_table)" where
  "gdbscm_set_memory_port_read_buffer_size_x tbl port sz =
     (case port of
        SCM_Port n \<Rightarrow>
          (case tbl n of
             None \<Rightarrow>
               Inl (scm_wrong_type_arg_msg ''gdbscm_set_memory_port_read_buffer_size_x'' 1 port
                      memory_port_desc_name)
           | Some p \<Rightarrow>
               if \<not> scm_is_integer sz then
                 Inl (scm_wrong_type_arg_msg ''gdbscm_set_memory_port_read_buffer_size_x'' 2 sz
                        ''integer'')
               else if \<not> scm_is_unsigned_integer sz min_memory_port_buf_size
                            max_memory_port_buf_size then
                 Inl (gdbscm_out_of_range_error
                        (Some ''gdbscm_set_memory_port_read_buffer_size_x'') 2 sz
                        out_of_range_buf_size)
               else
                 (case ioscm_reinit_memory_port port p (scm_to_uint sz)
                         (iomem_write_buf_size (stream p))
                         ''gdbscm_set_memory_port_read_buffer_size_x'' of
                    Inl f \<Rightarrow> Inl f
                  | Inr p' \<Rightarrow> Inr (SCM_UNSPECIFIED, tbl(n \<mapsto> p'))))
      | _ \<Rightarrow>
          Inl (scm_wrong_type_arg_msg ''gdbscm_set_memory_port_read_buffer_size_x'' 1 port
                 memory_port_desc_name))"

definition gdbscm_set_memory_port_write_buffer_size_x ::
  "port_table \<Rightarrow> scm \<Rightarrow> scm \<Rightarrow> failure + (scm \<times> port_table)" where
  "gdbscm_set_memory_port_write_buffer_size_x tbl port sz =
     (case port of
        SCM_Port n \<Rightarrow>
          (case tbl n of
             None \<Rightarrow>
               Inl (scm_wrong_type_arg_msg ''gdbscm_set_memory_port_write_buffer_size_x'' 1 port
                      memory_port_desc_name)
           | Some p \<Rightarrow>
               if \<not> scm_is_integer sz then
                 Inl (scm_wrong_type_arg_msg ''gdbscm_set_memory_port_write_buffer_size_x'' 2 sz
                        ''integer'')
               else if \<not> scm_is_unsigned_integer sz min_memory_port_buf_size
                            max_memory_port_buf_size then
                 Inl (gdbscm_out_of_range_error
                        (Some ''gdbscm_set_memory_port_write_buffer_size_x'') 2 sz
                        out_of_range_buf_size)
               else
                 (case ioscm_reinit_memory_port port p (iomem_read_buf_size (stream p))
                         (scm_to_uint sz)
                         ''gdbscm_set_memory_port_write_buffer_size_x'' of
                    Inl f \<Rightarrow> Inl f
                  | Inr p' \<Rightarrow> Inr (SCM_UNSPECIFIED, tbl(n \<mapsto> p'))))
      | _ \<Rightarrow>
          Inl (scm_wrong_type_arg_msg ''gdbscm_set_memory_port_write_buffer_size_x'' 1 port
                 memory_port_desc_name))"
text \<open>
  The buffer sizes as \<^verbatim>\<open>ioscm_init_memory_port\<close> sets them and
  \<^verbatim>\<open>ioscm_reinit_memory_port\<close> keeps them: the sizes recorded in the stream data are those
  of the port table entry, and lie within the limits.
\<close>

definition memory_port_buf_sizes_ok :: "memory_port \<Rightarrow> bool" where
  "memory_port_buf_sizes_ok p =
     (iomem_read_buf_size (stream p) = pt_read_buf_size (pt p)
      \<and> iomem_write_buf_size (stream p) = pt_write_buf_size (pt p)
      \<and> min_memory_port_buf_size \<le> pt_read_buf_size (pt p)
      \<and> pt_read_buf_size (pt p) \<le> max_memory_port_buf_size
      \<and> min_memory_port_buf_size \<le> pt_write_buf_size (pt p)
      \<and> pt_write_buf_size (pt p) \<le> max_memory_port_buf_size)"


section \<open>Chained smobs (scm-smob.c)\<close>

text \<open>
  A \<^verbatim>\<open>chained_gdb_smob\<close> header.  The structs \<^verbatim>\<open>symtab_smob\<close>, \<^verbatim>\<open>symbol_smob\<close> and
  \<^verbatim>\<open>type_smob\<close> begin with it (the field \<^verbatim>\<open>base\<close>, always the first), so each is an
  extension of the header record, and the functions of \<^verbatim>\<open>scm-smob.c\<close> that take a
  \<^verbatim>\<open>chained_gdb_smob *\<close> work on all three.  The structs of one kind live in a heap, a list
  indexed by address; a pointer is an address or \<^verbatim>\<open>NULL\<close> (\<open>None\<close>).  The host's
  \<^verbatim>\<open>struct symtab\<close>, \<^verbatim>\<open>struct symbol\<close> and \<^verbatim>\<open>struct type\<close> are known by their addresses
  only.  \<open>objfile_heads\<close> is the per-objfile data slot of the kind's data key: for every
  live objfile, the head of its chain.
\<close>

record chained_gdb_smob =
  smob_aux :: scm
  smob_prev :: "nat option"
  smob_next :: "nat option"

record 's smob_world =
  smobs :: "'s list"
  objfile_heads :: "nat \<rightharpoonup> nat option"

definition gdbscm_init_gsmob :: "'a chained_gdb_smob_scheme \<Rightarrow> 'a chained_gdb_smob_scheme" where
  "gdbscm_init_gsmob base = base\<lparr>smob_aux := SCM_BOOL_F\<rparr>"

definition gdbscm_init_chained_gsmob ::
  "'a chained_gdb_smob_scheme \<Rightarrow> 'a chained_gdb_smob_scheme" where
  "gdbscm_init_chained_gsmob base = (gdbscm_init_gsmob base)\<lparr>smob_prev := None, smob_next := None\<rparr>"

definition objfile_data :: "'s smob_world \<Rightarrow> nat \<Rightarrow> nat option" where
  "objfile_data w objfile = (case objfile_heads w objfile of None \<Rightarrow> None | Some head \<Rightarrow> head)"

definition set_objfile_data :: "nat \<Rightarrow> nat option \<Rightarrow> 's smob_world \<Rightarrow> 's smob_world" where
  "set_objfile_data objfile datum w = w\<lparr>objfile_heads := (objfile_heads w)(objfile \<mapsto> datum)\<rparr>"

text \<open>A store through a pointer; a pointer outside the heap stores nothing.\<close>

definition update_base :: "nat \<Rightarrow> ('s \<Rightarrow> 's) \<Rightarrow> 's list \<Rightarrow> 's list" where
  "update_base a f h = (if a < length h then h[a := f (h ! a)] else h)"

definition gdbscm_add_objfile_ref ::
  "nat option \<Rightarrow> nat \<Rightarrow> ('a chained_gdb_smob_scheme) smob_world
     \<Rightarrow> ('a chained_gdb_smob_scheme) smob_world" where
  "gdbscm_add_objfile_ref objfile g_smob w =
     (let h1 = update_base g_smob (\<lambda>b. b\<lparr>smob_prev := None\<rparr>) (smobs w)
      in case objfile of
           Some obj \<Rightarrow>
             (let nxt = objfile_data w obj;
                  h2 = update_base g_smob (\<lambda>b. b\<lparr>smob_next := nxt\<rparr>) h1;
                  h3 = (case nxt of
                          Some n \<Rightarrow> update_base n (\<lambda>b. b\<lparr>smob_prev := Some g_smob\<rparr>) h2
                        | None \<Rightarrow> h2)
              in set_objfile_data obj (Some g_smob) (w\<lparr>smobs := h3\<rparr>))
         | None \<Rightarrow> w\<lparr>smobs := update_base g_smob (\<lambda>b. b\<lparr>smob_next := None\<rparr>) h1\<rparr>)"

definition gdbscm_remove_objfile_ref ::
  "nat option \<Rightarrow> nat \<Rightarrow> ('a chained_gdb_smob_scheme) smob_world
     \<Rightarrow> ('a chained_gdb_smob_scheme) smob_world" where
  "gdbscm_remove_objfile_ref objfile g_smob w =
     (if g_smob < length (smobs w) then
        (let g = smobs w ! g_smob;
             w1 = (case smob_prev g of
                     Some p \<Rightarrow>
                       w\<lparr>smobs := update_base p (\<lambda>b. b\<lparr>smob_next := smob_next g\<rparr>) (smobs w)\<rparr>
                   | None \<Rightarrow>
                       (case objfile of
                          Some obj \<Rightarrow> set_objfile_data obj (smob_next g) w
                        | None \<Rightarrow> w))
         in case smob_next g of
              Some n \<Rightarrow>
                w1\<lparr>smobs := update_base n (\<lambda>b. b\<lparr>smob_prev := smob_prev g\<rparr>) (smobs w1)\<rparr>
            | None \<Rightarrow> w1)
      else w)"

definition scm_from_bool :: "bool \<Rightarrow> scm" where
  "scm_from_bool b = (if b then SCM_BOOL_T else SCM_BOOL_F)"

text \<open>
  The chain that starts at pointer \<open>p\<close>: the addresses met by following \<^verbatim>\<open>next\<close> until
  \<^verbatim>\<open>NULL\<close>, each inside the heap.
\<close>

fun chain :: "('a chained_gdb_smob_scheme) list \<Rightarrow> nat option \<Rightarrow> nat list \<Rightarrow> bool" where
  "chain h p [] = (p = None)"
| "chain h p (a # as) = (p = Some a \<and> a < length h \<and> chain h (smob_next (h ! a)) as)"


section \<open>Symbol tables (scm-symtab.c)\<close>

record symtab_smob = chained_gdb_smob +
  st_symtab :: "nat option"

type_synonym symtab_world = "symtab_smob smob_world"

text \<open>
  What the host reads off a \<^verbatim>\<open>struct symtab\<close> and how it presents objfiles and blocks to
  Scheme: outside the sources, so parameters of the accessors.
\<close>

record symtab_host =
  symtab_objfile :: "nat \<Rightarrow> nat"
  symtab_to_filename_for_display :: "nat \<Rightarrow> string"
  symtab_to_fullname :: "nat \<Rightarrow> string"
  symtab_global_block :: "nat \<Rightarrow> nat"
  symtab_static_block :: "nat \<Rightarrow> nat"
  ofscm_scm_from_objfile_unsafe :: "nat \<Rightarrow> failure + scm"
  bkscm_scm_from_block_unsafe :: "nat \<Rightarrow> nat \<Rightarrow> failure + scm"

definition symtab_smob_name :: string where
  "symtab_smob_name = ''gdb:symtab''"

text \<open>
  \<^verbatim>\<open>stscm_make_symtab_smob\<close>: the new struct takes the next free address, and the
  Scheme value made for it holds that address.
\<close>

definition stscm_make_symtab_smob :: "symtab_world \<Rightarrow> scm \<times> symtab_world" where
  "stscm_make_symtab_smob w =
     (Symtab_smob (length (smobs w)),
      w\<lparr>smobs := smobs w @
           [gdbscm_init_chained_gsmob
              \<lparr>smob_aux = SCM_UNSPECIFIED, smob_prev = None, smob_next = None,
               st_symtab = None\<rparr>]\<rparr>)"

definition stscm_is_symtab :: "scm \<Rightarrow> bool" where
  "stscm_is_symtab x = SCM_SMOB_PREDICATE symtab_smob_tag x"

fun symtab_smob_data :: "scm \<Rightarrow> nat" where
  "symtab_smob_data (Symtab_smob a) = a"
| "symtab_smob_data x = 0"

definition stscm_gsmob_from_symtab ::
  "'h symtab_host_scheme \<Rightarrow> nat \<Rightarrow> symtab_world \<Rightarrow> scm \<times> symtab_world" where
  "stscm_gsmob_from_symtab host symtab w =
     (case stscm_make_symtab_smob w of
        (st_scm, w1) \<Rightarrow>
          (let a = symtab_smob_data st_scm;
               w2 = gdbscm_add_objfile_ref (Some (symtab_objfile host symtab)) a w1
           in (st_scm,
               w2\<lparr>smobs := update_base a (\<lambda>st_smob. st_smob\<lparr>st_symtab := Some symtab\<rparr>)
                              (smobs w2)\<rparr>)))"

definition stscm_scm_to_symtab_gsmob :: "gsmob_globals \<Rightarrow> evaluator \<Rightarrow> scm \<Rightarrow> scm" where
  "stscm_scm_to_symtab_gsmob g ev x = gdbscm_scm_to_gsmob_safe g ev x symtab_smob_tag"

definition stscm_get_symtab_arg_unsafe ::
  "gsmob_globals \<Rightarrow> evaluator \<Rightarrow> scm \<Rightarrow> int \<Rightarrow> string \<Rightarrow> failure + scm" where
  "stscm_get_symtab_arg_unsafe g ev self arg_pos func_name =
     (let st_scm = stscm_scm_to_symtab_gsmob g ev self
      in if gdbscm_is_exception st_scm then Inl (gdbscm_throw st_scm)
         else if \<not> stscm_is_symtab st_scm then
           Inl (scm_wrong_type_arg_msg func_name arg_pos self symtab_smob_name)
         else Inr st_scm)"

definition stscm_get_symtab_smob_arg_unsafe ::
  "gsmob_globals \<Rightarrow> evaluator \<Rightarrow> scm \<Rightarrow> int \<Rightarrow> string \<Rightarrow> failure + nat" where
  "stscm_get_symtab_smob_arg_unsafe g ev self arg_pos func_name =
     (case stscm_get_symtab_arg_unsafe g ev self arg_pos func_name of
        Inl f \<Rightarrow> Inl f
      | Inr st_scm \<Rightarrow> Inr (symtab_smob_data st_scm))"

definition stscm_is_valid :: "symtab_smob \<Rightarrow> bool" where
  "stscm_is_valid st_smob = (st_symtab st_smob \<noteq> None)"

text \<open>
  The accessors read the struct at the address in the handle; \<open>h\<close> is the heap.  The
  valid-handle check returns the host's \<^verbatim>\<open>struct symtab\<close> pointer it found.
\<close>

definition stscm_get_valid_symtab_smob_arg_unsafe ::
  "gsmob_globals \<Rightarrow> evaluator \<Rightarrow> symtab_smob list \<Rightarrow> scm \<Rightarrow> int \<Rightarrow> string \<Rightarrow> failure + nat" where
  "stscm_get_valid_symtab_smob_arg_unsafe g ev h self arg_pos func_name =
     (case stscm_get_symtab_smob_arg_unsafe g ev self arg_pos func_name of
        Inl f \<Rightarrow> Inl f
      | Inr a \<Rightarrow>
          (case (if a < length h then st_symtab (h ! a) else None) of
             None \<Rightarrow>
               Inl (gdbscm_invalid_object_error (Some func_name) arg_pos self
                      ''invalid <gdb:symtab>'')
           | Some symtab \<Rightarrow> Inr symtab))"

text \<open>
  \<^verbatim>\<open>stscm_del_objfile_symtab\<close>, the cleanup registered for \<^verbatim>\<open>stscm_objfile_data_key\<close>: the
  loop over the chain that starts at \<open>datum\<close>.  Each round clears the \<^verbatim>\<open>next\<close> pointer of
  the struct it visits, so the loop also ends on a chain that runs into itself.  The
  function writes nothing but the structs it visits.
\<close>

function stscm_del_objfile_symtab :: "nat \<Rightarrow> nat option \<Rightarrow> symtab_world \<Rightarrow> symtab_world" where
  "stscm_del_objfile_symtab objfile None w = w"
| "stscm_del_objfile_symtab objfile (Some st_smob) w =
     (if st_smob < length (smobs w) then
        stscm_del_objfile_symtab objfile (smob_next (smobs w ! st_smob))
          (w\<lparr>smobs := (smobs w)[st_smob :=
                 (smobs w ! st_smob)\<lparr>st_symtab := None, smob_next := None, smob_prev := None\<rparr>]\<rparr>)
      else w)"
  by pat_completeness auto
termination
proof (relation "measure (\<lambda>(objfile, p, w).
    2 * length (filter (\<lambda>s. smob_next s \<noteq> None) (smobs w))
      + (case p of None \<Rightarrow> 0 | Some a \<Rightarrow> 1))")
  show "wf (measure (\<lambda>(objfile, p, w).
    2 * length (filter (\<lambda>s. smob_next s \<noteq> None) (smobs w))
      + (case p of None \<Rightarrow> 0 | Some a \<Rightarrow> (1 :: nat))))"
    by simp
next
  fix objfile :: nat and w :: symtab_world and a :: nat
  assume a: "a < length (smobs w)"
  let ?P = "\<lambda>s :: symtab_smob. smob_next s \<noteq> None"
  let ?v = "(smobs w ! a)\<lparr>st_symtab := None, smob_next := None, smob_prev := None\<rparr>"
  have count: "i < length xs \<Longrightarrow>
      length (filter ?P (xs[i := v])) + (if ?P (xs ! i) then 1 else 0)
        = length (filter ?P xs) + (if ?P v then 1 else 0)" for xs i v
  proof (induction xs arbitrary: i)
    case Nil
    then show ?case by simp
  next
    case (Cons x xs)
    then show ?case by (cases i) auto
  qed
  have c: "length (filter ?P ((smobs w)[a := ?v])) + (if ?P (smobs w ! a) then 1 else 0)
             = length (filter ?P (smobs w))"
    using count [OF a, of ?v] by simp
  show "((objfile, smob_next (smobs w ! a), w\<lparr>smobs := (smobs w)[a := ?v]\<rparr>),
         (objfile, Some a, w)) \<in> measure (\<lambda>(objfile, p, w).
    2 * length (filter (\<lambda>s. smob_next s \<noteq> None) (smobs w))
      + (case p of None \<Rightarrow> 0 | Some a \<Rightarrow> 1))"
    using c by (cases "smob_next (smobs w ! a)") auto
qed

definition gdbscm_symtab_valid_p ::
  "gsmob_globals \<Rightarrow> evaluator \<Rightarrow> symtab_smob list \<Rightarrow> scm \<Rightarrow> failure + scm" where
  "gdbscm_symtab_valid_p g ev h self =
     (case stscm_get_symtab_smob_arg_unsafe g ev self 1 ''gdbscm_symtab_valid_p'' of
        Inl f \<Rightarrow> Inl f
      | Inr a \<Rightarrow> Inr (scm_from_bool (a < length h \<and> stscm_is_valid (h ! a))))"

definition gdbscm_symtab_filename ::
  "'h symtab_host_scheme \<Rightarrow> gsmob_globals \<Rightarrow> evaluator \<Rightarrow> symtab_smob list \<Rightarrow> scm
     \<Rightarrow> failure + scm" where
  "gdbscm_symtab_filename host g ev h self =
     (case stscm_get_valid_symtab_smob_arg_unsafe g ev h self 1 ''gdbscm_symtab_filename'' of
        Inl f \<Rightarrow> Inl f
      | Inr symtab \<Rightarrow> Inr (SCM_String (symtab_to_filename_for_display host symtab)))"

definition gdbscm_symtab_fullname ::
  "'h symtab_host_scheme \<Rightarrow> gsmob_globals \<Rightarrow> evaluator \<Rightarrow> symtab_smob list \<Rightarrow> scm
     \<Rightarrow> failure + scm" where
  "gdbscm_symtab_fullname host g ev h self =
     (case stscm_get_valid_symtab_smob_arg_unsafe g ev h self 1 ''gdbscm_symtab_fullname'' of
        Inl f \<Rightarrow> Inl f
      | Inr symtab \<Rightarrow> Inr (SCM_String (symtab_to_fullname host symtab)))"

definition gdbscm_symtab_objfile ::
  "'h symtab_host_scheme \<Rightarrow> gsmob_globals \<Rightarrow> evaluator \<Rightarrow> symtab_smob list \<Rightarrow> scm
     \<Rightarrow> failure + scm" where
  "gdbscm_symtab_objfile host g ev h self =
     (case stscm_get_valid_symtab_smob_arg_unsafe g ev h self 1 ''gdbscm_symtab_objfile'' of
        Inl f \<Rightarrow> Inl f
      | Inr symtab \<Rightarrow> ofscm_scm_from_objfile_unsafe host (symtab_objfile host symtab))"

definition gdbscm_symtab_global_block ::
  "'h symtab_host_scheme \<Rightarrow> gsmob_globals \<Rightarrow> evaluator \<Rightarrow> symtab_smob list \<Rightarrow> scm
     \<Rightarrow> failure + scm" where
  "gdbscm_symtab_global_block host g ev h self =
     (case stscm_get_valid_symtab_smob_arg_unsafe g ev h self 1 ''gdbscm_symtab_global_block'' of
        Inl f \<Rightarrow> Inl f
      | Inr symtab \<Rightarrow>
          bkscm_scm_from_block_unsafe host (symtab_global_block host symtab)
            (symtab_objfile host symtab))"

definition gdbscm_symtab_static_block ::
  "'h symtab_host_scheme \<Rightarrow> gsmob_globals \<Rightarrow> evaluator \<Rightarrow> symtab_smob list \<Rightarrow> scm
     \<Rightarrow> failure + scm" where
  "gdbscm_symtab_static_block host g ev h self =
     (case stscm_get_valid_symtab_smob_arg_unsafe g ev h self 1 ''gdbscm_symtab_static_block'' of
        Inl f \<Rightarrow> Inl f
      | Inr symtab \<Rightarrow>
          bkscm_scm_from_block_unsafe host (symtab_static_block host symtab)
            (symtab_objfile host symtab))"


section \<open>Symbols (scm-symbol.c)\<close>

record symbol_smob = chained_gdb_smob +
  s_symbol :: "nat option"

type_synonym symbol_world = "symbol_smob smob_world"

text \<open>
  What the host reads off a \<^verbatim>\<open>struct symbol\<close>, by the names of its macros; a symbol's
  symtab may be \<^verbatim>\<open>NULL\<close>.
\<close>

record symbol_host = symtab_host +
  SYMBOL_SYMTAB :: "nat \<Rightarrow> nat option"
  SYMBOL_NATURAL_NAME :: "nat \<Rightarrow> string"
  SYMBOL_LINKAGE_NAME :: "nat \<Rightarrow> string"
  SYMBOL_PRINT_NAME :: "nat \<Rightarrow> string"
  SYMBOL_CLASS :: "nat \<Rightarrow> int"
  SYMBOL_IS_ARGUMENT :: "nat \<Rightarrow> bool"
  SYMBOL_LINE :: "nat \<Rightarrow> int"

definition symbol_smob_name :: string where
  "symbol_smob_name = ''gdb:symbol''"

definition syscm_make_symbol_smob :: "symbol_world \<Rightarrow> scm \<times> symbol_world" where
  "syscm_make_symbol_smob w =
     (Symbol_smob (length (smobs w)),
      w\<lparr>smobs := smobs w @
           [gdbscm_init_chained_gsmob
              \<lparr>smob_aux = SCM_UNSPECIFIED, smob_prev = None, smob_next = None,
               s_symbol = None\<rparr>]\<rparr>)"

definition syscm_is_symbol :: "scm \<Rightarrow> bool" where
  "syscm_is_symbol x = SCM_SMOB_PREDICATE symbol_smob_tag x"

fun symbol_smob_data :: "scm \<Rightarrow> nat" where
  "symbol_smob_data (Symbol_smob a) = a"
| "symbol_smob_data x = 0"

definition syscm_gsmob_from_symbol ::
  "'h symbol_host_scheme \<Rightarrow> nat \<Rightarrow> symbol_world \<Rightarrow> scm \<times> symbol_world" where
  "syscm_gsmob_from_symbol host symbol w =
     (case syscm_make_symbol_smob w of
        (s_scm, w1) \<Rightarrow>
          (let a = symbol_smob_data s_scm;
               w2 = gdbscm_add_objfile_ref
                      (case SYMBOL_SYMTAB host symbol of
                         Some symtab \<Rightarrow> Some (symtab_objfile host symtab)
                       | None \<Rightarrow> None) a w1
           in (s_scm,
               w2\<lparr>smobs := update_base a (\<lambda>s_smob. s_smob\<lparr>s_symbol := Some symbol\<rparr>)
                              (smobs w2)\<rparr>)))"

definition syscm_scm_to_symbol_gsmob :: "gsmob_globals \<Rightarrow> evaluator \<Rightarrow> scm \<Rightarrow> scm" where
  "syscm_scm_to_symbol_gsmob g ev x = gdbscm_scm_to_gsmob_safe g ev x symbol_smob_tag"

definition syscm_get_symbol_arg_unsafe ::
  "gsmob_globals \<Rightarrow> evaluator \<Rightarrow> scm \<Rightarrow> int \<Rightarrow> string \<Rightarrow> failure + scm" where
  "syscm_get_symbol_arg_unsafe g ev self arg_pos func_name =
     (let s_scm = syscm_scm_to_symbol_gsmob g ev self
      in if gdbscm_is_exception s_scm then Inl (gdbscm_throw s_scm)
         else if \<not> syscm_is_symbol s_scm then
           Inl (scm_wrong_type_arg_msg func_name arg_pos self symbol_smob_name)
         else Inr s_scm)"

definition syscm_get_symbol_smob_arg_unsafe ::
  "gsmob_globals \<Rightarrow> evaluator \<Rightarrow> scm \<Rightarrow> int \<Rightarrow> string \<Rightarrow> failure + nat" where
  "syscm_get_symbol_smob_arg_unsafe g ev self arg_pos func_name =
     (case syscm_get_symbol_arg_unsafe g ev self arg_pos func_name of
        Inl f \<Rightarrow> Inl f
      | Inr s_scm \<Rightarrow> Inr (symbol_smob_data s_scm))"

definition syscm_is_valid :: "symbol_smob \<Rightarrow> bool" where
  "syscm_is_valid s_smob = (s_symbol s_smob \<noteq> None)"

text \<open>The valid-handle check returns the host's \<^verbatim>\<open>struct symbol\<close> pointer it found.\<close>

definition syscm_get_valid_symbol_smob_arg_unsafe ::
  "gsmob_globals \<Rightarrow> evaluator \<Rightarrow> symbol_smob list \<Rightarrow> scm \<Rightarrow> int \<Rightarrow> string \<Rightarrow> failure + nat" where
  "syscm_get_valid_symbol_smob_arg_unsafe g ev h self arg_pos func_name =
     (case syscm_get_symbol_smob_arg_unsafe g ev self arg_pos func_name of
        Inl f \<Rightarrow> Inl f
      | Inr a \<Rightarrow>
          (case (if a < length h then s_symbol (h ! a) else None) of
             None \<Rightarrow>
               Inl (gdbscm_invalid_object_error (Some func_name) arg_pos self
                      ''invalid <gdb:symbol>'')
           | Some symbol \<Rightarrow> Inr symbol))"

text \<open>
  \<^verbatim>\<open>syscm_del_objfile_symbols\<close>, the cleanup registered for \<^verbatim>\<open>syscm_objfile_data_key\<close>.
\<close>

function syscm_del_objfile_symbols :: "nat \<Rightarrow> nat option \<Rightarrow> symbol_world \<Rightarrow> symbol_world" where
  "syscm_del_objfile_symbols objfile None w = w"
| "syscm_del_objfile_symbols objfile (Some s_smob) w =
     (if s_smob < length (smobs w) then
        syscm_del_objfile_symbols objfile (smob_next (smobs w ! s_smob))
          (w\<lparr>smobs := (smobs w)[s_smob :=
                 (smobs w ! s_smob)\<lparr>s_symbol := None, smob_next := None, smob_prev := None\<rparr>]\<rparr>)
      else w)"
  by pat_completeness auto
termination
proof (relation "measure (\<lambda>(objfile, p, w).
    2 * length (filter (\<lambda>s. smob_next s \<noteq> None) (smobs w))
      + (case p of None \<Rightarrow> 0 | Some a \<Rightarrow> 1))")
  show "wf (measure (\<lambda>(objfile, p, w).
    2 * length (filter (\<lambda>s. smob_next s \<noteq> None) (smobs w))
      + (case p of None \<Rightarrow> 0 | Some a \<Rightarrow> (1 :: nat))))"
    by simp
next
  fix objfile :: nat and w :: symbol_world and a :: nat
  assume a: "a < length (smobs w)"
  let ?P = "\<lambda>s :: symbol_smob. smob_next s \<noteq> None"
  let ?v = "(smobs w ! a)\<lparr>s_symbol := None, smob_next := None, smob_prev := None\<rparr>"
  have count: "i < length xs \<Longrightarrow>
      length (filter ?P (xs[i := v])) + (if ?P (xs ! i) then 1 else 0)
        = length (filter ?P xs) + (if ?P v then 1 else 0)" for xs i v
  proof (induction xs arbitrary: i)
    case Nil
    then show ?case by simp
  next
    case (Cons x xs)
    then show ?case by (cases i) auto
  qed
  have c: "length (filter ?P ((smobs w)[a := ?v])) + (if ?P (smobs w ! a) then 1 else 0)
             = length (filter ?P (smobs w))"
    using count [OF a, of ?v] by simp
  show "((objfile, smob_next (smobs w ! a), w\<lparr>smobs := (smobs w)[a := ?v]\<rparr>),
         (objfile, Some a, w)) \<in> measure (\<lambda>(objfile, p, w).
    2 * length (filter (\<lambda>s. smob_next s \<noteq> None) (smobs w))
      + (case p of None \<Rightarrow> 0 | Some a \<Rightarrow> 1))"
    using c by (cases "smob_next (smobs w ! a)") auto
qed

definition gdbscm_symbol_valid_p ::
  "gsmob_globals \<Rightarrow> evaluator \<Rightarrow> symbol_smob list \<Rightarrow> scm \<Rightarrow> failure + scm" where
  "gdbscm_symbol_valid_p g ev h self =
     (case syscm_get_symbol_smob_arg_unsafe g ev self 1 ''gdbscm_symbol_valid_p'' of
        Inl f \<Rightarrow> Inl f
      | Inr a \<Rightarrow> Inr (scm_from_bool (a < length h \<and> syscm_is_valid (h ! a))))"

definition gdbscm_symbol_name ::
  "'h symbol_host_scheme \<Rightarrow> gsmob_globals \<Rightarrow> evaluator \<Rightarrow> symbol_smob list \<Rightarrow> scm
     \<Rightarrow> failure + scm" where
  "gdbscm_symbol_name host g ev h self =
     (case syscm_get_valid_symbol_smob_arg_unsafe g ev h self 1 ''gdbscm_symbol_name'' of
        Inl f \<Rightarrow> Inl f
      | Inr symbol \<Rightarrow> Inr (SCM_String (SYMBOL_NATURAL_NAME host symbol)))"

definition gdbscm_symbol_linkage_name ::
  "'h symbol_host_scheme \<Rightarrow> gsmob_globals \<Rightarrow> evaluator \<Rightarrow> symbol_smob list \<Rightarrow> scm
     \<Rightarrow> failure + scm" where
  "gdbscm_symbol_linkage_name host g ev h self =
     (case syscm_get_valid_symbol_smob_arg_unsafe g ev h self 1 ''gdbscm_symbol_linkage_name'' of
        Inl f \<Rightarrow> Inl f
      | Inr symbol \<Rightarrow> Inr (SCM_String (SYMBOL_LINKAGE_NAME host symbol)))"

definition gdbscm_symbol_print_name ::
  "'h symbol_host_scheme \<Rightarrow> gsmob_globals \<Rightarrow> evaluator \<Rightarrow> symbol_smob list \<Rightarrow> scm
     \<Rightarrow> failure + scm" where
  "gdbscm_symbol_print_name host g ev h self =
     (case syscm_get_valid_symbol_smob_arg_unsafe g ev h self 1 ''gdbscm_symbol_print_name'' of
        Inl f \<Rightarrow> Inl f
      | Inr symbol \<Rightarrow> Inr (SCM_String (SYMBOL_PRINT_NAME host symbol)))"

definition gdbscm_symbol_addr_class ::
  "'h symbol_host_scheme \<Rightarrow> gsmob_globals \<Rightarrow> evaluator \<Rightarrow> symbol_smob list \<Rightarrow> scm
     \<Rightarrow> failure + scm" where
  "gdbscm_symbol_addr_class host g ev h self =
     (case syscm_get_valid_symbol_smob_arg_unsafe g ev h self 1 ''gdbscm_symbol_addr_class'' of
        Inl f \<Rightarrow> Inl f
      | Inr symbol \<Rightarrow> Inr (SCM_Integer (SYMBOL_CLASS host symbol)))"

definition gdbscm_symbol_argument_p ::
  "'h symbol_host_scheme \<Rightarrow> gsmob_globals \<Rightarrow> evaluator \<Rightarrow> symbol_smob list \<Rightarrow> scm
     \<Rightarrow> failure + scm" where
  "gdbscm_symbol_argument_p host g ev h self =
     (case syscm_get_valid_symbol_smob_arg_unsafe g ev h self 1 ''gdbscm_symbol_argument_p'' of
        Inl f \<Rightarrow> Inl f
      | Inr symbol \<Rightarrow> Inr (scm_from_bool (SYMBOL_IS_ARGUMENT host symbol)))"

definition gdbscm_symbol_line ::
  "'h symbol_host_scheme \<Rightarrow> gsmob_globals \<Rightarrow> evaluator \<Rightarrow> symbol_smob list \<Rightarrow> scm
     \<Rightarrow> failure + scm" where
  "gdbscm_symbol_line host g ev h self =
     (case syscm_get_valid_symbol_smob_arg_unsafe g ev h self 1 ''gdbscm_symbol_line'' of
        Inl f \<Rightarrow> Inl f
      | Inr symbol \<Rightarrow> Inr (SCM_Integer (SYMBOL_LINE host symbol)))"


section \<open>Types (scm-type.c)\<close>

record type_smob = chained_gdb_smob +
  t_type :: "nat option"

type_synonym type_world = "type_smob smob_world"

text \<open>
  What the host does with a \<^verbatim>\<open>struct type *\<close>, by the names of its functions and macros:
  outside the sources, so parameters.  \<^verbatim>\<open>copy_type_recursive\<close> is given the objfile and the
  type, the table of copied types being empty at every call.  The accessors hand the
  pointer they find to the host as it is.
\<close>

record type_host =
  TYPE_OBJFILE :: "nat \<Rightarrow> nat option"
  copy_type_recursive :: "nat \<Rightarrow> nat option \<Rightarrow> nat option"
  TYPE_CODE :: "nat option \<Rightarrow> int"
  TYPE_TAG_NAME :: "nat option \<Rightarrow> string option"

definition type_smob_name :: string where
  "type_smob_name = ''gdb:type''"

definition tyscm_make_type_smob :: "type_world \<Rightarrow> scm \<times> type_world" where
  "tyscm_make_type_smob w =
     (Type_smob (length (smobs w)),
      w\<lparr>smobs := smobs w @
           [gdbscm_init_chained_gsmob
              \<lparr>smob_aux = SCM_UNSPECIFIED, smob_prev = None, smob_next = None,
               t_type = None\<rparr>]\<rparr>)"

definition tyscm_is_type :: "scm \<Rightarrow> bool" where
  "tyscm_is_type x = SCM_SMOB_PREDICATE type_smob_tag x"

fun type_smob_data :: "scm \<Rightarrow> nat" where
  "type_smob_data (Type_smob a) = a"
| "type_smob_data x = 0"

definition tyscm_gsmob_from_type ::
  "type_host \<Rightarrow> nat option \<Rightarrow> type_world \<Rightarrow> scm \<times> type_world" where
  "tyscm_gsmob_from_type host type w =
     (case tyscm_make_type_smob w of
        (t_scm, w1) \<Rightarrow>
          (let a = type_smob_data t_scm;
               w2 = w1\<lparr>smobs := update_base a (\<lambda>t_smob. t_smob\<lparr>t_type := type\<rparr>) (smobs w1)\<rparr>
           in (t_scm,
               gdbscm_add_objfile_ref
                 (case type of Some ty \<Rightarrow> TYPE_OBJFILE host ty | None \<Rightarrow> None) a w2)))"

definition tyscm_scm_to_type_gsmob :: "gsmob_globals \<Rightarrow> evaluator \<Rightarrow> scm \<Rightarrow> scm" where
  "tyscm_scm_to_type_gsmob g ev x = gdbscm_scm_to_gsmob_safe g ev x type_smob_tag"

definition tyscm_get_type_arg_unsafe ::
  "gsmob_globals \<Rightarrow> evaluator \<Rightarrow> scm \<Rightarrow> int \<Rightarrow> string \<Rightarrow> failure + scm" where
  "tyscm_get_type_arg_unsafe g ev self arg_pos func_name =
     (let t_scm = tyscm_scm_to_type_gsmob g ev self
      in if gdbscm_is_exception t_scm then Inl (gdbscm_throw t_scm)
         else if \<not> tyscm_is_type t_scm then
           Inl (scm_wrong_type_arg_msg func_name arg_pos self type_smob_name)
         else Inr t_scm)"

definition tyscm_get_type_smob_arg_unsafe ::
  "gsmob_globals \<Rightarrow> evaluator \<Rightarrow> scm \<Rightarrow> int \<Rightarrow> string \<Rightarrow> failure + nat" where
  "tyscm_get_type_smob_arg_unsafe g ev self arg_pos func_name =
     (case tyscm_get_type_arg_unsafe g ev self arg_pos func_name of
        Inl f \<Rightarrow> Inl f
      | Inr t_scm \<Rightarrow> Inr (type_smob_data t_scm))"

text \<open>
  \<^verbatim>\<open>save_objfile_types\<close>, the cleanup registered for \<^verbatim>\<open>tyscm_objfile_data_key\<close>: it does
  nothing before \<^verbatim>\<open>gdb_scheme_initialized\<close> is set; otherwise its loop gives every struct
  of the chain a copy of its type and unlinks it.
\<close>

function save_objfile_types_loop ::
  "type_host \<Rightarrow> nat \<Rightarrow> nat option \<Rightarrow> type_world \<Rightarrow> type_world" where
  "save_objfile_types_loop host objfile None w = w"
| "save_objfile_types_loop host objfile (Some t_smob) w =
     (if t_smob < length (smobs w) then
        save_objfile_types_loop host objfile (smob_next (smobs w ! t_smob))
          (w\<lparr>smobs := (smobs w)[t_smob :=
                 (smobs w ! t_smob)
                   \<lparr>t_type := copy_type_recursive host objfile (t_type (smobs w ! t_smob)),
                    smob_next := None, smob_prev := None\<rparr>]\<rparr>)
      else w)"
  by pat_completeness auto
termination
proof (relation "measure (\<lambda>(host, objfile, p, w).
    2 * length (filter (\<lambda>s. smob_next s \<noteq> None) (smobs w))
      + (case p of None \<Rightarrow> 0 | Some a \<Rightarrow> 1))")
  show "wf (measure (\<lambda>(host, objfile, p, w).
    2 * length (filter (\<lambda>s. smob_next s \<noteq> None) (smobs w))
      + (case p of None \<Rightarrow> 0 | Some a \<Rightarrow> (1 :: nat))))"
    by simp
next
  fix host :: type_host and objfile :: nat and w :: type_world and a :: nat
  assume a: "a < length (smobs w)"
  let ?P = "\<lambda>s :: type_smob. smob_next s \<noteq> None"
  let ?v = "(smobs w ! a)\<lparr>t_type := copy_type_recursive host objfile (t_type (smobs w ! a)),
                          smob_next := None, smob_prev := None\<rparr>"
  have count: "i < length xs \<Longrightarrow>
      length (filter ?P (xs[i := v])) + (if ?P (xs ! i) then 1 else 0)
        = length (filter ?P xs) + (if ?P v then 1 else 0)" for xs i v
  proof (induction xs arbitrary: i)
    case Nil
    then show ?case by simp
  next
    case (Cons x xs)
    then show ?case by (cases i) auto
  qed
  have c: "length (filter ?P ((smobs w)[a := ?v])) + (if ?P (smobs w ! a) then 1 else 0)
             = length (filter ?P (smobs w))"
    using count [OF a, of ?v] by simp
  show "((host, objfile, smob_next (smobs w ! a), w\<lparr>smobs := (smobs w)[a := ?v]\<rparr>),
         (host, objfile, Some a, w)) \<in> measure (\<lambda>(host, objfile, p, w).
    2 * length (filter (\<lambda>s. smob_next s \<noteq> None) (smobs w))
      + (case p of None \<Rightarrow> 0 | Some a \<Rightarrow> 1))"
    using c by (cases "smob_next (smobs w ! a)") auto
qed

definition save_objfile_types ::
  "type_host \<Rightarrow> bool \<Rightarrow> nat \<Rightarrow> nat option \<Rightarrow> type_world \<Rightarrow> type_world" where
  "save_objfile_types host gdb_scheme_initialized objfile datum w =
     (if \<not> gdb_scheme_initialized then w
      else save_objfile_types_loop host objfile datum w)"

definition gdbscm_type_code ::
  "type_host \<Rightarrow> gsmob_globals \<Rightarrow> evaluator \<Rightarrow> type_smob list \<Rightarrow> scm \<Rightarrow> failure + scm" where
  "gdbscm_type_code host g ev h self =
     (case tyscm_get_type_smob_arg_unsafe g ev self 1 ''gdbscm_type_code'' of
        Inl f \<Rightarrow> Inl f
      | Inr a \<Rightarrow> Inr (SCM_Integer (TYPE_CODE host (if a < length h then t_type (h ! a) else None))))"

definition gdbscm_type_tag ::
  "type_host \<Rightarrow> gsmob_globals \<Rightarrow> evaluator \<Rightarrow> type_smob list \<Rightarrow> scm \<Rightarrow> failure + scm" where
  "gdbscm_type_tag host g ev h self =
     (case tyscm_get_type_smob_arg_unsafe g ev self 1 ''gdbscm_type_tag'' of
        Inl f \<Rightarrow> Inl f
      | Inr a \<Rightarrow>
          (case TYPE_TAG_NAME host (if a < length h then t_type (h ! a) else None) of
             None \<Rightarrow> Inr SCM_BOOL_F
           | Some name \<Rightarrow> Inr (SCM_String name)))"

section \<open>Auxiliary facts\<close>

lemma unat_all_ones: "unat (- 1 :: 64 word) = 18446744073709551615"
  by (simp add: unsigned_minus_1_eq_mask mask_eq_exp_minus_1)

lemma start_le_max1:
  fixes start :: "64 word"
  assumes "start \<noteq> NOT 0"
  shows "start \<le> NOT 0 - 1"
proof -
  have "start < - 1" using assms by (simp add: word_order.not_eq_extremum)
  then have "unat start < unat (- 1 :: 64 word)" by (simp add: word_less_nat_alt)
  then have "unat start \<le> unat (- 2 :: 64 word)" by (simp add: unat_all_ones)
  then show ?thesis by (simp add: word_le_nat_alt)
qed

lemma end_all_ones_wraps:
  fixes start sz :: "64 word"
  assumes "sz \<noteq> 0" "start + sz - 1 = NOT 0"
  shows "start + sz < start"
proof -
  have "start + sz = 0" using assms(2) by (simp add: algebra_simps)
  moreover have "start \<noteq> 0" using assms(1) calculation by auto
  ultimately show ?thesis by (simp add: word_gt_0)
qed

lemma start_le_end:
  fixes start sz :: "64 word"
  assumes "sz \<noteq> 0" "\<not> start + sz < start"
  shows "start \<le> start + sz - 1"
  using assms by unat_arith

lemma out_of_range_error_Throw:
  "gdbscm_out_of_range_error subr pos v msg =
     Throw (SCM_Symbol ''out-of-range'')
       (SCM_List [case subr of None \<Rightarrow> SCM_BOOL_F | Some s \<Rightarrow> SCM_String s,
                  SCM_String (if pos > 0 then msg @ '' in position '' @ printf_d pos @ '': ~S''
                              else msg @ '': ~S''),
                  SCM_List [v], SCM_List [v]])"
  by (simp add: gdbscm_out_of_range_error_def gdbscm_make_out_of_range_error_def
      gdbscm_make_arg_error_def gdbscm_make_error_def gdbscm_make_error_scm_def
      gdbscm_make_exception_def gdbscm_throw_def gdbscm_exception_key_def
      gdbscm_exception_args_def scm_list_1_def scm_list_4_def
      exscm_out_of_range_error_symbol_def Let_def)

lemma init_memory_port_ok:
  assumes "start \<le> end_addr" "end_addr \<noteq> NOT 0"
  shows "ioscm_init_memory_port bits start end_addr =
     Inr \<lparr>mode_bits = bits,
          stream = \<lparr>iomem_start = start, iomem_end = end_addr,
                    iomem_size = end_addr - start + 1, iomem_current = 0,
                    iomem_read_buf_size = 16, iomem_write_buf_size = 16\<rparr>,
          pt = \<lparr>pt_rw_random = True, pt_rw_active = SCM_PORT_NEITHER,
                pt_read_buf_size = 16, pt_read_buf = [], pt_read_pos = 0,
                pt_write_buf_size = 16, pt_write_buf = [],
                pt_putback = False, pt_saved_read_buf_size = 0, pt_saved_read_buf = [],
                pt_saved_read_pos = 0\<rparr>\<rparr>"
  using assms
  by (simp add: ioscm_init_memory_port_def default_read_buf_size_def
      default_write_buf_size_def word_order.not_eq_extremum)

lemma open_memory_start_all_ones:
  assumes "(case start_arg of None \<Rightarrow> 0 | Some a \<Rightarrow> a) = (NOT 0 :: 64 word)"
  shows "gdbscm_open_memory mode_arg start_arg size_arg =
     Inl (gdbscm_out_of_range_error (Some ''gdbscm_open_memory'') 1 (SCM_Integer (- 1))
            ''start address of 0xff..ff not allowed'')"
  using assms by (simp add: gdbscm_open_memory_def Let_def)

lemma open_memory_zero_size:
  assumes "(case start_arg of None \<Rightarrow> 0 | Some a \<Rightarrow> a) \<noteq> (NOT 0 :: 64 word)"
  shows "gdbscm_open_memory mode_arg start_arg (Some 0) =
     Inl (gdbscm_out_of_range_error (Some ''gdbscm_open_memory'') 0 (SCM_Integer 0)
            ''zero size'')"
  using assms by (simp add: gdbscm_open_memory_def Let_def)

lemma open_memory_overflow:
  assumes "start = (case start_arg of None \<Rightarrow> 0 | Some a \<Rightarrow> a)"
     "start \<noteq> (NOT 0 :: 64 word)" "sz \<noteq> 0" "start + sz < start"
  shows "gdbscm_open_memory mode_arg start_arg (Some sz) =
     Inl (gdbscm_out_of_range_error (Some ''gdbscm_open_memory'') 0
            (scm_list_2 (SCM_Integer (uint start)) (SCM_Integer (uint sz)))
            ''start+size overflows'')"
  using assms by (simp add: gdbscm_open_memory_def Let_def)

lemma open_memory_end:
  assumes "start = (case start_arg of None \<Rightarrow> 0 | Some a \<Rightarrow> a)"
     "start \<noteq> (NOT 0 :: 64 word)"
     "case size_arg of None \<Rightarrow> True | Some sz \<Rightarrow> sz \<noteq> 0 \<and> \<not> start + sz < start"
  shows "gdbscm_open_memory mode_arg start_arg size_arg =
     (case ioscm_parse_mode_bits ''gdbscm_open_memory''
             (case mode_arg of None \<Rightarrow> ''r'' | Some s \<Rightarrow> s) of
        Inl f \<Rightarrow> Inl f
      | Inr bits \<Rightarrow>
          ioscm_init_memory_port bits start
            (case size_arg of None \<Rightarrow> NOT 0 - 1 | Some sz \<Rightarrow> start + sz - 1))"
proof (cases size_arg)
  case None
  then show ?thesis using assms
    by (simp add: gdbscm_open_memory_def Let_def split: sum.splits)
next
  case (Some sz)
  then have "sz \<noteq> 0" "\<not> start + sz < start" using assms(3) by simp_all
  then have "start + sz - 1 \<noteq> NOT 0" using end_all_ones_wraps by blast
  then show ?thesis using assms Some
    by (simp add: gdbscm_open_memory_def Let_def split: sum.splits)
qed

lemma parse_mode_bits_cases:
  "ioscm_parse_mode_bits func_name mode =
     (if (case mode of [] \<Rightarrow> False
          | c # rest \<Rightarrow> (c = CHR ''r'' \<or> c = CHR ''w'')
                        \<and> list_all (\<lambda>x. x = CHR ''b'' \<or> x = CHR ''+'') rest)
      then Inr (scm_mode_bits mode)
      else Inl (bad_mode_string func_name mode))"
  by (auto simp: ioscm_parse_mode_bits_def split: list.splits)

lemma open_memory_never_end_error:
  "gdbscm_open_memory mode_arg start_arg size_arg
     \<noteq> Inl (gdbscm_out_of_range_error (Some ''gdbscm_open_memory'') 0 v
              ''end address of 0xff..ff not allowed'')"
proof -
  define start where "start = (case start_arg of None \<Rightarrow> (0 :: 64 word) | Some a \<Rightarrow> a)"
  have msg: "gdbscm_out_of_range_error s p x m \<noteq>
      gdbscm_out_of_range_error (Some ''gdbscm_open_memory'') 0 v
              ''end address of 0xff..ff not allowed''"
    if "(if p > 0 then m @ '' in position '' @ printf_d p @ '': ~S'' else m @ '': ~S'')
          \<noteq> ''end address of 0xff..ff not allowed: ~S''" for s p x m
    using that by (simp add: out_of_range_error_Throw)
  show ?thesis
  proof (cases "start = NOT 0")
    case True
    then show ?thesis
      using open_memory_start_all_ones [of start_arg mode_arg size_arg]
      by (simp add: start_def out_of_range_error_Throw)
  next
    case ns: False
    show ?thesis
    proof (cases "case size_arg of None \<Rightarrow> True | Some sz \<Rightarrow> sz \<noteq> 0 \<and> \<not> start + sz < start")
      case True
      have "gdbscm_open_memory mode_arg start_arg size_arg =
         (case ioscm_parse_mode_bits ''gdbscm_open_memory''
             (case mode_arg of None \<Rightarrow> ''r'' | Some s \<Rightarrow> s) of
            Inl f \<Rightarrow> Inl f
          | Inr bits \<Rightarrow>
              ioscm_init_memory_port bits start
                (case size_arg of None \<Rightarrow> NOT 0 - 1 | Some sz \<Rightarrow> start + sz - 1))"
        using open_memory_end [OF start_def ns True] .
      then show ?thesis
        by (auto simp: parse_mode_bits_cases bad_mode_string_def out_of_range_error_Throw
            ioscm_init_memory_port_def split: if_splits)
    next
      case False
      then obtain sz where sz: "size_arg = Some sz" "sz = 0 \<or> start + sz < start"
        by (auto split: option.splits)
      show ?thesis
      proof (cases "sz = 0")
        case True
        then show ?thesis
          using open_memory_zero_size [of start_arg mode_arg] ns sz
          by (simp add: start_def out_of_range_error_Throw)
      next
        case False
        then show ?thesis
          using open_memory_overflow [OF start_def ns False, of mode_arg] sz
          by (simp add: out_of_range_error_Throw)
      qed
    qed
  qed
qed

lemma throw_exception_smob:
  "gdbscm_throw (Exception_smob aux key args) = Throw key args"
  by (simp add: gdbscm_throw_def gdbscm_exception_key_def gdbscm_exception_args_def)

lemma safe_call_1_cases:
  "gdbscm_safe_call_1 ev proc arg =
     (case ev proc arg of
        Returns v \<Rightarrow> v
      | Throws key args stack \<Rightarrow>
          if stack = SCM_BOOL_F then Exception_smob SCM_BOOL_F key args
          else Exception_smob SCM_BOOL_F (SCM_Symbol ''gdb:with-stack'')
                 (SCM_List (key # stack # (case args of SCM_List xs \<Rightarrow> xs | _ \<Rightarrow> [args]))))"
  by (simp add: gdbscm_safe_call_1_def gdbscm_is_false_def gdbscm_make_exception_def
      gdbscm_make_exception_with_stack_def exscm_with_stack_error_symbol_def
      split: call_outcome.splits)

lemma safe_call_1_Throws_exception:
  "ev proc arg = Throws key args stack \<Longrightarrow> gdbscm_is_exception (gdbscm_safe_call_1 ev proc arg)"
  by (simp add: safe_call_1_cases gdbscm_is_exception_def)

lemma is_exception_make_out_of_range:
  "gdbscm_is_exception (gdbscm_make_out_of_range_error subr pos v msg)"
  by (simp add: gdbscm_make_out_of_range_error_def gdbscm_make_arg_error_def
      gdbscm_make_error_def gdbscm_make_error_scm_def gdbscm_make_exception_def
      gdbscm_is_exception_def Let_def)

lemma not_exception_false: "\<not> gdbscm_is_exception SCM_BOOL_F"
  by (simp add: gdbscm_is_exception_def)

lemma requested_not_false: "\<not> requested_gsmob g tag SCM_BOOL_F"
  by (simp add: requested_gsmob_def SCM_SMOB_PREDICATE_def gdbscm_is_gsmob_def)

lemma to_gsmob_safe_unfold:
  "gdbscm_scm_to_gsmob_safe g ev x tag =
     (if requested_gsmob g tag x then x
      else if scm_to_smob_var g = SCM_BOOL_F then SCM_BOOL_F
      else
        (let result = gdbscm_safe_call_1 ev (scm_to_smob_var g) x
         in if result = SCM_BOOL_F then SCM_BOOL_F
            else if gdbscm_is_exception result then result
            else if requested_gsmob g tag result then result
            else gdbscm_make_out_of_range_error None 0 result
                   ''Result of *scm->smob* must be requested gsmob or #f''))"
  by (simp add: gdbscm_scm_to_gsmob_safe_def requested_gsmob_def gdbscm_is_false_def Let_def)

lemma from_gsmob_unsafe_cases:
  "gdbscm_scm_from_gsmob_unsafe g ev smob =
     (if scm_from_smob_var g = SCM_BOOL_F then
        (if gdbscm_is_exception smob then Inl (gdbscm_throw smob) else Inr smob)
      else
        (let result = gdbscm_safe_call_1 ev (scm_from_smob_var g) smob
         in if gdbscm_is_exception result then Inl (gdbscm_throw result) else Inr result))"
  by (simp add: gdbscm_scm_from_gsmob_unsafe_def gdbscm_scm_from_gsmob_safe_def
      gdbscm_is_false_def Let_def)

lemma get_iterator_arg_raw:
  "itscm_get_iterator_arg_unsafe g ev (Iterator_smob aux object progress step) pos fn
     = Inr (Iterator_smob aux object progress step)"
  by (simp add: itscm_get_iterator_arg_unsafe_def itscm_scm_to_iterator_gsmob_def
      gdbscm_scm_to_gsmob_safe_def SCM_SMOB_PREDICATE_def iterator_smob_tag_def
      gdbscm_is_exception_def itscm_is_iterator_def Let_def)

lemma memory_error_Throw:
  "gdbscm_memory_error subr msg args =
     Throw (SCM_Symbol ''gdb:memory-error'')
       (SCM_List [case subr of None \<Rightarrow> SCM_BOOL_F | Some s \<Rightarrow> SCM_String s,
                  case msg of None \<Rightarrow> SCM_BOOL_F | Some s \<Rightarrow> SCM_String s,
                  args, SCM_EOL])"
  by (simp add: gdbscm_memory_error_def gdbscm_make_memory_error_def gdbscm_make_error_def
      gdbscm_make_error_scm_def gdbscm_make_exception_def gdbscm_throw_def
      gdbscm_exception_key_def gdbscm_exception_args_def scm_list_4_def
      exscm_memory_error_symbol_def)

lemma flush_empty:
  "pt_write_buf (pt p) = [] \<Longrightarrow> gdbscm_memory_port_flush ops p m = (Inr (), p, m)"
  by (simp add: gdbscm_memory_port_flush_def Let_def)

lemma flush_beyond:
  assumes "pt_write_buf (pt p) \<noteq> []"
    "length (pt_write_buf (pt p)) > unat (iomem_size (stream p) - iomem_current (stream p))"
  shows "gdbscm_memory_port_flush ops p m =
     (Inl (gdbscm_out_of_range_error (Some ''gdbscm_memory_port_flush'') 0
             (SCM_Integer (int (length (pt_write_buf (pt p)))))
             ''writing beyond end of memory range''), p, m)"
  using assms by (simp add: gdbscm_memory_port_flush_def Let_def)

lemma flush_written:
  assumes "pt_write_buf (pt p) \<noteq> []"
    "length (pt_write_buf (pt p)) \<le> unat (iomem_size (stream p) - iomem_current (stream p))"
    "target_write_memory ops m (iomem_start (stream p) + iomem_current (stream p))
       (pt_write_buf (pt p)) = (0, m')"
  shows "gdbscm_memory_port_flush ops p m =
     (Inr (),
      p\<lparr>stream := (stream p)\<lparr>iomem_current :=
             iomem_current (stream p) + of_nat (length (pt_write_buf (pt p)))\<rparr>,
        pt := (pt p)\<lparr>pt_write_buf := [], pt_rw_active := SCM_PORT_NEITHER\<rparr>\<rparr>, m')"
  using assms by (simp add: gdbscm_memory_port_flush_def Let_def)

lemma flush_memory_error:
  assumes "pt_write_buf (pt p) \<noteq> []"
    "length (pt_write_buf (pt p)) \<le> unat (iomem_size (stream p) - iomem_current (stream p))"
    "target_write_memory ops m (iomem_start (stream p) + iomem_current (stream p))
       (pt_write_buf (pt p)) = (st, m')" "st \<noteq> 0"
  shows "gdbscm_memory_port_flush ops p m =
     (Inl (gdbscm_memory_error (Some ''gdbscm_memory_port_flush'')
             (Some ''error writing memory'') SCM_EOL), p, m')"
  using assms by (simp add: gdbscm_memory_port_flush_def Let_def)

lemma write_unbuffered_beyond:
  assumes "pt_write_buf (pt p) = []"
    "length data > unat (iomem_size (stream p) - iomem_current (stream p))"
  shows "gdbscm_memory_port_write ops p m data =
     (Inl (gdbscm_out_of_range_error (Some ''gdbscm_memory_port_write'') 0
             (SCM_Integer (int (length data)))
             ''writing beyond end of memory range''), p, m)"
  using assms by (simp add: gdbscm_memory_port_write_def flush_empty Let_def)

lemma write_unbuffered_written:
  assumes "pt_write_buf (pt p) = []"
    "length data \<le> unat (iomem_size (stream p) - iomem_current (stream p))"
    "target_write_memory ops m (iomem_start (stream p) + iomem_current (stream p)) data
       = (0, m')"
  shows "gdbscm_memory_port_write ops p m data =
     (Inr (),
      p\<lparr>stream := (stream p)\<lparr>iomem_current :=
             iomem_current (stream p) + of_nat (length data)\<rparr>\<rparr>, m')"
  using assms by (simp add: gdbscm_memory_port_write_def flush_empty Let_def)

lemma write_unbuffered_memory_error:
  assumes "pt_write_buf (pt p) = []"
    "length data \<le> unat (iomem_size (stream p) - iomem_current (stream p))"
    "target_write_memory ops m (iomem_start (stream p) + iomem_current (stream p)) data
       = (st, m')" "st \<noteq> 0"
  shows "gdbscm_memory_port_write ops p m data =
     (Inl (gdbscm_memory_error (Some ''gdbscm_memory_port_write'')
             (Some ''error writing memory'') SCM_EOL), p, m')"
  using assms by (simp add: gdbscm_memory_port_write_def flush_empty Let_def)

lemma flush_leaves_empty:
  "gdbscm_memory_port_flush ops p m = (Inr u, p1, m1) \<Longrightarrow> pt_write_buf (pt p1) = []"
  by (auto simp: gdbscm_memory_port_flush_def Let_def split: if_splits prod.splits)

lemma write_is_flush_then_write:
  "gdbscm_memory_port_write ops p m data =
     (case gdbscm_memory_port_flush ops p m of
        (Inl f, p1, m1) \<Rightarrow> (Inl f, p1, m1)
      | (Inr u, p1, m1) \<Rightarrow> gdbscm_memory_port_write ops p1 m1 data)"
proof (cases "gdbscm_memory_port_flush ops p m")
  case (fields r p1 m1)
  show ?thesis
  proof (cases r)
    case (Inl f)
    then show ?thesis using fields by (simp add: gdbscm_memory_port_write_def)
  next
    case (Inr u)
    then have e: "pt_write_buf (pt p1) = []"
      using fields flush_leaves_empty [of ops p m u p1 m1] by simp
    have "gdbscm_memory_port_write ops p1 m1 data =
        (case (Inr (), p1, m1) of
           (Inl f, p1, m1) \<Rightarrow> (Inl f, p1, m1)
         | (Inr u, p1, m1) \<Rightarrow>
          (let iomem = stream p1
           in if length data > unat (iomem_size iomem - iomem_current iomem) then
                (Inl (gdbscm_out_of_range_error (Some ''gdbscm_memory_port_write'') 0
                        (SCM_Integer (int (length data)))
                        ''writing beyond end of memory range''), p1, m1)
              else
                (case target_write_memory ops m1 (iomem_start iomem + iomem_current iomem) data of
                   (status, m2) \<Rightarrow>
                     if status \<noteq> 0 then
                       (Inl (gdbscm_memory_error (Some ''gdbscm_memory_port_write'')
                               (Some ''error writing memory'') SCM_EOL), p1, m2)
                     else
                       (Inr (),
                        p1\<lparr>stream :=
                             iomem\<lparr>iomem_current := iomem_current iomem + of_nat (length data)\<rparr>\<rparr>,
                        m2))))"
      unfolding gdbscm_memory_port_write_def [of ops p1 m1 data] flush_empty [OF e] ..
    then show ?thesis using fields Inr by (simp add: gdbscm_memory_port_write_def)
  qed
qed

lemma open_memory_Inr:
  assumes "gdbscm_open_memory mode_arg (Some start) (Some n) = Inr p"
  shows "stream p = \<lparr>iomem_start = start, iomem_end = start + n - 1, iomem_size = n,
                      iomem_current = 0, iomem_read_buf_size = 16,
                      iomem_write_buf_size = 16\<rparr>
       \<and> pt p = \<lparr>pt_rw_random = True, pt_rw_active = SCM_PORT_NEITHER,
                  pt_read_buf_size = 16, pt_read_buf = [], pt_read_pos = 0,
                  pt_write_buf_size = 16, pt_write_buf = [],
                  pt_putback = False, pt_saved_read_buf_size = 0,
                  pt_saved_read_buf = [], pt_saved_read_pos = 0\<rparr>"
proof -
  have ns: "start \<noteq> NOT 0"
    using assms open_memory_start_all_ones [of "Some start" mode_arg "Some n"] by auto
  have nz: "n \<noteq> 0"
    using assms open_memory_zero_size [of "Some start" mode_arg] ns by auto
  have nw: "\<not> start + n < start"
    using assms open_memory_overflow [of start "Some start" n mode_arg] ns nz by auto
  have e: "start + n - 1 \<noteq> NOT 0" using end_all_ones_wraps nz nw by blast
  have "gdbscm_open_memory mode_arg (Some start) (Some n) =
     (case ioscm_parse_mode_bits ''gdbscm_open_memory''
             (case mode_arg of None \<Rightarrow> ''r'' | Some s \<Rightarrow> s) of
        Inl f \<Rightarrow> Inl f
      | Inr bits \<Rightarrow> ioscm_init_memory_port bits start (start + n - 1))"
    using open_memory_end [of start "Some start" "Some n" mode_arg] ns nz nw
    by (simp split: sum.splits)
  then show ?thesis
    using assms start_le_end [OF nz nw] e
    by (auto simp: init_memory_port_ok split: sum.splits)
qed

lemma seek_write_report:
  assumes "pt_rw_active (pt p) = SCM_PORT_WRITE"
    "\<not> (iomem_current (stream p) + of_nat (length (pt_write_buf (pt p)))
          < iomem_current (stream p))"
    "\<not> (iomem_current (stream p) + of_nat (length (pt_write_buf (pt p)))
          > iomem_size (stream p) + 1)"
  shows "gdbscm_memory_port_seek ops p m 0 SEEK_CUR =
     (Inr (iomem_current (stream p) + of_nat (length (pt_write_buf (pt p)))), p, m)"
  using assms by (simp add: gdbscm_memory_port_seek_def seek_report_def Let_def)

lemma seek_neither_report:
  assumes "pt_rw_active (pt p) = SCM_PORT_NEITHER"
    "iomem_current (stream p) \<le> iomem_size (stream p)"
  shows "gdbscm_memory_port_seek ops p m 0 SEEK_CUR = (Inr (iomem_current (stream p)), p, m)"
  using assms
  by (simp add: gdbscm_memory_port_seek_def ioscm_lseek_address_def seek_report_def
      SEEK_CUR_def SEEK_SET_def SEEK_END_def Let_def)

lemma init_buf_sizes_ok:
  "ioscm_init_memory_port bits start end_addr = Inr p \<Longrightarrow> memory_port_buf_sizes_ok p"
  by (auto simp: ioscm_init_memory_port_def memory_port_buf_sizes_ok_def
      default_read_buf_size_def default_write_buf_size_def min_memory_port_buf_size_def
      max_memory_port_buf_size_def split: if_splits)

lemma reinit_buf_sizes_ok:
  "memory_port_buf_sizes_ok p \<Longrightarrow> ioscm_reinit_memory_port port p r w fn = Inr p' \<Longrightarrow>
   memory_port_buf_sizes_ok p'"
  by (auto simp: ioscm_reinit_memory_port_def memory_port_buf_sizes_ok_def Let_def
      split: if_splits)

lemma reinit_read:
  assumes "memory_port_buf_sizes_ok p" "1 \<le> k" "k \<le> 4096"
  shows "ioscm_reinit_memory_port port p k (iomem_write_buf_size (stream p)) fn =
     (if k \<noteq> pt_read_buf_size (pt p) \<and> pt_read_buf (pt p) \<noteq> [] then
        Inl (scm_misc_error fn ''read buffer not empty: ~a'' (scm_list_1 port))
      else if k \<noteq> pt_read_buf_size (pt p) then
        Inr (p\<lparr>stream := (stream p)\<lparr>iomem_read_buf_size := k\<rparr>,
               pt := (pt p)\<lparr>pt_read_buf_size := k, pt_read_buf := [], pt_read_pos := 0\<rparr>\<rparr>)
      else Inr p)"
  using assms
  by (simp add: ioscm_reinit_memory_port_def memory_port_buf_sizes_ok_def Let_def
      min_memory_port_buf_size_def max_memory_port_buf_size_def)

lemma reinit_write:
  assumes "memory_port_buf_sizes_ok p" "1 \<le> k" "k \<le> 4096"
  shows "ioscm_reinit_memory_port port p (iomem_read_buf_size (stream p)) k fn =
     (if k \<noteq> pt_write_buf_size (pt p) \<and> pt_write_buf (pt p) \<noteq> [] then
        Inl (scm_misc_error fn ''write buffer not empty: ~a'' (scm_list_1 port))
      else if k \<noteq> pt_write_buf_size (pt p) then
        Inr (p\<lparr>stream := (stream p)\<lparr>iomem_write_buf_size := k\<rparr>,
               pt := (pt p)\<lparr>pt_write_buf_size := k, pt_write_buf := []\<rparr>\<rparr>)
      else Inr p)"
  using assms
  by (simp add: ioscm_reinit_memory_port_def memory_port_buf_sizes_ok_def Let_def
      min_memory_port_buf_size_def max_memory_port_buf_size_def)

lemma set_read_buffer_size_in_range:
  assumes "tbl n = Some p" "1 \<le> k" "k \<le> 4096"
  shows "gdbscm_set_memory_port_read_buffer_size_x tbl (SCM_Port n) (SCM_Integer k) =
     (case ioscm_reinit_memory_port (SCM_Port n) p (nat k) (iomem_write_buf_size (stream p))
             ''gdbscm_set_memory_port_read_buffer_size_x'' of
        Inl f \<Rightarrow> Inl f
      | Inr p' \<Rightarrow> Inr (SCM_UNSPECIFIED, tbl(n \<mapsto> p')))"
  using assms
  by (simp add: gdbscm_set_memory_port_read_buffer_size_x_def scm_is_integer_def
      scm_is_unsigned_integer_def scm_to_uint_def min_memory_port_buf_size_def
      max_memory_port_buf_size_def)

lemma set_write_buffer_size_in_range:
  assumes "tbl n = Some p" "1 \<le> k" "k \<le> 4096"
  shows "gdbscm_set_memory_port_write_buffer_size_x tbl (SCM_Port n) (SCM_Integer k) =
     (case ioscm_reinit_memory_port (SCM_Port n) p (iomem_read_buf_size (stream p)) (nat k)
             ''gdbscm_set_memory_port_write_buffer_size_x'' of
        Inl f \<Rightarrow> Inl f
      | Inr p' \<Rightarrow> Inr (SCM_UNSPECIFIED, tbl(n \<mapsto> p')))"
  using assms
  by (simp add: gdbscm_set_memory_port_write_buffer_size_x_def scm_is_integer_def
      scm_is_unsigned_integer_def scm_to_uint_def min_memory_port_buf_size_def
      max_memory_port_buf_size_def)

lemma set_buffer_size_out_of_range:
  assumes "tbl n = Some p" "k < 1 \<or> 4096 < k"
  shows "gdbscm_set_memory_port_read_buffer_size_x tbl (SCM_Port n) (SCM_Integer k) =
       Inl (gdbscm_out_of_range_error (Some ''gdbscm_set_memory_port_read_buffer_size_x'') 2
              (SCM_Integer k) out_of_range_buf_size)"
    and "gdbscm_set_memory_port_write_buffer_size_x tbl (SCM_Port n) (SCM_Integer k) =
       Inl (gdbscm_out_of_range_error (Some ''gdbscm_set_memory_port_write_buffer_size_x'') 2
              (SCM_Integer k) out_of_range_buf_size)"
  using assms
  by (auto simp: gdbscm_set_memory_port_read_buffer_size_x_def
      gdbscm_set_memory_port_write_buffer_size_x_def scm_is_integer_def
      scm_is_unsigned_integer_def min_memory_port_buf_size_def max_memory_port_buf_size_def)

lemma decimal_1: "decimal 1 = ''1''"
  by code_simp

lemma decimal_4096: "decimal 4096 = ''4096''"
  by code_simp

lemma out_of_range_buf_size_text: "out_of_range_buf_size = ''size not between 1 - 4096''"
  unfolding out_of_range_buf_size_def min_memory_port_buf_size_def
      max_memory_port_buf_size_def decimal_1 decimal_4096 by simp

lemma chain_functional: "chain h p as \<Longrightarrow> chain h p bs \<Longrightarrow> as = bs"
proof (induction as arbitrary: p bs)
  case Nil
  then show ?case by (cases bs) auto
next
  case (Cons a as)
  then show ?case by (cases bs) auto
qed

lemma chain_suffix:
  "chain h p (xs @ ys) \<Longrightarrow> \<exists>q. chain h q ys"
  by (induction xs arbitrary: p) auto

lemma chain_head_not_later:
  assumes "chain h p (a # as)"
  shows "a \<notin> set as"
proof
  assume "a \<in> set as"
  then obtain xs ys where s: "as = xs @ a # ys" by (auto simp: in_set_conv_decomp)
  have "\<exists>q. chain h q (a # ys)"
    using assms chain_suffix [of h p "a # xs" "a # ys"] s by simp
  then have c1: "chain h (Some a) (a # ys)" by auto
  have c2: "chain h (Some a) (a # as)" using assms by auto
  have "a # ys = a # as" using chain_functional [OF c1 c2] .
  then show False using s by simp
qed

lemma chain_update_other:
  "a \<notin> set as \<Longrightarrow> chain (h[a := v]) p as = chain h p as"
  by (induction as arbitrary: p) auto

lemma chain_in_heap: "chain h p as \<Longrightarrow> a \<in> set as \<Longrightarrow> a < length h"
  by (induction as arbitrary: p) auto

lemma chain_walk:
  fixes f :: "nat option \<Rightarrow> ('a chained_gdb_smob_scheme) smob_world
                \<Rightarrow> ('a chained_gdb_smob_scheme) smob_world"
  assumes f_None: "\<And>w. f None w = w"
    and f_Some: "\<And>a w. a < length (smobs w) \<Longrightarrow>
          f (Some a) w = f (smob_next (smobs w ! a))
                           (w\<lparr>smobs := (smobs w)[a := step (smobs w ! a)]\<rparr>)"
  shows "chain (smobs w) p as \<Longrightarrow>
   length (smobs (f p w)) = length (smobs w)
   \<and> (\<forall>i < length (smobs w). smobs (f p w) ! i =
        (if i \<in> set as then step (smobs w ! i) else smobs w ! i))
   \<and> objfile_heads (f p w) = objfile_heads w"
proof (induction as arbitrary: w p)
  case Nil
  then show ?case by (simp add: f_None)
next
  case (Cons a as)
  then have p: "p = Some a" and a: "a < length (smobs w)"
    and c: "chain (smobs w) (smob_next (smobs w ! a)) as" by auto
  have na: "a \<notin> set as" using Cons.prems by (rule chain_head_not_later)
  let ?w = "w\<lparr>smobs := (smobs w)[a := step (smobs w ! a)]\<rparr>"
  have c': "chain (smobs ?w) (smob_next (smobs w ! a)) as"
    using c na by (simp add: chain_update_other)
  note ih = Cons.IH [OF c']
  have e: "f p w = f (smob_next (smobs w ! a)) ?w"
    using p f_Some [OF a] by simp
  show ?case
    unfolding e using ih na a by (auto simp: nth_list_update)
qed

lemma del_objfile_symtab_chain:
  assumes "chain (smobs w) p as"
  shows "length (smobs (stscm_del_objfile_symtab objfile p w)) = length (smobs w)"
    and "i < length (smobs w) \<Longrightarrow>
         smobs (stscm_del_objfile_symtab objfile p w) ! i =
           (if i \<in> set as
            then (smobs w ! i)\<lparr>st_symtab := None, smob_next := None, smob_prev := None\<rparr>
            else smobs w ! i)"
    and "objfile_heads (stscm_del_objfile_symtab objfile p w) = objfile_heads w"
  using chain_walk [where f = "stscm_del_objfile_symtab objfile"
      and step = "\<lambda>s. s\<lparr>st_symtab := None, smob_next := None, smob_prev := None\<rparr>",
      OF _ _ assms]
  by simp_all

lemma del_objfile_symbols_chain:
  assumes "chain (smobs w) p as"
  shows "length (smobs (syscm_del_objfile_symbols objfile p w)) = length (smobs w)"
    and "i < length (smobs w) \<Longrightarrow>
         smobs (syscm_del_objfile_symbols objfile p w) ! i =
           (if i \<in> set as
            then (smobs w ! i)\<lparr>s_symbol := None, smob_next := None, smob_prev := None\<rparr>
            else smobs w ! i)"
    and "objfile_heads (syscm_del_objfile_symbols objfile p w) = objfile_heads w"
  using chain_walk [where f = "syscm_del_objfile_symbols objfile"
      and step = "\<lambda>s. s\<lparr>s_symbol := None, smob_next := None, smob_prev := None\<rparr>",
      OF _ _ assms]
  by simp_all

lemma save_objfile_types_chain:
  assumes "chain (smobs w) p as"
  shows "length (smobs (save_objfile_types host True objfile p w)) = length (smobs w)"
    and "i < length (smobs w) \<Longrightarrow>
         smobs (save_objfile_types host True objfile p w) ! i =
           (if i \<in> set as
            then (smobs w ! i)\<lparr>t_type := copy_type_recursive host objfile (t_type (smobs w ! i)),
                                 smob_next := None, smob_prev := None\<rparr>
            else smobs w ! i)"
    and "objfile_heads (save_objfile_types host True objfile p w) = objfile_heads w"
  using chain_walk [where f = "save_objfile_types_loop host objfile"
      and step = "\<lambda>s. s\<lparr>t_type := copy_type_recursive host objfile (t_type s),
                          smob_next := None, smob_prev := None\<rparr>",
      OF _ _ assms]
  by (simp_all add: save_objfile_types_def)

lemma invalid_object_error_Throw:
  "gdbscm_invalid_object_error subr pos v msg =
     Throw (SCM_Symbol ''gdb:invalid-object-error'')
       (SCM_List [case subr of None \<Rightarrow> SCM_BOOL_F | Some s \<Rightarrow> SCM_String s,
                  SCM_String (if pos > 0 then msg @ '' in position '' @ printf_d pos @ '': ~S''
                              else msg @ '': ~S''),
                  SCM_List [v], SCM_List [v]])"
  by (simp add: gdbscm_invalid_object_error_def gdbscm_make_invalid_object_error_def
      gdbscm_make_arg_error_def gdbscm_make_error_def gdbscm_make_error_scm_def
      gdbscm_make_exception_def gdbscm_throw_def gdbscm_exception_key_def
      gdbscm_exception_args_def scm_list_1_def scm_list_4_def
      gdbscm_invalid_object_error_symbol_def Let_def)

lemma get_symtab_smob_arg_raw:
  "stscm_get_symtab_smob_arg_unsafe g ev (Symtab_smob a) pos fn = Inr a"
  by (simp add: stscm_get_symtab_smob_arg_unsafe_def stscm_get_symtab_arg_unsafe_def
      stscm_scm_to_symtab_gsmob_def gdbscm_scm_to_gsmob_safe_def SCM_SMOB_PREDICATE_def
      symtab_smob_tag_def stscm_is_symtab_def gdbscm_is_exception_def Let_def)

lemma to_symtab_gsmob_raw:
  "stscm_scm_to_symtab_gsmob g ev (Symtab_smob a) = Symtab_smob a"
  by (simp add: stscm_scm_to_symtab_gsmob_def gdbscm_scm_to_gsmob_safe_def
      SCM_SMOB_PREDICATE_def symtab_smob_tag_def)

lemma get_symtab_smob_arg_converted:
  "stscm_scm_to_symtab_gsmob g ev self = Symtab_smob a \<Longrightarrow>
   stscm_get_symtab_smob_arg_unsafe g ev self pos fn = Inr a"
  by (simp add: stscm_get_symtab_smob_arg_unsafe_def stscm_get_symtab_arg_unsafe_def
      SCM_SMOB_PREDICATE_def symtab_smob_tag_def stscm_is_symtab_def gdbscm_is_exception_def
      Let_def)

lemma get_valid_symtab_invalid:
  "stscm_scm_to_symtab_gsmob g ev self = Symtab_smob a \<Longrightarrow>
   a < length h \<Longrightarrow> st_symtab (h ! a) = None \<Longrightarrow>
   stscm_get_valid_symtab_smob_arg_unsafe g ev h self pos fn =
     Inl (gdbscm_invalid_object_error (Some fn) pos self ''invalid <gdb:symtab>'')"
  by (simp add: stscm_get_valid_symtab_smob_arg_unsafe_def get_symtab_smob_arg_converted)

lemma get_symbol_smob_arg_raw:
  "syscm_get_symbol_smob_arg_unsafe g ev (Symbol_smob a) pos fn = Inr a"
  by (simp add: syscm_get_symbol_smob_arg_unsafe_def syscm_get_symbol_arg_unsafe_def
      syscm_scm_to_symbol_gsmob_def gdbscm_scm_to_gsmob_safe_def SCM_SMOB_PREDICATE_def
      symbol_smob_tag_def syscm_is_symbol_def gdbscm_is_exception_def Let_def)

lemma to_symbol_gsmob_raw:
  "syscm_scm_to_symbol_gsmob g ev (Symbol_smob a) = Symbol_smob a"
  by (simp add: syscm_scm_to_symbol_gsmob_def gdbscm_scm_to_gsmob_safe_def
      SCM_SMOB_PREDICATE_def symbol_smob_tag_def)

lemma get_symbol_smob_arg_converted:
  "syscm_scm_to_symbol_gsmob g ev self = Symbol_smob a \<Longrightarrow>
   syscm_get_symbol_smob_arg_unsafe g ev self pos fn = Inr a"
  by (simp add: syscm_get_symbol_smob_arg_unsafe_def syscm_get_symbol_arg_unsafe_def
      SCM_SMOB_PREDICATE_def symbol_smob_tag_def syscm_is_symbol_def gdbscm_is_exception_def
      Let_def)

lemma get_valid_symbol_invalid:
  "syscm_scm_to_symbol_gsmob g ev self = Symbol_smob a \<Longrightarrow>
   a < length h \<Longrightarrow> s_symbol (h ! a) = None \<Longrightarrow>
   syscm_get_valid_symbol_smob_arg_unsafe g ev h self pos fn =
     Inl (gdbscm_invalid_object_error (Some fn) pos self ''invalid <gdb:symbol>'')"
  by (simp add: syscm_get_valid_symbol_smob_arg_unsafe_def get_symbol_smob_arg_converted)

lemma get_type_smob_arg_raw:
  "tyscm_get_type_smob_arg_unsafe g ev (Type_smob a) pos fn = Inr a"
  by (simp add: tyscm_get_type_smob_arg_unsafe_def tyscm_get_type_arg_unsafe_def
      tyscm_scm_to_type_gsmob_def gdbscm_scm_to_gsmob_safe_def SCM_SMOB_PREDICATE_def
      type_smob_tag_def tyscm_is_type_def gdbscm_is_exception_def Let_def)

lemma to_type_gsmob_raw:
  "tyscm_scm_to_type_gsmob g ev (Type_smob a) = Type_smob a"
  by (simp add: tyscm_scm_to_type_gsmob_def gdbscm_scm_to_gsmob_safe_def
      SCM_SMOB_PREDICATE_def type_smob_tag_def)

lemma get_type_smob_arg_converted:
  "tyscm_scm_to_type_gsmob g ev self = Type_smob a \<Longrightarrow>
   tyscm_get_type_smob_arg_unsafe g ev self pos fn = Inr a"
  by (simp add: tyscm_get_type_smob_arg_unsafe_def tyscm_get_type_arg_unsafe_def
      SCM_SMOB_PREDICATE_def type_smob_tag_def tyscm_is_type_def gdbscm_is_exception_def
      Let_def)

lemma symtab_teardown:
  assumes ch: "chain (smobs w) datum as" and a: "a \<in> set as"
    and conv: "stscm_scm_to_symtab_gsmob g ev self = Symtab_smob a"
  shows "let w' = stscm_del_objfile_symtab objfile datum w;
          h' = smobs w';
          stale = (\<lambda>func_name arg_pos.
                     gdbscm_invalid_object_error (Some func_name) arg_pos self
                       ''invalid <gdb:symtab>'')
      in length h' = length (smobs w)
       \<and> st_symtab (h' ! a) = None
       \<and> smob_prev (h' ! a) = None
       \<and> smob_next (h' ! a) = None
       \<and> smob_aux (h' ! a) = smob_aux (smobs w ! a)
       \<and> objfile_heads w' = objfile_heads w
       \<and> (b < length (smobs w) \<and> b \<notin> set as \<longrightarrow> h' ! b = smobs w ! b)
       \<and> stscm_is_symtab (Symtab_smob a)
       \<and> stscm_scm_to_symtab_gsmob g ev (Symtab_smob a) = Symtab_smob a
       \<and> gdbscm_symtab_valid_p g ev h' self = Inr SCM_BOOL_F
       \<and> stscm_get_valid_symtab_smob_arg_unsafe g ev h' self arg_pos func_name
           = Inl (stale func_name arg_pos)
       \<and> gdbscm_symtab_filename host g ev h' self = Inl (stale ''gdbscm_symtab_filename'' 1)
       \<and> gdbscm_symtab_fullname host g ev h' self = Inl (stale ''gdbscm_symtab_fullname'' 1)
       \<and> gdbscm_symtab_objfile host g ev h' self = Inl (stale ''gdbscm_symtab_objfile'' 1)
       \<and> gdbscm_symtab_global_block host g ev h' self = Inl (stale ''gdbscm_symtab_global_block'' 1)
       \<and> gdbscm_symtab_static_block host g ev h' self = Inl (stale ''gdbscm_symtab_static_block'' 1)
       \<and> gdbscm_invalid_object_error (Some func_name) arg_pos self ''invalid <gdb:symtab>''
           = Throw gdbscm_invalid_object_error_symbol
               (SCM_List [SCM_String func_name,
                  SCM_String (if arg_pos > 0
                              then ''invalid <gdb:symtab> in position '' @ printf_d arg_pos @ '': ~S''
                              else ''invalid <gdb:symtab>: ~S''),
                  SCM_List [self], SCM_List [self]])"
proof -
  define h' where "h' = smobs (stscm_del_objfile_symtab objfile datum w)"
  note f = del_objfile_symtab_chain [OF ch, where objfile = objfile]
  have al: "a < length (smobs w)" using ch a by (rule chain_in_heap)
  have len: "length h' = length (smobs w)" using f(1) by (simp add: h'_def)
  have cell: "h' ! a = (smobs w ! a)\<lparr>st_symtab := None, smob_next := None, smob_prev := None\<rparr>"
    using f(2) [OF al] a by (simp add: h'_def)
  have other: "b < length (smobs w) \<and> b \<notin> set as \<longrightarrow> h' ! b = smobs w ! b"
    using f(2) [of b] by (simp add: h'_def)
  have inv: "st_symtab (h' ! a) = None" "smob_prev (h' ! a) = None"
    "smob_next (h' ! a) = None" "smob_aux (h' ! a) = smob_aux (smobs w ! a)"
    by (simp_all add: cell)
  have al': "a < length h'" using al len by simp
  have guard: "stscm_get_valid_symtab_smob_arg_unsafe g ev h' self pos fn =
     Inl (gdbscm_invalid_object_error (Some fn) pos self ''invalid <gdb:symtab>'')"
    for pos fn
    using conv al' inv(1) by (rule get_valid_symtab_invalid)
  have valid: "gdbscm_symtab_valid_p g ev h' self = Inr SCM_BOOL_F"
    using inv(1) conv
    by (simp add: gdbscm_symtab_valid_p_def get_symtab_smob_arg_converted stscm_is_valid_def
        scm_from_bool_def)
  show ?thesis
    unfolding Let_def h'_def [symmetric]
    using len inv f(3) other valid guard
    by (simp add: stscm_is_symtab_def SCM_SMOB_PREDICATE_def gdbscm_symtab_filename_def
        gdbscm_symtab_fullname_def gdbscm_symtab_objfile_def gdbscm_symtab_global_block_def
        gdbscm_symtab_static_block_def invalid_object_error_Throw
        gdbscm_invalid_object_error_symbol_def to_symtab_gsmob_raw)
qed

lemma symbol_teardown:
  assumes ch: "chain (smobs w) datum as" and a: "a \<in> set as"
    and conv: "syscm_scm_to_symbol_gsmob g ev self = Symbol_smob a"
  shows "let w' = syscm_del_objfile_symbols objfile datum w;
          h' = smobs w';
          stale = (\<lambda>func_name arg_pos.
                     gdbscm_invalid_object_error (Some func_name) arg_pos self
                       ''invalid <gdb:symbol>'')
      in length h' = length (smobs w)
       \<and> s_symbol (h' ! a) = None
       \<and> smob_prev (h' ! a) = None
       \<and> smob_next (h' ! a) = None
       \<and> smob_aux (h' ! a) = smob_aux (smobs w ! a)
       \<and> objfile_heads w' = objfile_heads w
       \<and> (b < length (smobs w) \<and> b \<notin> set as \<longrightarrow> h' ! b = smobs w ! b)
       \<and> syscm_is_symbol (Symbol_smob a)
       \<and> syscm_scm_to_symbol_gsmob g ev (Symbol_smob a) = Symbol_smob a
       \<and> gdbscm_symbol_valid_p g ev h' self = Inr SCM_BOOL_F
       \<and> syscm_get_valid_symbol_smob_arg_unsafe g ev h' self arg_pos func_name
           = Inl (stale func_name arg_pos)
       \<and> gdbscm_symbol_name host g ev h' self = Inl (stale ''gdbscm_symbol_name'' 1)
       \<and> gdbscm_symbol_linkage_name host g ev h' self
           = Inl (stale ''gdbscm_symbol_linkage_name'' 1)
       \<and> gdbscm_symbol_print_name host g ev h' self = Inl (stale ''gdbscm_symbol_print_name'' 1)
       \<and> gdbscm_symbol_addr_class host g ev h' self = Inl (stale ''gdbscm_symbol_addr_class'' 1)
       \<and> gdbscm_symbol_argument_p host g ev h' self = Inl (stale ''gdbscm_symbol_argument_p'' 1)
       \<and> gdbscm_symbol_line host g ev h' self = Inl (stale ''gdbscm_symbol_line'' 1)
       \<and> gdbscm_invalid_object_error (Some func_name) arg_pos self ''invalid <gdb:symbol>''
           = Throw gdbscm_invalid_object_error_symbol
               (SCM_List [SCM_String func_name,
                  SCM_String (if arg_pos > 0
                              then ''invalid <gdb:symbol> in position '' @ printf_d arg_pos @ '': ~S''
                              else ''invalid <gdb:symbol>: ~S''),
                  SCM_List [self], SCM_List [self]])"
proof -
  define h' where "h' = smobs (syscm_del_objfile_symbols objfile datum w)"
  note f = del_objfile_symbols_chain [OF ch, where objfile = objfile]
  have al: "a < length (smobs w)" using ch a by (rule chain_in_heap)
  have len: "length h' = length (smobs w)" using f(1) by (simp add: h'_def)
  have cell: "h' ! a = (smobs w ! a)\<lparr>s_symbol := None, smob_next := None, smob_prev := None\<rparr>"
    using f(2) [OF al] a by (simp add: h'_def)
  have other: "b < length (smobs w) \<and> b \<notin> set as \<longrightarrow> h' ! b = smobs w ! b"
    using f(2) [of b] by (simp add: h'_def)
  have inv: "s_symbol (h' ! a) = None" "smob_prev (h' ! a) = None"
    "smob_next (h' ! a) = None" "smob_aux (h' ! a) = smob_aux (smobs w ! a)"
    by (simp_all add: cell)
  have al': "a < length h'" using al len by simp
  have guard: "syscm_get_valid_symbol_smob_arg_unsafe g ev h' self pos fn =
     Inl (gdbscm_invalid_object_error (Some fn) pos self ''invalid <gdb:symbol>'')"
    for pos fn
    using conv al' inv(1) by (rule get_valid_symbol_invalid)
  have valid: "gdbscm_symbol_valid_p g ev h' self = Inr SCM_BOOL_F"
    using inv(1) conv
    by (simp add: gdbscm_symbol_valid_p_def get_symbol_smob_arg_converted syscm_is_valid_def
        scm_from_bool_def)
  show ?thesis
    unfolding Let_def h'_def [symmetric]
    using len inv f(3) other valid guard
    by (simp add: syscm_is_symbol_def SCM_SMOB_PREDICATE_def gdbscm_symbol_name_def
        gdbscm_symbol_linkage_name_def gdbscm_symbol_print_name_def gdbscm_symbol_addr_class_def
        gdbscm_symbol_argument_p_def gdbscm_symbol_line_def invalid_object_error_Throw
        gdbscm_invalid_object_error_symbol_def to_symbol_gsmob_raw)
qed

lemma type_teardown:
  assumes ch: "chain (smobs w) datum as" and a: "a \<in> set as"
    and conv: "tyscm_scm_to_type_gsmob g ev self = Type_smob a"
  shows "let w' = save_objfile_types host True objfile datum w;
          h' = smobs w';
          copy = copy_type_recursive host objfile (t_type (smobs w ! a))
      in length h' = length (smobs w)
       \<and> t_type (h' ! a) = copy
       \<and> smob_prev (h' ! a) = None
       \<and> smob_next (h' ! a) = None
       \<and> smob_aux (h' ! a) = smob_aux (smobs w ! a)
       \<and> objfile_heads w' = objfile_heads w
       \<and> (b < length (smobs w) \<and> b \<notin> set as \<longrightarrow> h' ! b = smobs w ! b)
       \<and> tyscm_is_type (Type_smob a)
       \<and> tyscm_scm_to_type_gsmob g ev (Type_smob a) = Type_smob a
       \<and> gdbscm_type_code host g ev h' self = Inr (SCM_Integer (TYPE_CODE host copy))
       \<and> gdbscm_type_tag host g ev h' self
           = (case TYPE_TAG_NAME host copy of
                None \<Rightarrow> Inr SCM_BOOL_F
              | Some name \<Rightarrow> Inr (SCM_String name))
       \<and> save_objfile_types host False objfile datum w = w"
proof -
  define h' where "h' = smobs (save_objfile_types host True objfile datum w)"
  note f = save_objfile_types_chain [OF ch, where objfile = objfile and host = host]
  have al: "a < length (smobs w)" using ch a by (rule chain_in_heap)
  have len: "length h' = length (smobs w)" using f(1) by (simp add: h'_def)
  have cell: "h' ! a = (smobs w ! a)
      \<lparr>t_type := copy_type_recursive host objfile (t_type (smobs w ! a)),
       smob_next := None, smob_prev := None\<rparr>"
    using f(2) [OF al] a by (simp add: h'_def)
  have other: "b < length (smobs w) \<and> b \<notin> set as \<longrightarrow> h' ! b = smobs w ! b"
    using f(2) [of b] by (simp add: h'_def)
  have inv: "t_type (h' ! a) = copy_type_recursive host objfile (t_type (smobs w ! a))"
    "smob_prev (h' ! a) = None"
    "smob_next (h' ! a) = None" "smob_aux (h' ! a) = smob_aux (smobs w ! a)"
    by (simp_all add: cell)
  have al': "a < length h'" using al len by simp
  show ?thesis
    unfolding Let_def h'_def [symmetric]
    using len inv f(3) other al' conv
    by (simp add: tyscm_is_type_def SCM_SMOB_PREDICATE_def gdbscm_type_code_def
        gdbscm_type_tag_def get_type_smob_arg_converted to_type_gsmob_raw
        save_objfile_types_def type_smob_tag_def)
qed

section \<open>Opening a memory port\<close>

text \<open>
  C3, as the code has it.  \<^verbatim>\<open>gdbscm_open_memory\<close> throws \<^verbatim>\<open>out-of-range\<close> when the start
  address is all-ones, when an explicit size is zero, and when \<open>start + size\<close> wraps
  around, each with a message of its own.  An end address of all-ones is always such a
  wrap-around, so it is reported with the \<^verbatim>\<open>start+size overflows\<close> message and the
  \<^verbatim>\<open>end address of 0xff..ff not allowed\<close> error is never the outcome.  Past these checks
  the call throws \<^verbatim>\<open>out-of-range\<close> (\<^verbatim>\<open>bad mode string\<close>) when the mode string is not
  \<^verbatim>\<open>r\<close> or \<^verbatim>\<open>w\<close> followed by \<^verbatim>\<open>b\<close>s and \<^verbatim>\<open>+\<close>s; otherwise it returns a port with
  \<open>end = start + size - 1\<close> (\<open>0xff..fe\<close> when no size is given), \<open>current = 0\<close> and both
  buffers empty.
\<close>

theorem gdbscm_open_memory_outcomes:
  "let start = (case start_arg of None \<Rightarrow> 0 | Some a \<Rightarrow> a);
       mode = (case mode_arg of None \<Rightarrow> ''r'' | Some s \<Rightarrow> s);
       mode_ok = (case mode of [] \<Rightarrow> False
                  | c # rest \<Rightarrow> (c = CHR ''r'' \<or> c = CHR ''w'')
                                \<and> list_all (\<lambda>x. x = CHR ''b'' \<or> x = CHR ''+'') rest);
       in_range = (start \<noteq> NOT 0
                   \<and> (case size_arg of None \<Rightarrow> True
                       | Some n \<Rightarrow> n \<noteq> 0 \<and> \<not> start + n < start));
       r = gdbscm_open_memory mode_arg start_arg size_arg
   in (start = NOT 0 \<longrightarrow>
         r = Inl (gdbscm_out_of_range_error (Some ''gdbscm_open_memory'') 1 (SCM_Integer (- 1))
                    ''start address of 0xff..ff not allowed''))
    \<and> (start \<noteq> NOT 0 \<and> size_arg = Some 0 \<longrightarrow>
         r = Inl (gdbscm_out_of_range_error (Some ''gdbscm_open_memory'') 0 (SCM_Integer 0)
                    ''zero size''))
    \<and> (start \<noteq> NOT 0 \<and> size_arg = Some sz \<and> sz \<noteq> 0 \<and> start + sz < start \<longrightarrow>
         r = Inl (gdbscm_out_of_range_error (Some ''gdbscm_open_memory'') 0
                    (scm_list_2 (SCM_Integer (uint start)) (SCM_Integer (uint sz)))
                    ''start+size overflows''))
    \<and> (size_arg = Some sz \<and> sz \<noteq> 0 \<and> start + sz - 1 = NOT 0 \<longrightarrow> start + sz < start)
    \<and> r \<noteq> Inl (gdbscm_out_of_range_error (Some ''gdbscm_open_memory'') 0 v
                   ''end address of 0xff..ff not allowed'')
    \<and> (in_range \<and> \<not> mode_ok \<longrightarrow>
         r = Inl (gdbscm_out_of_range_error (Some ''gdbscm_open_memory'') 0 (SCM_String mode)
                    ''bad mode string''))
    \<and> (in_range \<and> mode_ok \<longrightarrow>
         r = Inr \<lparr>mode_bits = scm_mode_bits mode,
                  stream = \<lparr>iomem_start = start,
                            iomem_end = (case size_arg of None \<Rightarrow> NOT 0 - 1
                                         | Some n \<Rightarrow> start + n - 1),
                            iomem_size = (case size_arg of None \<Rightarrow> NOT 0 - start
                                          | Some n \<Rightarrow> n),
                            iomem_current = 0,
                            iomem_read_buf_size = 16, iomem_write_buf_size = 16\<rparr>,
                  pt = \<lparr>pt_rw_random = True, pt_rw_active = SCM_PORT_NEITHER,
                        pt_read_buf_size = 16, pt_read_buf = [], pt_read_pos = 0,
                        pt_write_buf_size = 16, pt_write_buf = [],
                        pt_putback = False, pt_saved_read_buf_size = 0,
                        pt_saved_read_buf = [], pt_saved_read_pos = 0\<rparr>\<rparr>)"
proof -
  define start where "start = (case start_arg of None \<Rightarrow> (0 :: 64 word) | Some a \<Rightarrow> a)"
  define mode where "mode = (case mode_arg of None \<Rightarrow> ''r'' | Some s \<Rightarrow> s)"
  define r where "r = gdbscm_open_memory mode_arg start_arg size_arg"
  have A: "start = NOT 0 \<Longrightarrow>
         r = Inl (gdbscm_out_of_range_error (Some ''gdbscm_open_memory'') 1 (SCM_Integer (- 1))
                    ''start address of 0xff..ff not allowed'')"
    unfolding r_def start_def by (rule open_memory_start_all_ones)
  have B: "start \<noteq> NOT 0 \<Longrightarrow> size_arg = Some 0 \<Longrightarrow>
         r = Inl (gdbscm_out_of_range_error (Some ''gdbscm_open_memory'') 0 (SCM_Integer 0)
                    ''zero size'')"
    unfolding r_def start_def by (simp add: open_memory_zero_size)
  have C: "start \<noteq> NOT 0 \<Longrightarrow> size_arg = Some sz \<Longrightarrow> sz \<noteq> 0 \<Longrightarrow> start + sz < start \<Longrightarrow>
         r = Inl (gdbscm_out_of_range_error (Some ''gdbscm_open_memory'') 0
                    (scm_list_2 (SCM_Integer (uint start)) (SCM_Integer (uint sz)))
                    ''start+size overflows'')"
    unfolding r_def using open_memory_overflow [OF start_def] by simp
  have D: "sz \<noteq> 0 \<Longrightarrow> start + sz - 1 = NOT 0 \<Longrightarrow> start + sz < start"
    by (rule end_all_ones_wraps)
  have E: "r \<noteq> Inl (gdbscm_out_of_range_error (Some ''gdbscm_open_memory'') 0 v
                   ''end address of 0xff..ff not allowed'')"
    unfolding r_def by (rule open_memory_never_end_error)
  have FG: "r = (case ioscm_parse_mode_bits ''gdbscm_open_memory'' mode of
        Inl f \<Rightarrow> Inl f
      | Inr bits \<Rightarrow>
          ioscm_init_memory_port bits start
            (case size_arg of None \<Rightarrow> NOT 0 - 1 | Some n \<Rightarrow> start + n - 1))"
    if "start \<noteq> NOT 0"
       "case size_arg of None \<Rightarrow> True | Some n \<Rightarrow> n \<noteq> 0 \<and> \<not> start + n < start"
    unfolding r_def mode_def using open_memory_end [OF start_def that] .
  have ends: "start \<le> (case size_arg of None \<Rightarrow> NOT 0 - 1 | Some n \<Rightarrow> start + n - 1)
      \<and> (case size_arg of None \<Rightarrow> NOT 0 - 1 | Some n \<Rightarrow> start + n - 1) \<noteq> NOT 0
      \<and> (case size_arg of None \<Rightarrow> NOT 0 - 1 | Some n \<Rightarrow> start + n - 1) - start + 1
          = (case size_arg of None \<Rightarrow> NOT 0 - start | Some n \<Rightarrow> n)"
    if "start \<noteq> NOT 0"
       "case size_arg of None \<Rightarrow> True | Some n \<Rightarrow> n \<noteq> 0 \<and> \<not> start + n < start"
  proof (cases size_arg)
    case None
    then show ?thesis using start_le_max1 [OF that(1)] by simp
  next
    case (Some n)
    then have n: "n \<noteq> 0" "\<not> start + n < start" using that(2) by simp_all
    have "start + n - 1 \<noteq> NOT 0" using end_all_ones_wraps n by blast
    then show ?thesis using Some start_le_end [OF n] by simp
  qed
  show ?thesis
    unfolding Let_def start_def [symmetric] mode_def [symmetric] r_def [symmetric]
    using A B C D E FG ends
    by (auto simp: parse_mode_bits_cases bad_mode_string_def init_memory_port_ok)
qed

theorem gdbscm_open_memory_outcomes_witness:
  "gdbscm_open_memory None (Some (NOT 0)) (Some 4)
     = Inl (gdbscm_out_of_range_error (Some ''gdbscm_open_memory'') 1 (SCM_Integer (- 1))
              ''start address of 0xff..ff not allowed'')
   \<and> gdbscm_open_memory None (Some 0x1000) (Some 0)
     = Inl (gdbscm_out_of_range_error (Some ''gdbscm_open_memory'') 0 (SCM_Integer 0)
              ''zero size'')
   \<and> gdbscm_open_memory None (Some 0xFFFFFFFFFFFFFFFE) (Some 2)
     = Inl (gdbscm_out_of_range_error (Some ''gdbscm_open_memory'') 0
              (scm_list_2 (SCM_Integer 0xFFFFFFFFFFFFFFFE) (SCM_Integer 2))
              ''start+size overflows'')
   \<and> (0xFFFFFFFFFFFFFFFE :: 64 word) + 2 - 1 = NOT 0
   \<and> gdbscm_open_memory (Some ''x'') (Some 0x1000) (Some 4)
     = Inl (gdbscm_out_of_range_error (Some ''gdbscm_open_memory'') 0 (SCM_String ''x'')
              ''bad mode string'')
   \<and> gdbscm_open_memory (Some ''r+'') (Some 0x1000) (Some 4)
     = Inr \<lparr>mode_bits = {SCM_OPN, SCM_RDNG, SCM_WRTNG},
            stream = \<lparr>iomem_start = 0x1000, iomem_end = 0x1003, iomem_size = 4,
                      iomem_current = 0, iomem_read_buf_size = 16,
                      iomem_write_buf_size = 16\<rparr>,
            pt = \<lparr>pt_rw_random = True, pt_rw_active = SCM_PORT_NEITHER,
                  pt_read_buf_size = 16, pt_read_buf = [], pt_read_pos = 0,
                  pt_write_buf_size = 16, pt_write_buf = [],
                  pt_putback = False, pt_saved_read_buf_size = 0,
                  pt_saved_read_buf = [], pt_saved_read_pos = 0\<rparr>\<rparr>"
  using gdbscm_open_memory_outcomes [where start_arg = "Some (NOT 0)" and mode_arg = None
          and size_arg = "Some 4" and sz = 4]
        gdbscm_open_memory_outcomes [where start_arg = "Some 0x1000" and mode_arg = None
          and size_arg = "Some 0" and sz = 0]
        gdbscm_open_memory_outcomes [where start_arg = "Some 0xFFFFFFFFFFFFFFFE"
          and mode_arg = None and size_arg = "Some 2" and sz = 2]
        gdbscm_open_memory_outcomes [where start_arg = "Some 0x1000" and mode_arg = "Some ''x''"
          and size_arg = "Some 4" and sz = 4]
        gdbscm_open_memory_outcomes [where start_arg = "Some 0x1000" and mode_arg = "Some ''r+''"
          and size_arg = "Some 4" and sz = 4]
  by (simp add: Let_def scm_mode_bits_def insert_commute)

text \<open>
  C3 as stated fails: with start \<open>0x1000\<close> and size \<open>4\<close> none of the four cases holds,
  yet the open fails on the mode string \<^verbatim>\<open>x\<close>; and with start \<open>0xff..fe\<close> and size \<open>2\<close> the
  end address is all-ones but the error is the overflow one.
\<close>

theorem gdbscm_open_memory_counterexample:
  "(0x1000 :: 64 word) \<noteq> NOT 0 \<and> (4 :: 64 word) \<noteq> 0
   \<and> \<not> (0x1000 + 4 < (0x1000 :: 64 word)) \<and> (0x1000 :: 64 word) + 4 - 1 \<noteq> NOT 0
   \<and> gdbscm_open_memory (Some ''x'') (Some 0x1000) (Some 4)
      = Inl (Throw (SCM_Symbol ''out-of-range'')
               (SCM_List [SCM_String ''gdbscm_open_memory'', SCM_String ''bad mode string: ~S'',
                          SCM_List [SCM_String ''x''], SCM_List [SCM_String ''x'']]))
   \<and> (0xFFFFFFFFFFFFFFFE :: 64 word) + 2 - 1 = NOT 0
   \<and> gdbscm_open_memory (Some ''r'') (Some 0xFFFFFFFFFFFFFFFE) (Some 2)
      = Inl (Throw (SCM_Symbol ''out-of-range'')
               (SCM_List [SCM_String ''gdbscm_open_memory'',
                          SCM_String ''start+size overflows: ~S'',
                          SCM_List [SCM_List [SCM_Integer 0xFFFFFFFFFFFFFFFE, SCM_Integer 2]],
                          SCM_List [SCM_List [SCM_Integer 0xFFFFFFFFFFFFFFFE, SCM_Integer 2]]]))"
  by (simp add: gdbscm_open_memory_def ioscm_parse_mode_bits_def bad_mode_string_def
      out_of_range_error_Throw scm_list_2_def Let_def)

text \<open>
  C8, as the code has it.  Opened with a start address other than all-ones, a valid mode
  and no size, the port's end bound is \<open>0xff..fe\<close>, one below the maximum address, and
  its size is \<open>end - start + 1\<close>, which is \<open>2^64 - 1 - start\<close> without wrapping.
\<close>

theorem open_memory_without_size:
  "start \<noteq> NOT 0
   \<and> ioscm_parse_mode_bits ''gdbscm_open_memory''
         (case mode_arg of None \<Rightarrow> ''r'' | Some s \<Rightarrow> s) = Inr bits
   \<longrightarrow> (case gdbscm_open_memory mode_arg (Some start) None of
          Inl f \<Rightarrow> False
        | Inr p \<Rightarrow>
            iomem_start (stream p) = start
            \<and> iomem_end (stream p) = NOT 0 - 1
            \<and> iomem_end (stream p) \<noteq> NOT 0
            \<and> iomem_size (stream p) = iomem_end (stream p) - iomem_start (stream p) + 1
            \<and> unat (iomem_size (stream p)) = 2 ^ 64 - 1 - unat start)"
proof (intro impI, elim conjE)
  assume ns: "start \<noteq> NOT 0"
    and pm: "ioscm_parse_mode_bits ''gdbscm_open_memory''
         (case mode_arg of None \<Rightarrow> ''r'' | Some s \<Rightarrow> s) = Inr bits"
  have le: "start \<le> NOT 0 - 1" by (rule start_le_max1 [OF ns])
  have "unat (- 1 - start) = unat (- 1 :: 64 word) - unat start"
    by (rule unat_sub) simp
  then have sz: "unat (- 1 - start) = 2 ^ 64 - 1 - unat start"
    by (simp add: unat_all_ones)
  have "gdbscm_open_memory mode_arg (Some start) None =
      ioscm_init_memory_port bits start (NOT 0 - 1)"
    using open_memory_end [of start "Some start" None mode_arg] ns pm by simp
  then show "case gdbscm_open_memory mode_arg (Some start) None of
          Inl f \<Rightarrow> False
        | Inr p \<Rightarrow>
            iomem_start (stream p) = start
            \<and> iomem_end (stream p) = NOT 0 - 1
            \<and> iomem_end (stream p) \<noteq> NOT 0
            \<and> iomem_size (stream p) = iomem_end (stream p) - iomem_start (stream p) + 1
            \<and> unat (iomem_size (stream p)) = 2 ^ 64 - 1 - unat start"
    using le sz by (simp add: init_memory_port_ok)
qed

theorem open_memory_without_size_witness:
  "(case gdbscm_open_memory (Some ''r'') (Some 0x1000) None of
      Inl f \<Rightarrow> False
    | Inr p \<Rightarrow>
        iomem_start (stream p) = 0x1000
        \<and> iomem_end (stream p) = 0xFFFFFFFFFFFFFFFE
        \<and> iomem_size (stream p) = 0xFFFFFFFFFFFFEFFF)"
  using open_memory_without_size [where start = "0x1000" and mode_arg = "Some ''r''"
          and bits = "{SCM_OPN, SCM_RDNG}"]
  by (simp add: ioscm_parse_mode_bits_def scm_mode_bits_def insert_commute split: sum.splits)

text \<open>
  C8 as stated fails: opened at \<open>0x1000\<close> with no size, the port's end bound is
  \<open>0xfffffffffffffffe\<close>, not the maximum address.
\<close>

theorem open_memory_without_size_counterexample:
  "gdbscm_open_memory (Some ''r'') (Some 0x1000) None
     = Inr \<lparr>mode_bits = {SCM_OPN, SCM_RDNG},
            stream = \<lparr>iomem_start = 0x1000, iomem_end = 0xFFFFFFFFFFFFFFFE,
                      iomem_size = 0xFFFFFFFFFFFFEFFF, iomem_current = 0,
                      iomem_read_buf_size = 16, iomem_write_buf_size = 16\<rparr>,
            pt = \<lparr>pt_rw_random = True, pt_rw_active = SCM_PORT_NEITHER,
                  pt_read_buf_size = 16, pt_read_buf = [], pt_read_pos = 0,
                  pt_write_buf_size = 16, pt_write_buf = [],
                  pt_putback = False, pt_saved_read_buf_size = 0,
                  pt_saved_read_buf = [], pt_saved_read_pos = 0\<rparr>\<rparr>
   \<and> (0xFFFFFFFFFFFFFFFE :: 64 word) \<noteq> NOT 0"
  by (simp add: gdbscm_open_memory_def ioscm_parse_mode_bits_def ioscm_init_memory_port_def
      scm_mode_bits_def default_read_buf_size_def default_write_buf_size_def
      insert_commute Let_def)

section \<open>Writing, seeking and resizing\<close>

text \<open>
  C2, as the code has it.  With bytes pending in the write buffer, a flush whose byte
  count exceeds \<open>size - current\<close> throws \<^verbatim>\<open>out-of-range\<close> and leaves the port and the
  debuggee as they were.  Otherwise the pending bytes are handed to
  \<^verbatim>\<open>target_write_memory\<close> at \<open>start + current\<close>: when that succeeds, \<open>current\<close> advances
  by exactly the count and the buffer is empty; when it fails, \<^verbatim>\<open>gdb:memory-error\<close> is
  thrown and \<open>current\<close> and the pending bytes are unchanged.  A direct write is a flush
  followed by a write on the flushed port, with the same bounds check and the same two
  outcomes of the debuggee write.  On a port just opened with size \<open>n\<close>, a write of
  exactly \<open>n\<close> bytes that the debuggee accepts leaves \<open>current = n\<close>, and a write of
  \<open>n + 1\<close> bytes throws \<^verbatim>\<open>out-of-range\<close> with \<open>current\<close> still \<open>0\<close> and nothing written.
\<close>

theorem memory_port_flush_atomic:
  "let iomem = stream p;
       buffered = pt_write_buf (pt p);
       room = unat (iomem_size iomem - iomem_current iomem);
       addr = iomem_start iomem + iomem_current iomem
   in (buffered \<noteq> [] \<and> length buffered > room \<longrightarrow>
         gdbscm_memory_port_flush ops p m =
           (Inl (gdbscm_out_of_range_error (Some ''gdbscm_memory_port_flush'') 0
                   (SCM_Integer (int (length buffered)))
                   ''writing beyond end of memory range''), p, m))
    \<and> (buffered \<noteq> [] \<and> length buffered \<le> room
         \<and> target_write_memory ops m addr buffered = (0, m') \<longrightarrow>
         gdbscm_memory_port_flush ops p m =
           (Inr (),
            p\<lparr>stream := iomem\<lparr>iomem_current := iomem_current iomem + of_nat (length buffered)\<rparr>,
              pt := (pt p)\<lparr>pt_write_buf := [], pt_rw_active := SCM_PORT_NEITHER\<rparr>\<rparr>, m'))
    \<and> (buffered \<noteq> [] \<and> length buffered \<le> room
         \<and> target_write_memory ops m addr buffered = (st, m') \<and> st \<noteq> 0 \<longrightarrow>
         gdbscm_memory_port_flush ops p m =
           (Inl (gdbscm_memory_error (Some ''gdbscm_memory_port_flush'')
                   (Some ''error writing memory'') SCM_EOL), p, m'))
    \<and> gdbscm_memory_port_write ops p m data =
         (case gdbscm_memory_port_flush ops p m of
            (Inl f, p1, m1) \<Rightarrow> (Inl f, p1, m1)
          | (Inr u, p1, m1) \<Rightarrow> gdbscm_memory_port_write ops p1 m1 data)
    \<and> (buffered = [] \<and> length data > room \<longrightarrow>
         gdbscm_memory_port_write ops p m data =
           (Inl (gdbscm_out_of_range_error (Some ''gdbscm_memory_port_write'') 0
                   (SCM_Integer (int (length data)))
                   ''writing beyond end of memory range''), p, m))
    \<and> (buffered = [] \<and> length data \<le> room
         \<and> target_write_memory ops m addr data = (0, m') \<longrightarrow>
         gdbscm_memory_port_write ops p m data =
           (Inr (),
            p\<lparr>stream := iomem\<lparr>iomem_current := iomem_current iomem + of_nat (length data)\<rparr>\<rparr>,
            m'))
    \<and> (buffered = [] \<and> length data \<le> room
         \<and> target_write_memory ops m addr data = (st, m') \<and> st \<noteq> 0 \<longrightarrow>
         gdbscm_memory_port_write ops p m data =
           (Inl (gdbscm_memory_error (Some ''gdbscm_memory_port_write'')
                   (Some ''error writing memory'') SCM_EOL), p, m'))
    \<and> (gdbscm_open_memory mode_arg (Some start) (Some n) = Inr p0 \<and> length data = unat n
         \<and> target_write_memory ops m start data = (0, m') \<longrightarrow>
         gdbscm_memory_port_write ops p0 m data =
           (Inr (), p0\<lparr>stream := (stream p0)\<lparr>iomem_current := n\<rparr>\<rparr>, m'))
    \<and> (gdbscm_open_memory mode_arg (Some start) (Some n) = Inr p0
         \<and> length data = unat n + 1 \<longrightarrow>
         iomem_current (stream p0) = 0
         \<and> gdbscm_memory_port_write ops p0 m data =
             (Inl (gdbscm_out_of_range_error (Some ''gdbscm_memory_port_write'') 0
                     (SCM_Integer (int (length data)))
                     ''writing beyond end of memory range''), p0, m))"
proof -
  have exact: "gdbscm_memory_port_write ops p0 m data =
           (Inr (), p0\<lparr>stream := (stream p0)\<lparr>iomem_current := n\<rparr>\<rparr>, m')"
    if o: "gdbscm_open_memory mode_arg (Some start) (Some n) = Inr p0"
      and l: "length data = unat n"
      and w: "target_write_memory ops m start data = (0, m')"
  proof -
    note f = open_memory_Inr [OF o]
    have "gdbscm_memory_port_write ops p0 m data =
        (Inr (), p0\<lparr>stream := (stream p0)\<lparr>iomem_current :=
             iomem_current (stream p0) + of_nat (length data)\<rparr>\<rparr>, m')"
      by (rule write_unbuffered_written) (use f l w in simp_all)
    then show ?thesis using f l by simp
  qed
  have over: "iomem_current (stream p0) = 0
         \<and> gdbscm_memory_port_write ops p0 m data =
             (Inl (gdbscm_out_of_range_error (Some ''gdbscm_memory_port_write'') 0
                     (SCM_Integer (int (length data)))
                     ''writing beyond end of memory range''), p0, m)"
    if o: "gdbscm_open_memory mode_arg (Some start) (Some n) = Inr p0"
      and l: "length data = unat n + 1"
  proof -
    note f = open_memory_Inr [OF o]
    have "gdbscm_memory_port_write ops p0 m data =
             (Inl (gdbscm_out_of_range_error (Some ''gdbscm_memory_port_write'') 0
                     (SCM_Integer (int (length data)))
                     ''writing beyond end of memory range''), p0, m)"
      by (rule write_unbuffered_beyond) (use f l in simp_all)
    then show ?thesis using f by simp
  qed
  show ?thesis
    unfolding Let_def
    apply (intro conjI impI)
    subgoal by (rule flush_beyond) simp_all
    subgoal by (rule flush_written) simp_all
    subgoal by (rule flush_memory_error [where st = st]) simp_all
    subgoal by (rule write_is_flush_then_write)
    subgoal by (rule write_unbuffered_beyond) simp_all
    subgoal by (rule write_unbuffered_written) simp_all
    subgoal by (rule write_unbuffered_memory_error [where st = st]) simp_all
    subgoal using exact by blast
    subgoal using over by blast
    subgoal using over by blast
    done
qed

theorem memory_port_flush_atomic_witness:
  "let p0 = \<lparr>mode_bits = {SCM_OPN, SCM_RDNG, SCM_WRTNG},
              stream = \<lparr>iomem_start = 0x1000, iomem_end = 0x1003, iomem_size = 4,
                        iomem_current = 0, iomem_read_buf_size = 16,
                        iomem_write_buf_size = 16\<rparr>,
              pt = \<lparr>pt_rw_random = True, pt_rw_active = SCM_PORT_NEITHER,
                    pt_read_buf_size = 16, pt_read_buf = [], pt_read_pos = 0,
                    pt_write_buf_size = 16, pt_write_buf = [],
                    pt_putback = False, pt_saved_read_buf_size = 0,
                    pt_saved_read_buf = [], pt_saved_read_pos = 0\<rparr>\<rparr>;
       buffering = (\<lambda>bs. p0\<lparr>pt := (pt p0)\<lparr>pt_write_buf := bs,
                                               pt_rw_active := SCM_PORT_WRITE\<rparr>\<rparr>);
       accepting = \<lparr>target_read_memory = (\<lambda>m a k. (0, (\<lambda>i. 0))),
                     target_write_memory = (\<lambda>m a bs. (0, (a, bs) # m))\<rparr>;
       refusing = \<lparr>target_read_memory = (\<lambda>m a k. (0, (\<lambda>i. 0))),
                    target_write_memory =
                      (\<lambda>(m :: (64 word \<times> 8 word list) list) a bs. (1, m))\<rparr>
   in gdbscm_memory_port_flush accepting (buffering [1, 2, 3, 4, 5]) []
        = (Inl (gdbscm_out_of_range_error (Some ''gdbscm_memory_port_flush'') 0
                  (SCM_Integer 5) ''writing beyond end of memory range''),
           buffering [1, 2, 3, 4, 5], [])
    \<and> gdbscm_memory_port_flush accepting (buffering [1, 2, 3]) []
        = (Inr (), p0\<lparr>stream := (stream p0)\<lparr>iomem_current := 3\<rparr>\<rparr>, [(0x1000, [1, 2, 3])])
    \<and> gdbscm_memory_port_flush refusing (buffering [1, 2, 3]) []
        = (Inl (gdbscm_memory_error (Some ''gdbscm_memory_port_flush'')
                  (Some ''error writing memory'') SCM_EOL), buffering [1, 2, 3], [])
    \<and> gdbscm_open_memory (Some ''r+'') (Some 0x1000) (Some 4) = Inr p0
    \<and> gdbscm_memory_port_write accepting p0 [] [1, 2, 3, 4]
        = (Inr (), p0\<lparr>stream := (stream p0)\<lparr>iomem_current := 4\<rparr>\<rparr>, [(0x1000, [1, 2, 3, 4])])
    \<and> gdbscm_memory_port_write accepting p0 [] [1, 2, 3, 4, 5]
        = (Inl (gdbscm_out_of_range_error (Some ''gdbscm_memory_port_write'') 0
                  (SCM_Integer 5) ''writing beyond end of memory range''), p0, [])
    \<and> gdbscm_memory_port_write refusing p0 [] [1, 2, 3, 4]
        = (Inl (gdbscm_memory_error (Some ''gdbscm_memory_port_write'')
                  (Some ''error writing memory'') SCM_EOL), p0, [])"
proof -
  define p0 where "p0 = \<lparr>mode_bits = {SCM_OPN, SCM_RDNG, SCM_WRTNG},
              stream = \<lparr>iomem_start = 0x1000 :: 64 word, iomem_end = 0x1003, iomem_size = 4,
                        iomem_current = 0, iomem_read_buf_size = 16,
                        iomem_write_buf_size = 16\<rparr>,
              pt = \<lparr>pt_rw_random = True, pt_rw_active = SCM_PORT_NEITHER,
                    pt_read_buf_size = 16, pt_read_buf = [], pt_read_pos = 0,
                    pt_write_buf_size = 16, pt_write_buf = [],
                    pt_putback = False, pt_saved_read_buf_size = 0,
                    pt_saved_read_buf = [], pt_saved_read_pos = 0\<rparr>\<rparr>"
  define buffering where "buffering = (\<lambda>bs. p0\<lparr>pt := (pt p0)\<lparr>pt_write_buf := bs,
                                               pt_rw_active := SCM_PORT_WRITE\<rparr>\<rparr>)"
  define accepting :: "(64 word \<times> 8 word list) list target_ops"
    where "accepting = \<lparr>target_read_memory = (\<lambda>m a k. (0, (\<lambda>i. 0))),
                     target_write_memory = (\<lambda>m a bs. (0, (a, bs) # m))\<rparr>"
  define refusing :: "(64 word \<times> 8 word list) list target_ops"
    where "refusing = \<lparr>target_read_memory = (\<lambda>m a k. (0, (\<lambda>i. 0))),
                    target_write_memory = (\<lambda>m a bs. (1, m))\<rparr>"
  have o: "gdbscm_open_memory (Some ''r+'') (Some 0x1000) (Some 4) = Inr p0"
    by (simp add: p0_def gdbscm_open_memory_def ioscm_parse_mode_bits_def
        ioscm_init_memory_port_def scm_mode_bits_def default_read_buf_size_def
        default_write_buf_size_def insert_commute Let_def)
  have a: "gdbscm_memory_port_flush accepting (buffering [1, 2, 3, 4, 5]) []
        = (Inl (gdbscm_out_of_range_error (Some ''gdbscm_memory_port_flush'') 0
                  (SCM_Integer 5) ''writing beyond end of memory range''),
           buffering [1, 2, 3, 4, 5], [])"
  proof -
    let ?p = "buffering [1, 2, 3, 4, 5]"
    have "pt_write_buf (pt ?p) \<noteq> []
        \<and> length (pt_write_buf (pt ?p))
            > unat (iomem_size (stream ?p) - iomem_current (stream ?p)) \<longrightarrow>
         gdbscm_memory_port_flush accepting ?p [] =
           (Inl (gdbscm_out_of_range_error (Some ''gdbscm_memory_port_flush'') 0
                   (SCM_Integer (int (length (pt_write_buf (pt ?p)))))
                   ''writing beyond end of memory range''), ?p, [])"
      using memory_port_flush_atomic [where p = ?p and ops = accepting and m = "[]"]
      unfolding Let_def by blast
    then show ?thesis by (simp add: buffering_def p0_def)
  qed
  have b: "gdbscm_memory_port_flush accepting (buffering [1, 2, 3]) []
        = (Inr (), p0\<lparr>stream := (stream p0)\<lparr>iomem_current := 3\<rparr>\<rparr>, [(0x1000, [1, 2, 3])])"
  proof -
    let ?p = "buffering [1, 2, 3]"
    have "pt_write_buf (pt ?p) \<noteq> []
        \<and> length (pt_write_buf (pt ?p))
            \<le> unat (iomem_size (stream ?p) - iomem_current (stream ?p))
        \<and> target_write_memory accepting []
             (iomem_start (stream ?p) + iomem_current (stream ?p)) (pt_write_buf (pt ?p))
            = (0, [(0x1000, [1, 2, 3])]) \<longrightarrow>
         gdbscm_memory_port_flush accepting ?p [] =
           (Inr (),
            ?p\<lparr>stream := (stream ?p)\<lparr>iomem_current :=
                   iomem_current (stream ?p) + of_nat (length (pt_write_buf (pt ?p)))\<rparr>,
               pt := (pt ?p)\<lparr>pt_write_buf := [], pt_rw_active := SCM_PORT_NEITHER\<rparr>\<rparr>,
            [(0x1000, [1, 2, 3])])"
      using memory_port_flush_atomic [where p = ?p and ops = accepting and m = "[]"
          and m' = "[(0x1000, [1, 2, 3])]"]
      unfolding Let_def by blast
    then show ?thesis by (simp add: buffering_def p0_def accepting_def)
  qed
  have c: "gdbscm_memory_port_flush refusing (buffering [1, 2, 3]) []
        = (Inl (gdbscm_memory_error (Some ''gdbscm_memory_port_flush'')
                  (Some ''error writing memory'') SCM_EOL), buffering [1, 2, 3], [])"
  proof -
    let ?p = "buffering [1, 2, 3]"
    have "pt_write_buf (pt ?p) \<noteq> []
        \<and> length (pt_write_buf (pt ?p))
            \<le> unat (iomem_size (stream ?p) - iomem_current (stream ?p))
        \<and> target_write_memory refusing []
             (iomem_start (stream ?p) + iomem_current (stream ?p)) (pt_write_buf (pt ?p))
            = (1, []) \<and> (1 :: int) \<noteq> 0 \<longrightarrow>
         gdbscm_memory_port_flush refusing ?p [] =
           (Inl (gdbscm_memory_error (Some ''gdbscm_memory_port_flush'')
                   (Some ''error writing memory'') SCM_EOL), ?p, [])"
      using memory_port_flush_atomic [where p = ?p and ops = refusing and m = "[]"
          and m' = "[]" and st = 1]
      unfolding Let_def by blast
    then show ?thesis by (simp add: buffering_def p0_def refusing_def)
  qed
  have d: "gdbscm_memory_port_write accepting p0 [] [1, 2, 3, 4]
        = (Inr (), p0\<lparr>stream := (stream p0)\<lparr>iomem_current := 4\<rparr>\<rparr>, [(0x1000, [1, 2, 3, 4])])"
  proof -
    have "gdbscm_open_memory (Some ''r+'') (Some 0x1000) (Some 4) = Inr p0
        \<and> length [1, 2, 3, 4 :: 8 word] = unat (4 :: 64 word)
        \<and> target_write_memory accepting [] 0x1000 [1, 2, 3, 4] = (0, [(0x1000, [1, 2, 3, 4])])
        \<longrightarrow> gdbscm_memory_port_write accepting p0 [] [1, 2, 3, 4] =
           (Inr (), p0\<lparr>stream := (stream p0)\<lparr>iomem_current := 4\<rparr>\<rparr>, [(0x1000, [1, 2, 3, 4])])"
      using memory_port_flush_atomic [where ops = accepting and m = "[]" and ?p0.0 = p0
          and mode_arg = "Some ''r+''" and start = "0x1000" and n = 4
          and data = "[1, 2, 3, 4]" and m' = "[(0x1000, [1, 2, 3, 4])]"]
      unfolding Let_def by blast
    then show ?thesis using o by (simp add: accepting_def)
  qed
  have e: "gdbscm_memory_port_write accepting p0 [] [1, 2, 3, 4, 5]
        = (Inl (gdbscm_out_of_range_error (Some ''gdbscm_memory_port_write'') 0
                  (SCM_Integer 5) ''writing beyond end of memory range''), p0, [])"
  proof -
    have "gdbscm_open_memory (Some ''r+'') (Some 0x1000) (Some 4) = Inr p0
        \<and> length [1, 2, 3, 4, 5 :: 8 word] = unat (4 :: 64 word) + 1
        \<longrightarrow> iomem_current (stream p0) = 0
          \<and> gdbscm_memory_port_write accepting p0 [] [1, 2, 3, 4, 5] =
             (Inl (gdbscm_out_of_range_error (Some ''gdbscm_memory_port_write'') 0
                     (SCM_Integer (int (length [1, 2, 3, 4, 5 :: 8 word])))
                     ''writing beyond end of memory range''), p0, [])"
      using memory_port_flush_atomic [where ops = accepting and m = "[]" and ?p0.0 = p0
          and mode_arg = "Some ''r+''" and start = "0x1000" and n = 4
          and data = "[1, 2, 3, 4, 5]"]
      unfolding Let_def by blast
    then show ?thesis using o by simp
  qed
  have f: "gdbscm_memory_port_write refusing p0 [] [1, 2, 3, 4]
        = (Inl (gdbscm_memory_error (Some ''gdbscm_memory_port_write'')
                  (Some ''error writing memory'') SCM_EOL), p0, [])"
  proof -
    have "pt_write_buf (pt p0) = []
        \<and> length [1, 2, 3, 4 :: 8 word]
            \<le> unat (iomem_size (stream p0) - iomem_current (stream p0))
        \<and> target_write_memory refusing []
             (iomem_start (stream p0) + iomem_current (stream p0)) [1, 2, 3, 4]
            = (1, []) \<and> (1 :: int) \<noteq> 0 \<longrightarrow>
         gdbscm_memory_port_write refusing p0 [] [1, 2, 3, 4] =
           (Inl (gdbscm_memory_error (Some ''gdbscm_memory_port_write'')
                   (Some ''error writing memory'') SCM_EOL), p0, [])"
      using memory_port_flush_atomic [where p = p0 and ops = refusing and m = "[]"
          and m' = "[]" and st = 1 and data = "[1, 2, 3, 4]"]
      unfolding Let_def by blast
    then show ?thesis by (simp add: p0_def refusing_def)
  qed
  show ?thesis
    using a b c d e f o
    unfolding Let_def buffering_def accepting_def refusing_def p0_def
    by simp
qed

text \<open>
  C2 as stated fails: three pending bytes fit the four-byte range, but the debuggee
  refuses the write, so the flush throws \<^verbatim>\<open>gdb:memory-error\<close> and neither advances
  \<open>current\<close> nor empties the buffer; likewise a direct write of exactly four bytes to the
  fresh four-byte port does not succeed.
\<close>

theorem memory_port_flush_counterexample:
  "let p = \<lparr>mode_bits = {SCM_OPN, SCM_RDNG, SCM_WRTNG},
             stream = \<lparr>iomem_start = 0x1000, iomem_end = 0x1003, iomem_size = 4,
                       iomem_current = 0, iomem_read_buf_size = 16,
                       iomem_write_buf_size = 16\<rparr>,
             pt = \<lparr>pt_rw_random = True, pt_rw_active = SCM_PORT_WRITE,
                   pt_read_buf_size = 16, pt_read_buf = [], pt_read_pos = 0,
                   pt_write_buf_size = 16, pt_write_buf = [1, 2, 3],
                   pt_putback = False, pt_saved_read_buf_size = 0,
                   pt_saved_read_buf = [], pt_saved_read_pos = 0\<rparr>\<rparr>;
       refusing = \<lparr>target_read_memory = (\<lambda>m a k. (0, (\<lambda>i. 0))),
                    target_write_memory = (\<lambda>m a bs. (1, m))\<rparr>
   in length (pt_write_buf (pt p)) \<le> unat (iomem_size (stream p) - iomem_current (stream p))
    \<and> gdbscm_memory_port_flush refusing p ()
        = (Inl (Throw (SCM_Symbol ''gdb:memory-error'')
                  (SCM_List [SCM_String ''gdbscm_memory_port_flush'',
                             SCM_String ''error writing memory'', SCM_EOL, SCM_EOL])),
           p, ())
    \<and> gdbscm_memory_port_write refusing
          (p\<lparr>pt := (pt p)\<lparr>pt_write_buf := [], pt_rw_active := SCM_PORT_NEITHER\<rparr>\<rparr>) ()
          [1, 2, 3, 4]
        = (Inl (Throw (SCM_Symbol ''gdb:memory-error'')
                  (SCM_List [SCM_String ''gdbscm_memory_port_write'',
                             SCM_String ''error writing memory'', SCM_EOL, SCM_EOL])),
           p\<lparr>pt := (pt p)\<lparr>pt_write_buf := [], pt_rw_active := SCM_PORT_NEITHER\<rparr>\<rparr>, ())"
  by (simp add: Let_def gdbscm_memory_port_flush_def gdbscm_memory_port_write_def
      memory_error_Throw)

text \<open>
  C4.  The port opened with mode \<^verbatim>\<open>r+\<close>, start \<open>0x1000\<close> and size \<open>4\<close>: once three bytes
  are written, a seek of offset \<open>0\<close> from the current position reports \<open>3\<close> and changes
  neither the port nor the debuggee; a further write of two bytes throws
  \<^verbatim>\<open>out-of-range\<close> and the position is still \<open>3\<close>.  The write method writes through, and
  the runtime then marks a random-access port as writing; the statement holds with the
  flag as the method leaves it and as the runtime sets it.  It also holds when the three
  bytes are pending in the write buffer instead: the seek reports \<open>3\<close> without flushing,
  and the write of two more bytes flushes the three, then throws, leaving the position
  at \<open>3\<close>.
\<close>

theorem memory_port_write_seek_write:
  "let p0 = \<lparr>mode_bits = {SCM_OPN, SCM_RDNG, SCM_WRTNG},
              stream = \<lparr>iomem_start = 0x1000, iomem_end = 0x1003, iomem_size = 4,
                        iomem_current = 0, iomem_read_buf_size = 16,
                        iomem_write_buf_size = 16\<rparr>,
              pt = \<lparr>pt_rw_random = True, pt_rw_active = SCM_PORT_NEITHER,
                    pt_read_buf_size = 16, pt_read_buf = [], pt_read_pos = 0,
                    pt_write_buf_size = 16, pt_write_buf = [],
                    pt_putback = False, pt_saved_read_buf_size = 0,
                    pt_saved_read_buf = [], pt_saved_read_pos = 0\<rparr>\<rparr>;
       p1 = p0\<lparr>stream := (stream p0)\<lparr>iomem_current := 3\<rparr>\<rparr>;
       written = p1\<lparr>pt := (pt p1)\<lparr>pt_rw_active := rw\<rparr>\<rparr>;
       buffered = p0\<lparr>pt := (pt p0)\<lparr>pt_write_buf := d3, pt_rw_active := SCM_PORT_WRITE\<rparr>\<rparr>;
       beyond = Inl (gdbscm_out_of_range_error (Some ''gdbscm_memory_port_write'') 0
                       (SCM_Integer 2) ''writing beyond end of memory range'')
   in gdbscm_open_memory (Some ''r+'') (Some 0x1000) (Some 4) = Inr p0
    \<and> (length d3 = 3 \<and> length d2 = 2 \<and> target_write_memory ops m 0x1000 d3 = (0, m1)
         \<and> rw \<noteq> SCM_PORT_READ \<longrightarrow>
         gdbscm_memory_port_write ops p0 m d3 = (Inr (), p1, m1)
         \<and> gdbscm_memory_port_seek ops written m1 0 SEEK_CUR = (Inr 3, written, m1)
         \<and> gdbscm_memory_port_write ops written m1 d2 = (beyond, written, m1)
         \<and> iomem_current (stream written) = 3
         \<and> gdbscm_memory_port_seek ops buffered m 0 SEEK_CUR = (Inr 3, buffered, m)
         \<and> gdbscm_memory_port_write ops buffered m d2 = (beyond, p1, m1))"
proof -
  define p0 where "p0 = \<lparr>mode_bits = {SCM_OPN, SCM_RDNG, SCM_WRTNG},
              stream = \<lparr>iomem_start = 0x1000 :: 64 word, iomem_end = 0x1003, iomem_size = 4,
                        iomem_current = 0, iomem_read_buf_size = 16,
                        iomem_write_buf_size = 16\<rparr>,
              pt = \<lparr>pt_rw_random = True, pt_rw_active = SCM_PORT_NEITHER,
                    pt_read_buf_size = 16, pt_read_buf = [], pt_read_pos = 0,
                    pt_write_buf_size = 16, pt_write_buf = [],
                    pt_putback = False, pt_saved_read_buf_size = 0,
                    pt_saved_read_buf = [], pt_saved_read_pos = 0\<rparr>\<rparr>"
  define p1 where "p1 = p0\<lparr>stream := (stream p0)\<lparr>iomem_current := 3\<rparr>\<rparr>"
  define written where "written = p1\<lparr>pt := (pt p1)\<lparr>pt_rw_active := rw\<rparr>\<rparr>"
  define buffered
    where "buffered = p0\<lparr>pt := (pt p0)\<lparr>pt_write_buf := d3, pt_rw_active := SCM_PORT_WRITE\<rparr>\<rparr>"
  have o: "gdbscm_open_memory (Some ''r+'') (Some 0x1000) (Some 4) = Inr p0"
    by (simp add: p0_def gdbscm_open_memory_def ioscm_parse_mode_bits_def
        ioscm_init_memory_port_def scm_mode_bits_def default_read_buf_size_def
        default_write_buf_size_def insert_commute Let_def)
  have rest: "gdbscm_memory_port_write ops p0 m d3 = (Inr (), p1, m1)
         \<and> gdbscm_memory_port_seek ops written m1 0 SEEK_CUR = (Inr 3, written, m1)
         \<and> gdbscm_memory_port_write ops written m1 d2
             = (Inl (gdbscm_out_of_range_error (Some ''gdbscm_memory_port_write'') 0
                       (SCM_Integer 2) ''writing beyond end of memory range''), written, m1)
         \<and> iomem_current (stream written) = 3
         \<and> gdbscm_memory_port_seek ops buffered m 0 SEEK_CUR = (Inr 3, buffered, m)
         \<and> gdbscm_memory_port_write ops buffered m d2
             = (Inl (gdbscm_out_of_range_error (Some ''gdbscm_memory_port_write'') 0
                       (SCM_Integer 2) ''writing beyond end of memory range''), p1, m1)"
    if l3: "length d3 = 3" and l2: "length d2 = 2"
      and w: "target_write_memory ops m 0x1000 d3 = (0, m1)" and rw: "rw \<noteq> SCM_PORT_READ"
  proof -
    have w1: "gdbscm_memory_port_write ops p0 m d3 = (Inr (), p1, m1)"
      using write_unbuffered_written [of p0 d3 ops m m1] l3 w by (simp add: p0_def p1_def)
    have s1: "gdbscm_memory_port_seek ops written m1 0 SEEK_CUR = (Inr 3, written, m1)"
    proof (cases rw)
      case SCM_PORT_NEITHER
      then show ?thesis
        using seek_neither_report [of written ops m1]
        by (simp add: written_def p1_def p0_def)
    next
      case SCM_PORT_READ
      then show ?thesis using rw by simp
    next
      case SCM_PORT_WRITE
      then show ?thesis
        using seek_write_report [of written ops m1]
        by (simp add: written_def p1_def p0_def)
    qed
    have w2: "gdbscm_memory_port_write ops written m1 d2
             = (Inl (gdbscm_out_of_range_error (Some ''gdbscm_memory_port_write'') 0
                       (SCM_Integer 2) ''writing beyond end of memory range''), written, m1)"
      using write_unbuffered_beyond [of written d2 ops m1] l2
      by (simp add: written_def p1_def p0_def)
    have c: "iomem_current (stream written) = 3"
      by (simp add: written_def p1_def p0_def)
    have s2: "gdbscm_memory_port_seek ops buffered m 0 SEEK_CUR = (Inr 3, buffered, m)"
      using seek_write_report [of buffered ops m] l3
      by (simp add: buffered_def p0_def)
    have ne: "d3 \<noteq> []" using l3 by auto
    have fl: "gdbscm_memory_port_flush ops buffered m = (Inr (), p1, m1)"
      using flush_written [of buffered ops m m1] l3 w ne
      by (simp add: buffered_def p0_def p1_def)
    have w3: "gdbscm_memory_port_write ops p1 m1 d2
             = (Inl (gdbscm_out_of_range_error (Some ''gdbscm_memory_port_write'') 0
                       (SCM_Integer 2) ''writing beyond end of memory range''), p1, m1)"
      using write_unbuffered_beyond [of p1 d2 ops m1] l2
      by (simp add: p1_def p0_def)
    have w4: "gdbscm_memory_port_write ops buffered m d2
             = (Inl (gdbscm_out_of_range_error (Some ''gdbscm_memory_port_write'') 0
                       (SCM_Integer 2) ''writing beyond end of memory range''), p1, m1)"
      using write_is_flush_then_write [of ops buffered m d2] fl w3 by simp
    show ?thesis using w1 s1 w2 c s2 w4 by simp
  qed
  show ?thesis
    unfolding Let_def p0_def [symmetric]
    unfolding p1_def [symmetric]
    unfolding written_def [symmetric] buffered_def [symmetric]
    using o rest by blast
qed

theorem memory_port_write_seek_write_witness:
  "let p0 = \<lparr>mode_bits = {SCM_OPN, SCM_RDNG, SCM_WRTNG},
              stream = \<lparr>iomem_start = 0x1000, iomem_end = 0x1003, iomem_size = 4,
                        iomem_current = 0, iomem_read_buf_size = 16,
                        iomem_write_buf_size = 16\<rparr>,
              pt = \<lparr>pt_rw_random = True, pt_rw_active = SCM_PORT_NEITHER,
                    pt_read_buf_size = 16, pt_read_buf = [], pt_read_pos = 0,
                    pt_write_buf_size = 16, pt_write_buf = [],
                    pt_putback = False, pt_saved_read_buf_size = 0,
                    pt_saved_read_buf = [], pt_saved_read_pos = 0\<rparr>\<rparr>;
       p1 = p0\<lparr>stream := (stream p0)\<lparr>iomem_current := 3\<rparr>\<rparr>;
       written = p1\<lparr>pt := (pt p1)\<lparr>pt_rw_active := SCM_PORT_WRITE\<rparr>\<rparr>;
       accepting = \<lparr>target_read_memory = (\<lambda>m a k. (0, (\<lambda>i. 0))),
                     target_write_memory = (\<lambda>m a bs. (0, (a, bs) # m))\<rparr>
   in gdbscm_open_memory (Some ''r+'') (Some 0x1000) (Some 4) = Inr p0
    \<and> gdbscm_memory_port_write accepting p0 [] [1, 2, 3] = (Inr (), p1, [(0x1000, [1, 2, 3])])
    \<and> gdbscm_memory_port_seek accepting written [(0x1000, [1, 2, 3])] 0 SEEK_CUR
        = (Inr 3, written, [(0x1000, [1, 2, 3])])
    \<and> gdbscm_memory_port_write accepting written [(0x1000, [1, 2, 3])] [4, 5]
        = (Inl (gdbscm_out_of_range_error (Some ''gdbscm_memory_port_write'') 0
                  (SCM_Integer 2) ''writing beyond end of memory range''),
           written, [(0x1000, [1, 2, 3])])
    \<and> iomem_current (stream written) = 3"
  using memory_port_write_seek_write [where ?d3.0 = "[1, 2, 3]" and ?d2.0 = "[4, 5]"
      and m = "[]" and ?m1.0 = "[(0x1000, [1, 2, 3])]" and rw = SCM_PORT_WRITE
      and ops = "\<lparr>target_read_memory = (\<lambda>m a k. (0, (\<lambda>i. 0))),
                     target_write_memory = (\<lambda>m a bs. (0, (a, bs) # m))\<rparr>"]
  unfolding Let_def by simp

text \<open>
  Resizing when the buffer sizes are as \<^verbatim>\<open>ioscm_init_memory_port\<close> and
  \<^verbatim>\<open>ioscm_reinit_memory_port\<close> leave them, the sizes recorded in the stream data being
  those of the port table entry: a resize of the read buffer to a different size within
  \<open>[1, 4096]\<close> throws \<^verbatim>\<open>misc-error\<close> when unread bytes are buffered, and so does a resize
  of the write buffer when unflushed bytes are pending; a resize to the buffer's present
  size returns with the table unchanged, whatever is buffered; a size outside
  \<open>[1, 4096]\<close> throws \<^verbatim>\<open>out-of-range\<close>; and a resize that returns has set the one
  buffer's size and left the other buffer's size and contents alone.
\<close>

lemma resize_guard_sizes_in_sync:
  "tbl n = Some p \<and> memory_port_buf_sizes_ok p \<longrightarrow>
     (1 \<le> k \<and> k \<le> 4096 \<and> nat k \<noteq> pt_read_buf_size (pt p)
        \<and> pt_read_pos (pt p) < length (pt_read_buf (pt p)) \<longrightarrow>
        gdbscm_set_memory_port_read_buffer_size_x tbl (SCM_Port n) (SCM_Integer k) =
          Inl (scm_misc_error ''gdbscm_set_memory_port_read_buffer_size_x''
                 ''read buffer not empty: ~a'' (scm_list_1 (SCM_Port n))))
   \<and> (1 \<le> k \<and> k \<le> 4096 \<and> nat k \<noteq> pt_write_buf_size (pt p)
        \<and> pt_write_buf (pt p) \<noteq> [] \<longrightarrow>
        gdbscm_set_memory_port_write_buffer_size_x tbl (SCM_Port n) (SCM_Integer k) =
          Inl (scm_misc_error ''gdbscm_set_memory_port_write_buffer_size_x''
                 ''write buffer not empty: ~a'' (scm_list_1 (SCM_Port n))))
   \<and> gdbscm_set_memory_port_read_buffer_size_x tbl (SCM_Port n)
         (SCM_Integer (int (pt_read_buf_size (pt p)))) = Inr (SCM_UNSPECIFIED, tbl)
   \<and> gdbscm_set_memory_port_write_buffer_size_x tbl (SCM_Port n)
         (SCM_Integer (int (pt_write_buf_size (pt p)))) = Inr (SCM_UNSPECIFIED, tbl)
   \<and> (k < 1 \<or> 4096 < k \<longrightarrow>
        gdbscm_set_memory_port_read_buffer_size_x tbl (SCM_Port n) (SCM_Integer k) =
          Inl (gdbscm_out_of_range_error (Some ''gdbscm_set_memory_port_read_buffer_size_x'') 2
                 (SCM_Integer k) ''size not between 1 - 4096'')
        \<and> gdbscm_set_memory_port_write_buffer_size_x tbl (SCM_Port n) (SCM_Integer k) =
          Inl (gdbscm_out_of_range_error (Some ''gdbscm_set_memory_port_write_buffer_size_x'') 2
                 (SCM_Integer k) ''size not between 1 - 4096''))
   \<and> (gdbscm_set_memory_port_read_buffer_size_x tbl (SCM_Port n) (SCM_Integer k)
          = Inr (u, tbl') \<longrightarrow>
        (case tbl' n of
           None \<Rightarrow> False
         | Some p' \<Rightarrow>
             pt_read_buf_size (pt p') = nat k
             \<and> pt_write_buf_size (pt p') = pt_write_buf_size (pt p)
             \<and> iomem_write_buf_size (stream p') = iomem_write_buf_size (stream p)
             \<and> pt_write_buf (pt p') = pt_write_buf (pt p)))
   \<and> (gdbscm_set_memory_port_write_buffer_size_x tbl (SCM_Port n) (SCM_Integer k)
          = Inr (u, tbl') \<longrightarrow>
        (case tbl' n of
           None \<Rightarrow> False
         | Some p' \<Rightarrow>
             pt_write_buf_size (pt p') = nat k
             \<and> pt_read_buf_size (pt p') = pt_read_buf_size (pt p)
             \<and> iomem_read_buf_size (stream p') = iomem_read_buf_size (stream p)
             \<and> pt_read_buf (pt p') = pt_read_buf (pt p)
             \<and> pt_read_pos (pt p') = pt_read_pos (pt p)))"
proof (intro impI, elim conjE)
  assume t: "tbl n = Some p" and ok: "memory_port_buf_sizes_ok p"
  have rng: "1 \<le> pt_read_buf_size (pt p)" "pt_read_buf_size (pt p) \<le> 4096"
    "1 \<le> pt_write_buf_size (pt p)" "pt_write_buf_size (pt p) \<le> 4096"
    using ok
    by (simp_all add: memory_port_buf_sizes_ok_def min_memory_port_buf_size_def
        max_memory_port_buf_size_def)
  have same: "tbl(n \<mapsto> p) = tbl" using t by (rule map_upd_triv)
  have a: "gdbscm_set_memory_port_read_buffer_size_x tbl (SCM_Port n) (SCM_Integer k) =
          Inl (scm_misc_error ''gdbscm_set_memory_port_read_buffer_size_x''
                 ''read buffer not empty: ~a'' (scm_list_1 (SCM_Port n)))"
    if "1 \<le> k" "k \<le> 4096" "nat k \<noteq> pt_read_buf_size (pt p)"
       "pt_read_pos (pt p) < length (pt_read_buf (pt p))"
  proof -
    have "pt_read_buf (pt p) \<noteq> []" using that(4) by auto
    then show ?thesis
      using that set_read_buffer_size_in_range [of tbl n p k] t
        reinit_read [OF ok, of "nat k" "SCM_Port n"]
      by simp
  qed
  have b: "gdbscm_set_memory_port_write_buffer_size_x tbl (SCM_Port n) (SCM_Integer k) =
          Inl (scm_misc_error ''gdbscm_set_memory_port_write_buffer_size_x''
                 ''write buffer not empty: ~a'' (scm_list_1 (SCM_Port n)))"
    if "1 \<le> k" "k \<le> 4096" "nat k \<noteq> pt_write_buf_size (pt p)" "pt_write_buf (pt p) \<noteq> []"
    using that set_write_buffer_size_in_range [of tbl n p k] t
      reinit_write [OF ok, of "nat k" "SCM_Port n"]
    by simp
  have c: "gdbscm_set_memory_port_read_buffer_size_x tbl (SCM_Port n)
         (SCM_Integer (int (pt_read_buf_size (pt p)))) = Inr (SCM_UNSPECIFIED, tbl)"
    using set_read_buffer_size_in_range [of tbl n p "int (pt_read_buf_size (pt p))"] t
      reinit_read [OF ok, of "pt_read_buf_size (pt p)" "SCM_Port n"] rng same
    by simp
  have d: "gdbscm_set_memory_port_write_buffer_size_x tbl (SCM_Port n)
         (SCM_Integer (int (pt_write_buf_size (pt p)))) = Inr (SCM_UNSPECIFIED, tbl)"
    using set_write_buffer_size_in_range [of tbl n p "int (pt_write_buf_size (pt p))"] t
      reinit_write [OF ok, of "pt_write_buf_size (pt p)" "SCM_Port n"] rng same
    by simp
  have e: "gdbscm_set_memory_port_read_buffer_size_x tbl (SCM_Port n) (SCM_Integer k) =
          Inl (gdbscm_out_of_range_error (Some ''gdbscm_set_memory_port_read_buffer_size_x'') 2
                 (SCM_Integer k) ''size not between 1 - 4096'')
        \<and> gdbscm_set_memory_port_write_buffer_size_x tbl (SCM_Port n) (SCM_Integer k) =
          Inl (gdbscm_out_of_range_error (Some ''gdbscm_set_memory_port_write_buffer_size_x'') 2
                 (SCM_Integer k) ''size not between 1 - 4096'')"
    if "k < 1 \<or> 4096 < k"
    using set_buffer_size_out_of_range [of tbl n p k] t that
    by (simp add: out_of_range_buf_size_text)
  have in_rng: "1 \<le> k \<and> k \<le> 4096"
    if "gdbscm_set_memory_port_read_buffer_size_x tbl (SCM_Port n) (SCM_Integer k)
          = Inr (u, tbl')
        \<or> gdbscm_set_memory_port_write_buffer_size_x tbl (SCM_Port n) (SCM_Integer k)
          = Inr (u, tbl')"
  proof (rule ccontr)
    assume "\<not> (1 \<le> k \<and> k \<le> 4096)"
    then have "k < 1 \<or> 4096 < k" by auto
    then show False using e that by auto
  qed
  have f: "case tbl' n of
           None \<Rightarrow> False
         | Some p' \<Rightarrow>
             pt_read_buf_size (pt p') = nat k
             \<and> pt_write_buf_size (pt p') = pt_write_buf_size (pt p)
             \<and> iomem_write_buf_size (stream p') = iomem_write_buf_size (stream p)
             \<and> pt_write_buf (pt p') = pt_write_buf (pt p)"
    if s: "gdbscm_set_memory_port_read_buffer_size_x tbl (SCM_Port n) (SCM_Integer k)
          = Inr (u, tbl')"
  proof -
    have k: "1 \<le> k" "k \<le> 4096" using in_rng s by auto
    show ?thesis
      using s set_read_buffer_size_in_range [of tbl n p k] t
        reinit_read [OF ok, of "nat k" "SCM_Port n"] k
      by (auto split: if_splits)
  qed
  have g: "case tbl' n of
           None \<Rightarrow> False
         | Some p' \<Rightarrow>
             pt_write_buf_size (pt p') = nat k
             \<and> pt_read_buf_size (pt p') = pt_read_buf_size (pt p)
             \<and> iomem_read_buf_size (stream p') = iomem_read_buf_size (stream p)
             \<and> pt_read_buf (pt p') = pt_read_buf (pt p)
             \<and> pt_read_pos (pt p') = pt_read_pos (pt p)"
    if s: "gdbscm_set_memory_port_write_buffer_size_x tbl (SCM_Port n) (SCM_Integer k)
          = Inr (u, tbl')"
  proof -
    have k: "1 \<le> k" "k \<le> 4096" using in_rng s by auto
    show ?thesis
      using s set_write_buffer_size_in_range [of tbl n p k] t
        reinit_write [OF ok, of "nat k" "SCM_Port n"] k
      by (auto split: if_splits)
  qed
  show "(1 \<le> k \<and> k \<le> 4096 \<and> nat k \<noteq> pt_read_buf_size (pt p)
        \<and> pt_read_pos (pt p) < length (pt_read_buf (pt p)) \<longrightarrow>
        gdbscm_set_memory_port_read_buffer_size_x tbl (SCM_Port n) (SCM_Integer k) =
          Inl (scm_misc_error ''gdbscm_set_memory_port_read_buffer_size_x''
                 ''read buffer not empty: ~a'' (scm_list_1 (SCM_Port n))))
   \<and> (1 \<le> k \<and> k \<le> 4096 \<and> nat k \<noteq> pt_write_buf_size (pt p)
        \<and> pt_write_buf (pt p) \<noteq> [] \<longrightarrow>
        gdbscm_set_memory_port_write_buffer_size_x tbl (SCM_Port n) (SCM_Integer k) =
          Inl (scm_misc_error ''gdbscm_set_memory_port_write_buffer_size_x''
                 ''write buffer not empty: ~a'' (scm_list_1 (SCM_Port n))))
   \<and> gdbscm_set_memory_port_read_buffer_size_x tbl (SCM_Port n)
         (SCM_Integer (int (pt_read_buf_size (pt p)))) = Inr (SCM_UNSPECIFIED, tbl)
   \<and> gdbscm_set_memory_port_write_buffer_size_x tbl (SCM_Port n)
         (SCM_Integer (int (pt_write_buf_size (pt p)))) = Inr (SCM_UNSPECIFIED, tbl)
   \<and> (k < 1 \<or> 4096 < k \<longrightarrow>
        gdbscm_set_memory_port_read_buffer_size_x tbl (SCM_Port n) (SCM_Integer k) =
          Inl (gdbscm_out_of_range_error (Some ''gdbscm_set_memory_port_read_buffer_size_x'') 2
                 (SCM_Integer k) ''size not between 1 - 4096'')
        \<and> gdbscm_set_memory_port_write_buffer_size_x tbl (SCM_Port n) (SCM_Integer k) =
          Inl (gdbscm_out_of_range_error (Some ''gdbscm_set_memory_port_write_buffer_size_x'') 2
                 (SCM_Integer k) ''size not between 1 - 4096''))
   \<and> (gdbscm_set_memory_port_read_buffer_size_x tbl (SCM_Port n) (SCM_Integer k)
          = Inr (u, tbl') \<longrightarrow>
        (case tbl' n of
           None \<Rightarrow> False
         | Some p' \<Rightarrow>
             pt_read_buf_size (pt p') = nat k
             \<and> pt_write_buf_size (pt p') = pt_write_buf_size (pt p)
             \<and> iomem_write_buf_size (stream p') = iomem_write_buf_size (stream p)
             \<and> pt_write_buf (pt p') = pt_write_buf (pt p)))
   \<and> (gdbscm_set_memory_port_write_buffer_size_x tbl (SCM_Port n) (SCM_Integer k)
          = Inr (u, tbl') \<longrightarrow>
        (case tbl' n of
           None \<Rightarrow> False
         | Some p' \<Rightarrow>
             pt_write_buf_size (pt p') = nat k
             \<and> pt_read_buf_size (pt p') = pt_read_buf_size (pt p)
             \<and> iomem_read_buf_size (stream p') = iomem_read_buf_size (stream p)
             \<and> pt_read_buf (pt p') = pt_read_buf (pt p)
             \<and> pt_read_pos (pt p') = pt_read_pos (pt p)))"
    apply (intro conjI impI)
    subgoal using a by blast
    subgoal using b by blast
    subgoal by (rule c)
    subgoal by (rule d)
    subgoal using e by blast
    subgoal using e by blast
    subgoal by (rule f)
    subgoal by (rule g)
    done
qed

text \<open>
  C7.  The resize guard of \<^verbatim>\<open>ioscm_reinit_memory_port\<close> compares the requested sizes with
  \<^verbatim>\<open>pt->read_buf_size\<close> and \<^verbatim>\<open>pt->write_buf_size\<close>, while the setters pass, for the buffer
  that is to stay, the size recorded in the stream data.  The two differ once
  \<^verbatim>\<open>unread-char\<close> has switched the port to its putback buffer, the state the seek method
  tests with \<^verbatim>\<open>pt->read_buf == pt->putback_buf\<close>: \<^verbatim>\<open>pt->read_buf_size\<close> is then the putback
  buffer's size.  Take the port that \<^verbatim>\<open>open-memory\<close> returns for mode \<^verbatim>\<open>r\<close>, start
  \<open>0x1000\<close> and size \<open>4\<close>, which accepts a resize of its read buffer to the present size
  \<open>16\<close>.  Its first fill reads four bytes; let one be consumed and put back into a putback
  buffer of \<open>4\<close> bytes.  Then both size getters still answer \<open>16\<close>; setting the read buffer
  size to \<open>16\<close> throws \<^verbatim>\<open>read buffer not empty\<close>, though the size does not change; setting
  the write buffer size to \<open>16\<close> throws the same error about the read buffer; and setting
  the read buffer size to \<open>4\<close> returns with the port unchanged, though a byte is buffered
  and the size reported stays \<open>16\<close>.
\<close>

theorem memory_port_resize_after_unread:
  "let ops = \<lparr>target_read_memory = (\<lambda>m a n. (0, \<lambda>i. 0x41 + of_nat i)),
               target_write_memory = (\<lambda>m a bs. (0, m))\<rparr>;
       fresh = \<lparr>mode_bits = {SCM_RDNG, SCM_OPN},
                 stream = \<lparr>iomem_start = 0x1000, iomem_end = 0x1003, iomem_size = 4,
                           iomem_current = 0, iomem_read_buf_size = 16,
                           iomem_write_buf_size = 16\<rparr>,
                 pt = \<lparr>pt_rw_random = True, pt_rw_active = SCM_PORT_NEITHER,
                       pt_read_buf_size = 16, pt_read_buf = [], pt_read_pos = 0,
                       pt_write_buf_size = 16, pt_write_buf = [],
                       pt_putback = False, pt_saved_read_buf_size = 0,
                       pt_saved_read_buf = [], pt_saved_read_pos = 0\<rparr>\<rparr>;
       filled = fresh\<lparr>stream := (stream fresh)\<lparr>iomem_current := 4\<rparr>,
                      pt := (pt fresh)\<lparr>pt_read_buf := [0x41, 0x42, 0x43, 0x44],
                                        pt_read_pos := 0\<rparr>\<rparr>;
       unread = filled\<lparr>pt := (pt filled)\<lparr>pt_rw_active := SCM_PORT_READ,
                                          pt_putback := True,
                                          pt_saved_read_buf_size := 16,
                                          pt_saved_read_buf := [0x41, 0x42, 0x43, 0x44],
                                          pt_saved_read_pos := 1,
                                          pt_read_buf_size := 4,
                                          pt_read_buf := [0x41],
                                          pt_read_pos := 0\<rparr>\<rparr>;
       tbl = [0 \<mapsto> unread]
   in gdbscm_open_memory (Some ''r'') (Some 0x1000) (Some 4) = Inr fresh
    \<and> gdbscm_memory_port_fill_input ops fresh () = (Inr 0x41, filled)
    \<and> gdbscm_set_memory_port_read_buffer_size_x [0 \<mapsto> fresh] (SCM_Port 0) (SCM_Integer 16)
        = Inr (SCM_UNSPECIFIED, [0 \<mapsto> fresh])
    \<and> gdbscm_memory_port_read_buffer_size tbl (SCM_Port 0) = Inr (SCM_Integer 16)
    \<and> gdbscm_memory_port_write_buffer_size tbl (SCM_Port 0) = Inr (SCM_Integer 16)
    \<and> gdbscm_set_memory_port_read_buffer_size_x tbl (SCM_Port 0) (SCM_Integer 16)
        = Inl (scm_misc_error ''gdbscm_set_memory_port_read_buffer_size_x''
                 ''read buffer not empty: ~a'' (scm_list_1 (SCM_Port 0)))
    \<and> gdbscm_set_memory_port_write_buffer_size_x tbl (SCM_Port 0) (SCM_Integer 16)
        = Inl (scm_misc_error ''gdbscm_set_memory_port_write_buffer_size_x''
                 ''read buffer not empty: ~a'' (scm_list_1 (SCM_Port 0)))
    \<and> gdbscm_set_memory_port_read_buffer_size_x tbl (SCM_Port 0) (SCM_Integer 4)
        = Inr (SCM_UNSPECIFIED, tbl)"
proof -
  have bytes: "map (\<lambda>i. 0x41 + of_nat i) [0..<4] = [0x41, 0x42, 0x43, 0x44 :: 8 word]"
    by (simp add: upt_rec)
  have room: "unat (4 :: 64 word) = 4"
    by simp
  show ?thesis
    by (simp add: Let_def gdbscm_memory_port_read_buffer_size_def
        gdbscm_memory_port_write_buffer_size_def
        gdbscm_set_memory_port_read_buffer_size_x_def
        gdbscm_set_memory_port_write_buffer_size_x_def
        ioscm_reinit_memory_port_def scm_is_integer_def scm_is_unsigned_integer_def
        scm_to_uint_def min_memory_port_buf_size_def max_memory_port_buf_size_def
        gdbscm_open_memory_def ioscm_init_memory_port_def ioscm_parse_mode_bits_def
        scm_mode_bits_def default_read_buf_size_def default_write_buf_size_def
        gdbscm_memory_port_fill_input_def bytes room)
qed

section \<open>Exception objects\<close>

text \<open>
  C6.  \<^verbatim>\<open>gdbscm_scm_from_gdb_exception\<close> is a total function of the record: a record whose
  reason is \<^verbatim>\<open>RETURN_QUIT\<close> becomes the \<^verbatim>\<open>signal\<close> key with \<^verbatim>\<open>SIGINT\<close> as its datum; any
  other record whose error code is \<^verbatim>\<open>MEMORY_ERROR\<close> becomes \<^verbatim>\<open>gdb:memory-error\<close>; every
  remaining record becomes \<^verbatim>\<open>gdb:error\<close>; in the last two cases the one message argument
  is the record's message text.
\<close>

theorem gdbscm_scm_from_gdb_exception_total:
  "gdbscm_scm_from_gdb_exception e =
     (if reason e = RETURN_QUIT then
        Exception_smob SCM_BOOL_F (SCM_Symbol ''signal'')
          (SCM_List [SCM_BOOL_F, SCM_String ''User interrupt'', SCM_EOL,
                     SCM_List [SCM_Integer SIGINT]])
      else if error e = MEMORY_ERROR then
        Exception_smob SCM_BOOL_F (SCM_Symbol ''gdb:memory-error'')
          (SCM_List [SCM_BOOL_F, SCM_String ''~A'', SCM_List [SCM_String (message e)],
                     SCM_BOOL_F])
      else
        Exception_smob SCM_BOOL_F (SCM_Symbol ''gdb:error'')
          (SCM_List [SCM_BOOL_F, SCM_String ''~A'', SCM_List [SCM_String (message e)],
                     SCM_BOOL_F]))"
  by (simp add: gdbscm_scm_from_gdb_exception_def gdbscm_make_error_def
      gdbscm_make_error_scm_def gdbscm_make_exception_def scm_list_4_def scm_list_1_def
      exscm_signal_symbol_def exscm_memory_error_symbol_def exscm_error_symbol_def)

text \<open>
  C10.  \<^verbatim>\<open>gdbscm_make_exception\<close> returns the raw \<^verbatim>\<open><gdb:exception>\<close> object, and
  \<^verbatim>\<open>gdbscm_exception_key\<close> and \<^verbatim>\<open>gdbscm_exception_args\<close> accept a raw exception object and
  throw \<^verbatim>\<open>wrong-type-arg\<close> for every other value.  None of the three takes the hook
  variables or the evaluator, so no setting of \<^verbatim>\<open>*smob->scm*\<close> or \<^verbatim>\<open>*scm->smob*\<close> changes
  their results.
\<close>

theorem exception_smobs_bypass_hooks:
  "gdbscm_make_exception key args = Exception_smob SCM_BOOL_F key args
   \<and> gdbscm_exception_key (Exception_smob aux key args) = Inr key
   \<and> gdbscm_exception_args (Exception_smob aux key args) = Inr args
   \<and> (\<not> gdbscm_is_exception v \<longrightarrow>
        gdbscm_exception_key v
          = Inl (scm_wrong_type_arg_msg ''gdbscm_exception_key'' 1 v ''gdb:exception'')
        \<and> gdbscm_exception_args v
          = Inl (scm_wrong_type_arg_msg ''gdbscm_exception_args'' 1 v ''gdb:exception''))"
  by (cases v) (simp_all add: gdbscm_make_exception_def gdbscm_exception_key_def
      gdbscm_exception_args_def gdbscm_is_exception_def)

text \<open>
  With an outbound hook that wraps what it is given and an inbound hook that would turn
  the integer \<open>5\<close> into an exception object, \<^verbatim>\<open>make-exception\<close> still returns the raw
  object and \<^verbatim>\<open>exception-key\<close> still rejects \<open>5\<close>.
\<close>

theorem exception_smobs_bypass_hooks_witness:
  "gdbscm_scm_from_gsmob_safe
      \<lparr>registered_gsmobs = {1, 2, 3}, scm_from_smob_var = SCM_Procedure 0,
       scm_to_smob_var = SCM_Procedure 1\<rparr>
      (\<lambda>proc arg. Returns (SCM_List [SCM_Symbol ''wrapped'', arg]))
      (Exception_smob SCM_BOOL_F (SCM_Symbol ''k'') SCM_EOL)
     = SCM_List [SCM_Symbol ''wrapped'', Exception_smob SCM_BOOL_F (SCM_Symbol ''k'') SCM_EOL]
   \<and> gdbscm_make_exception (SCM_Symbol ''k'') SCM_EOL
     = Exception_smob SCM_BOOL_F (SCM_Symbol ''k'') SCM_EOL
   \<and> gdbscm_scm_to_gsmob_safe
      \<lparr>registered_gsmobs = {1, 2, 3}, scm_from_smob_var = SCM_Procedure 0,
       scm_to_smob_var = SCM_Procedure 1\<rparr>
      (\<lambda>proc arg. Returns (Exception_smob SCM_BOOL_F (SCM_Symbol ''k'') SCM_EOL))
      (SCM_Integer 5) exception_smob_tag
     = Exception_smob SCM_BOOL_F (SCM_Symbol ''k'') SCM_EOL
   \<and> gdbscm_exception_key (SCM_Integer 5)
     = Inl (Throw (SCM_Symbol ''wrong-type-arg'')
              (SCM_List [SCM_String ''gdbscm_exception_key'',
                         SCM_String ''Wrong type argument in position ~A (expecting ~A): ~S'',
                         SCM_List [SCM_Integer 1, SCM_String ''gdb:exception'', SCM_Integer 5],
                         SCM_List [SCM_Integer 5]]))
   \<and> gdbscm_exception_args (SCM_Integer 5)
     = Inl (Throw (SCM_Symbol ''wrong-type-arg'')
              (SCM_List [SCM_String ''gdbscm_exception_args'',
                         SCM_String ''Wrong type argument in position ~A (expecting ~A): ~S'',
                         SCM_List [SCM_Integer 1, SCM_String ''gdb:exception'', SCM_Integer 5],
                         SCM_List [SCM_Integer 5]]))"
  using exception_smobs_bypass_hooks [where v = "SCM_Integer 5" and key = "SCM_Symbol ''k''"
          and args = SCM_EOL]
  by (simp add: gdbscm_is_exception_def gdbscm_scm_from_gsmob_safe_def
      gdbscm_scm_to_gsmob_safe_def gdbscm_safe_call_1_def gdbscm_is_false_def
      SCM_SMOB_PREDICATE_def exception_smob_tag_def scm_wrong_type_arg_msg_def
      scm_arg_type_key_def scm_list_4_def scm_list_3_def scm_list_1_def Let_def)

section \<open>The conversion hooks\<close>

text \<open>
  C5, as the code has it.  \<^verbatim>\<open>gdbscm_scm_to_gsmob_safe\<close> has four outcomes: the value
  itself when it already is the requested gsmob (its tag is the expected one, or, for the
  wildcard tag \<open>0\<close>, any registered one); \<^verbatim>\<open>#f\<close> when the inbound hook is unset or returns
  \<^verbatim>\<open>#f\<close>; the hook's result when that is the requested gsmob; and a \<^verbatim>\<open><gdb:exception>\<close>
  object when the hook throws or returns anything else.  The unsafe variant returns the
  same result, except that an exception object is thrown.
\<close>

theorem scm_to_gsmob_outcomes:
  "let hook = scm_to_smob_var g;
       res = gdbscm_scm_to_gsmob_safe g ev x tag
   in (requested_gsmob g tag x \<longrightarrow> res = x)
    \<and> (\<not> requested_gsmob g tag x \<and> (hook = SCM_BOOL_F \<or> ev hook x = Returns SCM_BOOL_F)
         \<longrightarrow> res = SCM_BOOL_F)
    \<and> (\<not> requested_gsmob g tag x \<and> hook \<noteq> SCM_BOOL_F \<and> ev hook x = Returns r
         \<and> requested_gsmob g tag r \<longrightarrow> res = r)
    \<and> (\<not> requested_gsmob g tag x \<and> hook \<noteq> SCM_BOOL_F \<and> ev hook x = Throws key args stack
         \<longrightarrow> gdbscm_is_exception res)
    \<and> (\<not> requested_gsmob g tag x \<and> hook \<noteq> SCM_BOOL_F \<and> ev hook x = Returns r
         \<and> r \<noteq> SCM_BOOL_F \<and> \<not> requested_gsmob g tag r \<longrightarrow> gdbscm_is_exception res)
    \<and> gdbscm_scm_to_gsmob_unsafe g ev x tag
        = (if gdbscm_is_exception res then Inl (gdbscm_throw res) else Inr res)"
proof -
  have a: "requested_gsmob g tag x \<Longrightarrow> gdbscm_scm_to_gsmob_safe g ev x tag = x"
    by (simp add: to_gsmob_safe_unfold)
  have b: "\<not> requested_gsmob g tag x \<Longrightarrow>
      scm_to_smob_var g = SCM_BOOL_F \<or> ev (scm_to_smob_var g) x = Returns SCM_BOOL_F \<Longrightarrow>
      gdbscm_scm_to_gsmob_safe g ev x tag = SCM_BOOL_F"
    by (auto simp: to_gsmob_safe_unfold safe_call_1_cases)
  have c: "\<not> requested_gsmob g tag x \<Longrightarrow> scm_to_smob_var g \<noteq> SCM_BOOL_F \<Longrightarrow>
      ev (scm_to_smob_var g) x = Returns r \<Longrightarrow> requested_gsmob g tag r \<Longrightarrow>
      gdbscm_scm_to_gsmob_safe g ev x tag = r"
    using requested_not_false [of g tag]
    by (auto simp: to_gsmob_safe_unfold safe_call_1_cases)
  have d: "\<not> requested_gsmob g tag x \<Longrightarrow> scm_to_smob_var g \<noteq> SCM_BOOL_F \<Longrightarrow>
      ev (scm_to_smob_var g) x = Throws key args stack \<Longrightarrow>
      gdbscm_is_exception (gdbscm_scm_to_gsmob_safe g ev x tag)"
    using safe_call_1_Throws_exception [of ev "scm_to_smob_var g" x key args stack]
    by (auto simp: to_gsmob_safe_unfold Let_def not_exception_false)
  have e: "\<not> requested_gsmob g tag x \<Longrightarrow> scm_to_smob_var g \<noteq> SCM_BOOL_F \<Longrightarrow>
      ev (scm_to_smob_var g) x = Returns r \<Longrightarrow> r \<noteq> SCM_BOOL_F \<Longrightarrow>
      \<not> requested_gsmob g tag r \<Longrightarrow>
      gdbscm_is_exception (gdbscm_scm_to_gsmob_safe g ev x tag)"
    by (auto simp: to_gsmob_safe_unfold safe_call_1_cases is_exception_make_out_of_range)
  show ?thesis
    unfolding Let_def using a b c d e
    by (simp add: gdbscm_scm_to_gsmob_unsafe_def Let_def)
qed

theorem scm_to_gsmob_outcomes_witness:
  "gdbscm_scm_to_gsmob_safe
      \<lparr>registered_gsmobs = {1, 2, 3}, scm_from_smob_var = SCM_BOOL_F,
       scm_to_smob_var = SCM_BOOL_F\<rparr>
      (\<lambda>proc arg. Returns SCM_BOOL_F)
      (Iterator_smob SCM_BOOL_F SCM_EOL SCM_EOL (SCM_Procedure 7)) 2
     = Iterator_smob SCM_BOOL_F SCM_EOL SCM_EOL (SCM_Procedure 7)
   \<and> gdbscm_scm_to_gsmob_safe
      \<lparr>registered_gsmobs = {1, 2, 3}, scm_from_smob_var = SCM_BOOL_F,
       scm_to_smob_var = SCM_BOOL_F\<rparr>
      (\<lambda>proc arg. Returns SCM_BOOL_T) (SCM_Integer 5) 2
     = SCM_BOOL_F
   \<and> gdbscm_scm_to_gsmob_safe
      \<lparr>registered_gsmobs = {1, 2, 3}, scm_from_smob_var = SCM_BOOL_F,
       scm_to_smob_var = SCM_Procedure 1\<rparr>
      (\<lambda>proc arg. Returns (Iterator_smob SCM_BOOL_F arg SCM_EOL (SCM_Procedure 7)))
      (SCM_Integer 5) 2
     = Iterator_smob SCM_BOOL_F (SCM_Integer 5) SCM_EOL (SCM_Procedure 7)
   \<and> gdbscm_is_exception
       (gdbscm_scm_to_gsmob_safe
          \<lparr>registered_gsmobs = {1, 2, 3}, scm_from_smob_var = SCM_BOOL_F,
           scm_to_smob_var = SCM_Procedure 1\<rparr>
          (\<lambda>proc arg. Throws (SCM_Symbol ''misc-error'') SCM_EOL SCM_BOOL_F)
          (SCM_Integer 5) 2)
   \<and> gdbscm_is_exception
       (gdbscm_scm_to_gsmob_safe
          \<lparr>registered_gsmobs = {1, 2, 3}, scm_from_smob_var = SCM_BOOL_F,
           scm_to_smob_var = SCM_Procedure 1\<rparr>
          (\<lambda>proc arg. Returns (SCM_String ''neither''))
          (SCM_Integer 5) 2)"
  using scm_to_gsmob_outcomes [where tag = 2 and ev = "\<lambda>proc arg. Returns SCM_BOOL_F"
          and x = "Iterator_smob SCM_BOOL_F SCM_EOL SCM_EOL (SCM_Procedure 7)"
          and g = "\<lparr>registered_gsmobs = {1, 2, 3}, scm_from_smob_var = SCM_BOOL_F,
                    scm_to_smob_var = SCM_BOOL_F\<rparr>"]
        scm_to_gsmob_outcomes [where tag = 2 and ev = "\<lambda>proc arg. Returns SCM_BOOL_T"
          and x = "SCM_Integer 5"
          and g = "\<lparr>registered_gsmobs = {1, 2, 3}, scm_from_smob_var = SCM_BOOL_F,
                    scm_to_smob_var = SCM_BOOL_F\<rparr>"]
        scm_to_gsmob_outcomes [where tag = 2
          and ev = "\<lambda>proc arg. Returns (Iterator_smob SCM_BOOL_F arg SCM_EOL (SCM_Procedure 7))"
          and x = "SCM_Integer 5"
          and r = "Iterator_smob SCM_BOOL_F (SCM_Integer 5) SCM_EOL (SCM_Procedure 7)"
          and g = "\<lparr>registered_gsmobs = {1, 2, 3}, scm_from_smob_var = SCM_BOOL_F,
                    scm_to_smob_var = SCM_Procedure 1\<rparr>"]
        scm_to_gsmob_outcomes [where tag = 2
          and ev = "\<lambda>proc arg. Throws (SCM_Symbol ''misc-error'') SCM_EOL SCM_BOOL_F"
          and x = "SCM_Integer 5" and key = "SCM_Symbol ''misc-error''" and args = SCM_EOL
          and stack = SCM_BOOL_F
          and g = "\<lparr>registered_gsmobs = {1, 2, 3}, scm_from_smob_var = SCM_BOOL_F,
                    scm_to_smob_var = SCM_Procedure 1\<rparr>"]
        scm_to_gsmob_outcomes [where tag = 2
          and ev = "\<lambda>proc arg. Returns (SCM_String ''neither'')"
          and x = "SCM_Integer 5" and r = "SCM_String ''neither''"
          and g = "\<lparr>registered_gsmobs = {1, 2, 3}, scm_from_smob_var = SCM_BOOL_F,
                    scm_to_smob_var = SCM_Procedure 1\<rparr>"]
  by (simp add: Let_def requested_gsmob_def SCM_SMOB_PREDICATE_def iterator_smob_tag_def)

text \<open>
  C5 as stated fails: when the inbound hook turns the integer \<open>5\<close> into an iterator
  handle, the conversion returns that handle, which is neither the value given, nor
  \<^verbatim>\<open>#f\<close>, nor an exception object.
\<close>

theorem scm_to_gsmob_counterexample:
  "gdbscm_scm_to_gsmob_safe
      \<lparr>registered_gsmobs = {1, 2, 3}, scm_from_smob_var = SCM_BOOL_F,
       scm_to_smob_var = SCM_Procedure 1\<rparr>
      (\<lambda>proc arg. Returns (Iterator_smob SCM_BOOL_F arg SCM_EOL (SCM_Procedure 7)))
      (SCM_Integer 5) iterator_smob_tag
     = Iterator_smob SCM_BOOL_F (SCM_Integer 5) SCM_EOL (SCM_Procedure 7)
   \<and> Iterator_smob SCM_BOOL_F (SCM_Integer 5) SCM_EOL (SCM_Procedure 7) \<noteq> SCM_Integer 5
   \<and> \<not> gdbscm_is_false (Iterator_smob SCM_BOOL_F (SCM_Integer 5) SCM_EOL (SCM_Procedure 7))
   \<and> \<not> gdbscm_is_exception
          (Iterator_smob SCM_BOOL_F (SCM_Integer 5) SCM_EOL (SCM_Procedure 7))"
  by (simp add: gdbscm_scm_to_gsmob_safe_def gdbscm_safe_call_1_def gdbscm_is_false_def
      gdbscm_is_exception_def SCM_SMOB_PREDICATE_def iterator_smob_tag_def Let_def)

section \<open>Iterators\<close>

text \<open>
  C9, as the code has it.  \<^verbatim>\<open>make-iterator\<close> throws \<^verbatim>\<open>wrong-type-arg\<close> when the step
  argument is not a procedure.  Otherwise it builds an iterator handle whose object,
  progress and step fields are the three arguments and returns what the outbound hook
  makes of it: the handle itself when \<^verbatim>\<open>*smob->scm*\<close> is \<^verbatim>\<open>#f\<close>, the hook's return value
  when it is set, and a throw when the hook throws or returns an exception object.
  \<^verbatim>\<open>iterator-next!\<close> on an iterator handle calls the stored step procedure on that handle
  and returns the result as it is; a throw of the step procedure comes back as an
  exception object.
\<close>

theorem make_iterator_and_next:
  "let it = Iterator_smob SCM_BOOL_F object progress next_x;
       hook = scm_from_smob_var g;
       made = gdbscm_make_iterator g ev object progress next_x;
       self = Iterator_smob aux obj prog step;
       stepped = gdbscm_iterator_next_x g ev self
   in (\<not> gdbscm_is_procedure next_x \<longrightarrow>
         made = Inl (scm_wrong_type_arg_msg ''gdbscm_make_iterator'' 3 next_x ''procedure''))
    \<and> (gdbscm_is_procedure next_x \<and> hook = SCM_BOOL_F \<longrightarrow> made = Inr it)
    \<and> (gdbscm_is_procedure next_x \<and> hook \<noteq> SCM_BOOL_F \<and> ev hook it = Returns r
         \<and> \<not> gdbscm_is_exception r \<longrightarrow> made = Inr r)
    \<and> (gdbscm_is_procedure next_x \<and> hook \<noteq> SCM_BOOL_F
         \<and> ev hook it = Returns (Exception_smob a key args) \<longrightarrow> made = Inl (Throw key args))
    \<and> (gdbscm_is_procedure next_x \<and> hook \<noteq> SCM_BOOL_F
         \<and> ev hook it = Throws key args SCM_BOOL_F \<longrightarrow> made = Inl (Throw key args))
    \<and> (gdbscm_is_procedure next_x \<and> hook \<noteq> SCM_BOOL_F
         \<and> ev hook it = Throws key args stack \<longrightarrow> (case made of Inl f \<Rightarrow> True | Inr v \<Rightarrow> False))
    \<and> stepped = Inr (gdbscm_safe_call_1 ev step self)
    \<and> (ev step self = Returns v \<longrightarrow> stepped = Inr v)
    \<and> (ev step self = Throws key args stack \<longrightarrow>
         (case stepped of Inl f \<Rightarrow> False | Inr e \<Rightarrow> gdbscm_is_exception e))"
proof -
  define it where "it = Iterator_smob SCM_BOOL_F object progress next_x"
  have ni: "\<not> gdbscm_is_exception it"
    by (simp add: it_def gdbscm_is_exception_def)
  have made: "gdbscm_is_procedure next_x \<Longrightarrow>
      gdbscm_make_iterator g ev object progress next_x = gdbscm_scm_from_gsmob_unsafe g ev it"
    by (simp add: gdbscm_make_iterator_def itscm_make_iterator_smob_def it_def)
  have a: "\<not> gdbscm_is_procedure next_x \<Longrightarrow>
      gdbscm_make_iterator g ev object progress next_x
        = Inl (scm_wrong_type_arg_msg ''gdbscm_make_iterator'' 3 next_x ''procedure'')"
    by (simp add: gdbscm_make_iterator_def)
  have b: "scm_from_smob_var g = SCM_BOOL_F \<Longrightarrow> gdbscm_scm_from_gsmob_unsafe g ev it = Inr it"
    using ni by (simp add: from_gsmob_unsafe_cases)
  have c: "scm_from_smob_var g \<noteq> SCM_BOOL_F \<Longrightarrow> ev (scm_from_smob_var g) it = Returns r \<Longrightarrow>
      \<not> gdbscm_is_exception r \<Longrightarrow> gdbscm_scm_from_gsmob_unsafe g ev it = Inr r"
    by (simp add: from_gsmob_unsafe_cases safe_call_1_cases)
  have d: "scm_from_smob_var g \<noteq> SCM_BOOL_F \<Longrightarrow>
      ev (scm_from_smob_var g) it = Returns (Exception_smob a key args) \<Longrightarrow>
      gdbscm_scm_from_gsmob_unsafe g ev it = Inl (Throw key args)"
    by (simp add: from_gsmob_unsafe_cases safe_call_1_cases gdbscm_is_exception_def
        throw_exception_smob)
  have e: "scm_from_smob_var g \<noteq> SCM_BOOL_F \<Longrightarrow>
      ev (scm_from_smob_var g) it = Throws key args SCM_BOOL_F \<Longrightarrow>
      gdbscm_scm_from_gsmob_unsafe g ev it = Inl (Throw key args)"
    by (simp add: from_gsmob_unsafe_cases safe_call_1_cases gdbscm_is_exception_def
        throw_exception_smob)
  have f: "scm_from_smob_var g \<noteq> SCM_BOOL_F \<Longrightarrow>
      ev (scm_from_smob_var g) it = Throws key args stack \<Longrightarrow>
      (case gdbscm_scm_from_gsmob_unsafe g ev it of Inl f \<Rightarrow> True | Inr v \<Rightarrow> False)"
    by (simp add: from_gsmob_unsafe_cases safe_call_1_cases gdbscm_is_exception_def)
  have s: "gdbscm_iterator_next_x g ev (Iterator_smob aux obj prog step)
      = Inr (gdbscm_safe_call_1 ev step (Iterator_smob aux obj prog step))"
    by (simp add: gdbscm_iterator_next_x_def get_iterator_arg_raw)
  have sv: "ev step (Iterator_smob aux obj prog step) = Returns v \<Longrightarrow>
      gdbscm_safe_call_1 ev step (Iterator_smob aux obj prog step) = v"
    by (simp add: safe_call_1_cases)
  have st: "ev step (Iterator_smob aux obj prog step) = Throws key args stack \<Longrightarrow>
      gdbscm_is_exception (gdbscm_safe_call_1 ev step (Iterator_smob aux obj prog step))"
    by (rule safe_call_1_Throws_exception)
  show ?thesis
    unfolding Let_def it_def [symmetric] s
    using a b c d e f sv st made by simp
qed

theorem make_iterator_and_next_witness:
  "gdbscm_make_iterator
      \<lparr>registered_gsmobs = {1, 2, 3}, scm_from_smob_var = SCM_BOOL_F,
       scm_to_smob_var = SCM_BOOL_F\<rparr>
      (\<lambda>proc arg. Returns SCM_BOOL_F) (SCM_Integer 1) (SCM_Integer 2) (SCM_Integer 3)
     = Inl (scm_wrong_type_arg_msg ''gdbscm_make_iterator'' 3 (SCM_Integer 3) ''procedure'')
   \<and> gdbscm_make_iterator
      \<lparr>registered_gsmobs = {1, 2, 3}, scm_from_smob_var = SCM_BOOL_F,
       scm_to_smob_var = SCM_BOOL_F\<rparr>
      (\<lambda>proc arg. Returns SCM_BOOL_F) (SCM_Integer 1) (SCM_Integer 2) (SCM_Procedure 7)
     = Inr (Iterator_smob SCM_BOOL_F (SCM_Integer 1) (SCM_Integer 2) (SCM_Procedure 7))
   \<and> gdbscm_make_iterator
      \<lparr>registered_gsmobs = {1, 2, 3}, scm_from_smob_var = SCM_Procedure 0,
       scm_to_smob_var = SCM_BOOL_F\<rparr>
      (\<lambda>proc arg. Returns (SCM_List [SCM_Symbol ''wrapped'', arg]))
      (SCM_Integer 1) (SCM_Integer 2) (SCM_Procedure 7)
     = Inr (SCM_List [SCM_Symbol ''wrapped'',
              Iterator_smob SCM_BOOL_F (SCM_Integer 1) (SCM_Integer 2) (SCM_Procedure 7)])
   \<and> gdbscm_make_iterator
      \<lparr>registered_gsmobs = {1, 2, 3}, scm_from_smob_var = SCM_Procedure 0,
       scm_to_smob_var = SCM_BOOL_F\<rparr>
      (\<lambda>proc arg. Throws (SCM_Symbol ''misc-error'') SCM_EOL SCM_BOOL_F)
      (SCM_Integer 1) (SCM_Integer 2) (SCM_Procedure 7)
     = Inl (Throw (SCM_Symbol ''misc-error'') SCM_EOL)
   \<and> gdbscm_iterator_next_x
      \<lparr>registered_gsmobs = {1, 2, 3}, scm_from_smob_var = SCM_BOOL_F,
       scm_to_smob_var = SCM_BOOL_F\<rparr>
      (\<lambda>proc arg. Returns (iterator_smob_progress arg))
      (Iterator_smob SCM_BOOL_F (SCM_Integer 1) (SCM_Integer 2) (SCM_Procedure 7))
     = Inr (SCM_Integer 2)"
  using make_iterator_and_next [where next_x = "SCM_Integer 3"
          and object = "SCM_Integer 1" and progress = "SCM_Integer 2"
          and ev = "\<lambda>proc arg. Returns SCM_BOOL_F"
          and g = "\<lparr>registered_gsmobs = {1, 2, 3}, scm_from_smob_var = SCM_BOOL_F,
                    scm_to_smob_var = SCM_BOOL_F\<rparr>"]
        make_iterator_and_next [where next_x = "SCM_Procedure 7"
          and object = "SCM_Integer 1" and progress = "SCM_Integer 2"
          and ev = "\<lambda>proc arg. Returns SCM_BOOL_F"
          and g = "\<lparr>registered_gsmobs = {1, 2, 3}, scm_from_smob_var = SCM_BOOL_F,
                    scm_to_smob_var = SCM_BOOL_F\<rparr>"]
        make_iterator_and_next [where next_x = "SCM_Procedure 7"
          and object = "SCM_Integer 1" and progress = "SCM_Integer 2"
          and ev = "\<lambda>proc arg. Returns (SCM_List [SCM_Symbol ''wrapped'', arg])"
          and r = "SCM_List [SCM_Symbol ''wrapped'',
              Iterator_smob SCM_BOOL_F (SCM_Integer 1) (SCM_Integer 2) (SCM_Procedure 7)]"
          and g = "\<lparr>registered_gsmobs = {1, 2, 3}, scm_from_smob_var = SCM_Procedure 0,
                    scm_to_smob_var = SCM_BOOL_F\<rparr>"]
        make_iterator_and_next [where next_x = "SCM_Procedure 7"
          and object = "SCM_Integer 1" and progress = "SCM_Integer 2"
          and ev = "\<lambda>proc arg. Throws (SCM_Symbol ''misc-error'') SCM_EOL SCM_BOOL_F"
          and key = "SCM_Symbol ''misc-error''" and args = SCM_EOL
          and g = "\<lparr>registered_gsmobs = {1, 2, 3}, scm_from_smob_var = SCM_Procedure 0,
                    scm_to_smob_var = SCM_BOOL_F\<rparr>"]
        make_iterator_and_next [where aux = SCM_BOOL_F and obj = "SCM_Integer 1"
          and prog = "SCM_Integer 2" and step = "SCM_Procedure 7"
          and ev = "\<lambda>proc arg. Returns (iterator_smob_progress arg)"
          and v = "SCM_Integer 2"
          and g = "\<lparr>registered_gsmobs = {1, 2, 3}, scm_from_smob_var = SCM_BOOL_F,
                    scm_to_smob_var = SCM_BOOL_F\<rparr>"]
  by (simp add: Let_def gdbscm_is_procedure_def gdbscm_is_exception_def gdbscm_safe_call_1_def)

text \<open>
  C9 as stated fails: with an outbound hook that wraps the handle in a list,
  \<^verbatim>\<open>make-iterator\<close> on a procedure returns the list, which is not an iterator handle.
\<close>

theorem make_iterator_counterexample:
  "gdbscm_is_procedure (SCM_Procedure 7)
   \<and> gdbscm_make_iterator
      \<lparr>registered_gsmobs = {1, 2, 3}, scm_from_smob_var = SCM_Procedure 0,
       scm_to_smob_var = SCM_BOOL_F\<rparr>
      (\<lambda>proc arg. Returns (SCM_List [SCM_Symbol ''wrapped'', arg]))
      (SCM_Integer 1) (SCM_Integer 2) (SCM_Procedure 7)
     = Inr (SCM_List [SCM_Symbol ''wrapped'',
              Iterator_smob SCM_BOOL_F (SCM_Integer 1) (SCM_Integer 2) (SCM_Procedure 7)])
   \<and> \<not> itscm_is_iterator
         (SCM_List [SCM_Symbol ''wrapped'',
              Iterator_smob SCM_BOOL_F (SCM_Integer 1) (SCM_Integer 2) (SCM_Procedure 7)])"
  by (simp add: gdbscm_make_iterator_def itscm_make_iterator_smob_def
      gdbscm_scm_from_gsmob_unsafe_def gdbscm_scm_from_gsmob_safe_def gdbscm_safe_call_1_def
      gdbscm_is_false_def gdbscm_is_exception_def gdbscm_is_procedure_def
      itscm_is_iterator_def SCM_SMOB_PREDICATE_def Let_def)

section \<open>Teardown of chained handles\<close>

text \<open>
  C1, as the code has it.  Three kinds of smob are chained to an objfile, each with a
  cleanup registered for its data key, which the host calls with the objfile and the head
  of the chain.  Let \<open>as\<close> be the chain that starts at \<open>datum\<close>, and \<open>self\<close> any value that
  the inbound conversion takes to a handle of the chain (the handle itself is one).

  \<^verbatim>\<open>stscm_del_objfile_symtab\<close> and \<^verbatim>\<open>syscm_del_objfile_symbols\<close>, loops that always end,
  leave every \<^verbatim>\<open><gdb:symtab>\<close>, respectively \<^verbatim>\<open><gdb:symbol>\<close>, struct of the chain with a
  \<^verbatim>\<open>NULL\<close> native pointer and \<^verbatim>\<open>NULL\<close> \<^verbatim>\<open>prev\<close> and \<^verbatim>\<open>next\<close>, its \<^verbatim>\<open>aux\<close> kept and the struct
  still in the heap; structs outside the chain are untouched.  Afterwards the handle is
  still a smob of its kind, \<^verbatim>\<open>symtab-valid?\<close> and \<^verbatim>\<open>symbol-valid?\<close> answer \<^verbatim>\<open>#f\<close>, and the
  valid-handle check that every other accessor starts with throws
  \<^verbatim>\<open>gdb:invalid-object-error\<close>, so \<^verbatim>\<open>symtab-filename\<close>, \<^verbatim>\<open>symtab-fullname\<close>,
  \<^verbatim>\<open>symtab-objfile\<close>, \<^verbatim>\<open>symtab-global-block\<close>, \<^verbatim>\<open>symtab-static-block\<close>, \<^verbatim>\<open>symbol-name\<close>,
  \<^verbatim>\<open>symbol-linkage-name\<close>, \<^verbatim>\<open>symbol-print-name\<close>, \<^verbatim>\<open>symbol-addr-class\<close>,
  \<^verbatim>\<open>symbol-argument?\<close> and \<^verbatim>\<open>symbol-line\<close> do.

  \<^verbatim>\<open>save_objfile_types\<close> unlinks every \<^verbatim>\<open><gdb:type>\<close> struct of the chain in the same way,
  but gives it the host's copy of its type in place of a \<^verbatim>\<open>NULL\<close> pointer; the type
  accessors make no validity check, and \<^verbatim>\<open>type-code\<close> and \<^verbatim>\<open>type-tag\<close> answer from the
  copy.  Before \<^verbatim>\<open>gdb_scheme_initialized\<close> is set, the function does nothing.

  None of the three functions writes the objfile's data slot, which holds the head of the
  chain.
\<close>

theorem chained_smobs_objfile_teardown:
  "(chain (smobs w) datum as \<and> a \<in> set as
    \<and> stscm_scm_to_symtab_gsmob g ev self = Symtab_smob a \<longrightarrow>
     (let w' = stscm_del_objfile_symtab objfile datum w;
          h' = smobs w';
          stale = (\<lambda>func_name arg_pos.
                     gdbscm_invalid_object_error (Some func_name) arg_pos self
                       ''invalid <gdb:symtab>'')
      in length h' = length (smobs w)
       \<and> st_symtab (h' ! a) = None
       \<and> smob_prev (h' ! a) = None
       \<and> smob_next (h' ! a) = None
       \<and> smob_aux (h' ! a) = smob_aux (smobs w ! a)
       \<and> objfile_heads w' = objfile_heads w
       \<and> (b < length (smobs w) \<and> b \<notin> set as \<longrightarrow> h' ! b = smobs w ! b)
       \<and> stscm_is_symtab (Symtab_smob a)
       \<and> stscm_scm_to_symtab_gsmob g ev (Symtab_smob a) = Symtab_smob a
       \<and> gdbscm_symtab_valid_p g ev h' self = Inr SCM_BOOL_F
       \<and> stscm_get_valid_symtab_smob_arg_unsafe g ev h' self arg_pos func_name
           = Inl (stale func_name arg_pos)
       \<and> gdbscm_symtab_filename host g ev h' self = Inl (stale ''gdbscm_symtab_filename'' 1)
       \<and> gdbscm_symtab_fullname host g ev h' self = Inl (stale ''gdbscm_symtab_fullname'' 1)
       \<and> gdbscm_symtab_objfile host g ev h' self = Inl (stale ''gdbscm_symtab_objfile'' 1)
       \<and> gdbscm_symtab_global_block host g ev h' self = Inl (stale ''gdbscm_symtab_global_block'' 1)
       \<and> gdbscm_symtab_static_block host g ev h' self = Inl (stale ''gdbscm_symtab_static_block'' 1)
       \<and> gdbscm_invalid_object_error (Some func_name) arg_pos self ''invalid <gdb:symtab>''
           = Throw gdbscm_invalid_object_error_symbol
               (SCM_List [SCM_String func_name,
                  SCM_String (if arg_pos > 0
                              then ''invalid <gdb:symtab> in position '' @ printf_d arg_pos @ '': ~S''
                              else ''invalid <gdb:symtab>: ~S''),
                  SCM_List [self], SCM_List [self]])))
   \<and> (chain (smobs wsy) datum as \<and> a \<in> set as
    \<and> syscm_scm_to_symbol_gsmob g ev self = Symbol_smob a \<longrightarrow>
     (let w' = syscm_del_objfile_symbols objfile datum wsy;
          h' = smobs w';
          stale = (\<lambda>func_name arg_pos.
                     gdbscm_invalid_object_error (Some func_name) arg_pos self
                       ''invalid <gdb:symbol>'')
      in length h' = length (smobs wsy)
       \<and> s_symbol (h' ! a) = None
       \<and> smob_prev (h' ! a) = None
       \<and> smob_next (h' ! a) = None
       \<and> smob_aux (h' ! a) = smob_aux (smobs wsy ! a)
       \<and> objfile_heads w' = objfile_heads wsy
       \<and> (b < length (smobs wsy) \<and> b \<notin> set as \<longrightarrow> h' ! b = smobs wsy ! b)
       \<and> syscm_is_symbol (Symbol_smob a)
       \<and> syscm_scm_to_symbol_gsmob g ev (Symbol_smob a) = Symbol_smob a
       \<and> gdbscm_symbol_valid_p g ev h' self = Inr SCM_BOOL_F
       \<and> syscm_get_valid_symbol_smob_arg_unsafe g ev h' self arg_pos func_name
           = Inl (stale func_name arg_pos)
       \<and> gdbscm_symbol_name shost g ev h' self = Inl (stale ''gdbscm_symbol_name'' 1)
       \<and> gdbscm_symbol_linkage_name shost g ev h' self
           = Inl (stale ''gdbscm_symbol_linkage_name'' 1)
       \<and> gdbscm_symbol_print_name shost g ev h' self = Inl (stale ''gdbscm_symbol_print_name'' 1)
       \<and> gdbscm_symbol_addr_class shost g ev h' self = Inl (stale ''gdbscm_symbol_addr_class'' 1)
       \<and> gdbscm_symbol_argument_p shost g ev h' self = Inl (stale ''gdbscm_symbol_argument_p'' 1)
       \<and> gdbscm_symbol_line shost g ev h' self = Inl (stale ''gdbscm_symbol_line'' 1)
       \<and> gdbscm_invalid_object_error (Some func_name) arg_pos self ''invalid <gdb:symbol>''
           = Throw gdbscm_invalid_object_error_symbol
               (SCM_List [SCM_String func_name,
                  SCM_String (if arg_pos > 0
                              then ''invalid <gdb:symbol> in position '' @ printf_d arg_pos @ '': ~S''
                              else ''invalid <gdb:symbol>: ~S''),
                  SCM_List [self], SCM_List [self]])))
   \<and> (chain (smobs wty) datum as \<and> a \<in> set as
    \<and> tyscm_scm_to_type_gsmob g ev self = Type_smob a \<longrightarrow>
     (let w' = save_objfile_types thost True objfile datum wty;
          h' = smobs w';
          copy = copy_type_recursive thost objfile (t_type (smobs wty ! a))
      in length h' = length (smobs wty)
       \<and> t_type (h' ! a) = copy
       \<and> smob_prev (h' ! a) = None
       \<and> smob_next (h' ! a) = None
       \<and> smob_aux (h' ! a) = smob_aux (smobs wty ! a)
       \<and> objfile_heads w' = objfile_heads wty
       \<and> (b < length (smobs wty) \<and> b \<notin> set as \<longrightarrow> h' ! b = smobs wty ! b)
       \<and> tyscm_is_type (Type_smob a)
       \<and> tyscm_scm_to_type_gsmob g ev (Type_smob a) = Type_smob a
       \<and> gdbscm_type_code thost g ev h' self = Inr (SCM_Integer (TYPE_CODE thost copy))
       \<and> gdbscm_type_tag thost g ev h' self
           = (case TYPE_TAG_NAME thost copy of
                None \<Rightarrow> Inr SCM_BOOL_F
              | Some name \<Rightarrow> Inr (SCM_String name))
       \<and> save_objfile_types thost False objfile datum wty = wty))"
proof (intro conjI impI)
  assume "chain (smobs w) datum as \<and> a \<in> set as
    \<and> stscm_scm_to_symtab_gsmob g ev self = Symtab_smob a"
  then show "let w' = stscm_del_objfile_symtab objfile datum w;
          h' = smobs w';
          stale = (\<lambda>func_name arg_pos.
                     gdbscm_invalid_object_error (Some func_name) arg_pos self
                       ''invalid <gdb:symtab>'')
      in length h' = length (smobs w)
       \<and> st_symtab (h' ! a) = None
       \<and> smob_prev (h' ! a) = None
       \<and> smob_next (h' ! a) = None
       \<and> smob_aux (h' ! a) = smob_aux (smobs w ! a)
       \<and> objfile_heads w' = objfile_heads w
       \<and> (b < length (smobs w) \<and> b \<notin> set as \<longrightarrow> h' ! b = smobs w ! b)
       \<and> stscm_is_symtab (Symtab_smob a)
       \<and> stscm_scm_to_symtab_gsmob g ev (Symtab_smob a) = Symtab_smob a
       \<and> gdbscm_symtab_valid_p g ev h' self = Inr SCM_BOOL_F
       \<and> stscm_get_valid_symtab_smob_arg_unsafe g ev h' self arg_pos func_name
           = Inl (stale func_name arg_pos)
       \<and> gdbscm_symtab_filename host g ev h' self = Inl (stale ''gdbscm_symtab_filename'' 1)
       \<and> gdbscm_symtab_fullname host g ev h' self = Inl (stale ''gdbscm_symtab_fullname'' 1)
       \<and> gdbscm_symtab_objfile host g ev h' self = Inl (stale ''gdbscm_symtab_objfile'' 1)
       \<and> gdbscm_symtab_global_block host g ev h' self = Inl (stale ''gdbscm_symtab_global_block'' 1)
       \<and> gdbscm_symtab_static_block host g ev h' self = Inl (stale ''gdbscm_symtab_static_block'' 1)
       \<and> gdbscm_invalid_object_error (Some func_name) arg_pos self ''invalid <gdb:symtab>''
           = Throw gdbscm_invalid_object_error_symbol
               (SCM_List [SCM_String func_name,
                  SCM_String (if arg_pos > 0
                              then ''invalid <gdb:symtab> in position '' @ printf_d arg_pos @ '': ~S''
                              else ''invalid <gdb:symtab>: ~S''),
                  SCM_List [self], SCM_List [self]])"
    using symtab_teardown [where w = w and datum = datum and as = as and a = a and g = g and ev = ev
        and self = self and objfile = objfile and b = b and arg_pos = arg_pos
        and func_name = func_name and host = host]
    by blast
next
  assume "chain (smobs wsy) datum as \<and> a \<in> set as
    \<and> syscm_scm_to_symbol_gsmob g ev self = Symbol_smob a"
  then show "let w' = syscm_del_objfile_symbols objfile datum wsy;
          h' = smobs w';
          stale = (\<lambda>func_name arg_pos.
                     gdbscm_invalid_object_error (Some func_name) arg_pos self
                       ''invalid <gdb:symbol>'')
      in length h' = length (smobs wsy)
       \<and> s_symbol (h' ! a) = None
       \<and> smob_prev (h' ! a) = None
       \<and> smob_next (h' ! a) = None
       \<and> smob_aux (h' ! a) = smob_aux (smobs wsy ! a)
       \<and> objfile_heads w' = objfile_heads wsy
       \<and> (b < length (smobs wsy) \<and> b \<notin> set as \<longrightarrow> h' ! b = smobs wsy ! b)
       \<and> syscm_is_symbol (Symbol_smob a)
       \<and> syscm_scm_to_symbol_gsmob g ev (Symbol_smob a) = Symbol_smob a
       \<and> gdbscm_symbol_valid_p g ev h' self = Inr SCM_BOOL_F
       \<and> syscm_get_valid_symbol_smob_arg_unsafe g ev h' self arg_pos func_name
           = Inl (stale func_name arg_pos)
       \<and> gdbscm_symbol_name shost g ev h' self = Inl (stale ''gdbscm_symbol_name'' 1)
       \<and> gdbscm_symbol_linkage_name shost g ev h' self
           = Inl (stale ''gdbscm_symbol_linkage_name'' 1)
       \<and> gdbscm_symbol_print_name shost g ev h' self = Inl (stale ''gdbscm_symbol_print_name'' 1)
       \<and> gdbscm_symbol_addr_class shost g ev h' self = Inl (stale ''gdbscm_symbol_addr_class'' 1)
       \<and> gdbscm_symbol_argument_p shost g ev h' self = Inl (stale ''gdbscm_symbol_argument_p'' 1)
       \<and> gdbscm_symbol_line shost g ev h' self = Inl (stale ''gdbscm_symbol_line'' 1)
       \<and> gdbscm_invalid_object_error (Some func_name) arg_pos self ''invalid <gdb:symbol>''
           = Throw gdbscm_invalid_object_error_symbol
               (SCM_List [SCM_String func_name,
                  SCM_String (if arg_pos > 0
                              then ''invalid <gdb:symbol> in position '' @ printf_d arg_pos @ '': ~S''
                              else ''invalid <gdb:symbol>: ~S''),
                  SCM_List [self], SCM_List [self]])"
    using symbol_teardown [where w = wsy and datum = datum and as = as and a = a and g = g and ev = ev
        and self = self and objfile = objfile and b = b and arg_pos = arg_pos
        and func_name = func_name and host = shost]
    by blast
next
  assume "chain (smobs wty) datum as \<and> a \<in> set as
    \<and> tyscm_scm_to_type_gsmob g ev self = Type_smob a"
  then show "let w' = save_objfile_types thost True objfile datum wty;
          h' = smobs w';
          copy = copy_type_recursive thost objfile (t_type (smobs wty ! a))
      in length h' = length (smobs wty)
       \<and> t_type (h' ! a) = copy
       \<and> smob_prev (h' ! a) = None
       \<and> smob_next (h' ! a) = None
       \<and> smob_aux (h' ! a) = smob_aux (smobs wty ! a)
       \<and> objfile_heads w' = objfile_heads wty
       \<and> (b < length (smobs wty) \<and> b \<notin> set as \<longrightarrow> h' ! b = smobs wty ! b)
       \<and> tyscm_is_type (Type_smob a)
       \<and> tyscm_scm_to_type_gsmob g ev (Type_smob a) = Type_smob a
       \<and> gdbscm_type_code thost g ev h' self = Inr (SCM_Integer (TYPE_CODE thost copy))
       \<and> gdbscm_type_tag thost g ev h' self
           = (case TYPE_TAG_NAME thost copy of
                None \<Rightarrow> Inr SCM_BOOL_F
              | Some name \<Rightarrow> Inr (SCM_String name))
       \<and> save_objfile_types thost False objfile datum wty = wty"
    using type_teardown [where w = wty and datum = datum and as = as and a = a and g = g and ev = ev
        and self = self and objfile = objfile and b = b and host = thost]
    by blast
qed

text \<open>
  Objfile \<open>7\<close> has two symtabs, a symbol and a type surfaced with
  \<^verbatim>\<open>stscm_gsmob_from_symtab\<close>, \<^verbatim>\<open>syscm_gsmob_from_symbol\<close> and \<^verbatim>\<open>tyscm_gsmob_from_type\<close>,
  which chain them.  Each cleanup is run on the objfile and its data slot.
  \<^verbatim>\<open>symtab-filename\<close> and \<^verbatim>\<open>symbol-name\<close> answer before and throw after; the type is
  re-pointed from \<open>300\<close> to its copy \<open>1300\<close> and \<^verbatim>\<open>type-code\<close> answers.
\<close>

theorem chained_smobs_objfile_teardown_witness:
  "let host = \<lparr>symtab_objfile = (\<lambda>s. 7),
                symtab_to_filename_for_display = (\<lambda>s. ''a.c''),
                symtab_to_fullname = (\<lambda>s. ''/src/a.c''),
                symtab_global_block = (\<lambda>s. 0), symtab_static_block = (\<lambda>s. 1),
                ofscm_scm_from_objfile_unsafe = (\<lambda>obj. Inr (Other_smob 0 obj)),
                bkscm_scm_from_block_unsafe = (\<lambda>blk obj. Inr (Other_smob 1 blk)),
                SYMBOL_SYMTAB = (\<lambda>s. Some 100),
                SYMBOL_NATURAL_NAME = (\<lambda>s. ''main''),
                SYMBOL_LINKAGE_NAME = (\<lambda>s. ''main''),
                SYMBOL_PRINT_NAME = (\<lambda>s. ''main''),
                SYMBOL_CLASS = (\<lambda>s. 10),
                SYMBOL_IS_ARGUMENT = (\<lambda>s. False),
                SYMBOL_LINE = (\<lambda>s. 42)\<rparr>;
       thost = \<lparr>TYPE_OBJFILE = (\<lambda>t. Some 7),
                 copy_type_recursive =
                   (\<lambda>objfile t. case t of None \<Rightarrow> None | Some x \<Rightarrow> Some (x + 1000)),
                 TYPE_CODE = (\<lambda>t. 8),
                 TYPE_TAG_NAME = (\<lambda>t. Some ''point'')\<rparr>;
       g = \<lparr>registered_gsmobs = {1, 2, 3, 4, 5}, scm_from_smob_var = SCM_BOOL_F,
             scm_to_smob_var = SCM_BOOL_F\<rparr>;
       ev = (\<lambda>proc arg. Returns SCM_BOOL_F);
       w0 = \<lparr>smobs = [], objfile_heads = [7 \<mapsto> None]\<rparr>;
       w1 = snd (stscm_gsmob_from_symtab host 100 w0);
       w2 = snd (stscm_gsmob_from_symtab host 101 w1);
       w3 = stscm_del_objfile_symtab 7 (objfile_data w2 7) w2;
       y0 = \<lparr>smobs = [], objfile_heads = [7 \<mapsto> None]\<rparr>;
       y1 = snd (syscm_gsmob_from_symbol host 200 y0);
       y2 = syscm_del_objfile_symbols 7 (objfile_data y1 7) y1;
       t0 = \<lparr>smobs = [], objfile_heads = [7 \<mapsto> None]\<rparr>;
       t1 = snd (tyscm_gsmob_from_type thost (Some 300) t0);
       t2 = save_objfile_types thost True 7 (objfile_data t1 7) t1;
       stale = (\<lambda>func_name kind self.
                  Inl (Throw (SCM_Symbol ''gdb:invalid-object-error'')
                         (SCM_List [SCM_String func_name,
                                    SCM_String (''invalid <gdb:'' @ kind @ ''> in position 1: ~S''),
                                    SCM_List [self], SCM_List [self]])))
   in fst (stscm_gsmob_from_symtab host 100 w0) = Symtab_smob 0
    \<and> fst (stscm_gsmob_from_symtab host 101 w1) = Symtab_smob 1
    \<and> smobs w2 =
        [\<lparr>smob_aux = SCM_BOOL_F, smob_prev = Some 1, smob_next = None, st_symtab = Some 100\<rparr>,
         \<lparr>smob_aux = SCM_BOOL_F, smob_prev = None, smob_next = Some 0, st_symtab = Some 101\<rparr>]
    \<and> objfile_data w2 7 = Some 1
    \<and> chain (smobs w2) (Some 1) [1, 0]
    \<and> gdbscm_symtab_filename host g ev (smobs w2) (Symtab_smob 0) = Inr (SCM_String ''a.c'')
    \<and> smobs w3 =
        [\<lparr>smob_aux = SCM_BOOL_F, smob_prev = None, smob_next = None, st_symtab = None\<rparr>,
         \<lparr>smob_aux = SCM_BOOL_F, smob_prev = None, smob_next = None, st_symtab = None\<rparr>]
    \<and> objfile_heads w3 = objfile_heads w2
    \<and> gdbscm_symtab_valid_p g ev (smobs w3) (Symtab_smob 0) = Inr SCM_BOOL_F
    \<and> gdbscm_symtab_filename host g ev (smobs w3) (Symtab_smob 0)
        = stale ''gdbscm_symtab_filename'' ''symtab'' (Symtab_smob 0)
    \<and> gdbscm_symtab_static_block host g ev (smobs w3) (Symtab_smob 1)
        = stale ''gdbscm_symtab_static_block'' ''symtab'' (Symtab_smob 1)
    \<and> fst (syscm_gsmob_from_symbol host 200 y0) = Symbol_smob 0
    \<and> smobs y1 =
        [\<lparr>smob_aux = SCM_BOOL_F, smob_prev = None, smob_next = None, s_symbol = Some 200\<rparr>]
    \<and> objfile_data y1 7 = Some 0
    \<and> gdbscm_symbol_name host g ev (smobs y1) (Symbol_smob 0) = Inr (SCM_String ''main'')
    \<and> smobs y2 =
        [\<lparr>smob_aux = SCM_BOOL_F, smob_prev = None, smob_next = None, s_symbol = None\<rparr>]
    \<and> gdbscm_symbol_valid_p g ev (smobs y2) (Symbol_smob 0) = Inr SCM_BOOL_F
    \<and> gdbscm_symbol_name host g ev (smobs y2) (Symbol_smob 0)
        = stale ''gdbscm_symbol_name'' ''symbol'' (Symbol_smob 0)
    \<and> gdbscm_symbol_line host g ev (smobs y2) (Symbol_smob 0)
        = stale ''gdbscm_symbol_line'' ''symbol'' (Symbol_smob 0)
    \<and> fst (tyscm_gsmob_from_type thost (Some 300) t0) = Type_smob 0
    \<and> smobs t1 =
        [\<lparr>smob_aux = SCM_BOOL_F, smob_prev = None, smob_next = None, t_type = Some 300\<rparr>]
    \<and> objfile_data t1 7 = Some 0
    \<and> smobs t2 =
        [\<lparr>smob_aux = SCM_BOOL_F, smob_prev = None, smob_next = None, t_type = Some 1300\<rparr>]
    \<and> gdbscm_type_code thost g ev (smobs t2) (Type_smob 0) = Inr (SCM_Integer 8)
    \<and> gdbscm_type_tag thost g ev (smobs t2) (Type_smob 0) = Inr (SCM_String ''point'')"
proof -
  define host where "host = \<lparr>symtab_objfile = (\<lambda>s :: nat. 7 :: nat),
                symtab_to_filename_for_display = (\<lambda>s. ''a.c''),
                symtab_to_fullname = (\<lambda>s. ''/src/a.c''),
                symtab_global_block = (\<lambda>s. 0), symtab_static_block = (\<lambda>s. 1),
                ofscm_scm_from_objfile_unsafe = (\<lambda>obj. Inr (Other_smob 0 obj)),
                bkscm_scm_from_block_unsafe = (\<lambda>blk obj. Inr (Other_smob 1 blk)),
                SYMBOL_SYMTAB = (\<lambda>s. Some 100),
                SYMBOL_NATURAL_NAME = (\<lambda>s. ''main''),
                SYMBOL_LINKAGE_NAME = (\<lambda>s. ''main''),
                SYMBOL_PRINT_NAME = (\<lambda>s. ''main''),
                SYMBOL_CLASS = (\<lambda>s. 10),
                SYMBOL_IS_ARGUMENT = (\<lambda>s. False),
                SYMBOL_LINE = (\<lambda>s. 42)\<rparr>"
  define thost where "thost = \<lparr>TYPE_OBJFILE = (\<lambda>t :: nat. Some (7 :: nat)),
                 copy_type_recursive =
                   (\<lambda>(objfile :: nat) t. case t of None \<Rightarrow> None
                                             | Some (x :: nat) \<Rightarrow> Some (x + 1000)),
                 TYPE_CODE = (\<lambda>t. 8),
                 TYPE_TAG_NAME = (\<lambda>t. Some ''point'')\<rparr>"
  define g where "g = \<lparr>registered_gsmobs = {1, 2, 3, 4, 5}, scm_from_smob_var = SCM_BOOL_F,
             scm_to_smob_var = SCM_BOOL_F\<rparr>"
  define ev :: evaluator where "ev = (\<lambda>proc arg. Returns SCM_BOOL_F)"
  define w0 :: symtab_world where "w0 = \<lparr>smobs = [], objfile_heads = [7 \<mapsto> None]\<rparr>"
  define w1 where "w1 = snd (stscm_gsmob_from_symtab host 100 w0)"
  define w2 where "w2 = snd (stscm_gsmob_from_symtab host 101 w1)"
  define w3 where "w3 = stscm_del_objfile_symtab 7 (objfile_data w2 7) w2"
  define y0 :: symbol_world where "y0 = \<lparr>smobs = [], objfile_heads = [7 \<mapsto> None]\<rparr>"
  define y1 where "y1 = snd (syscm_gsmob_from_symbol host 200 y0)"
  define y2 where "y2 = syscm_del_objfile_symbols 7 (objfile_data y1 7) y1"
  define t0 :: type_world where "t0 = \<lparr>smobs = [], objfile_heads = [7 \<mapsto> None]\<rparr>"
  define t1 where "t1 = snd (tyscm_gsmob_from_type thost (Some 300) t0)"
  define t2 where "t2 = save_objfile_types thost True 7 (objfile_data t1 7) t1"
  note mk = gdbscm_init_chained_gsmob_def gdbscm_init_gsmob_def gdbscm_add_objfile_ref_def
        update_base_def objfile_data_def set_objfile_data_def Let_def
  have s1: "stscm_gsmob_from_symtab host 100 w0 =
      (Symtab_smob 0,
       \<lparr>smobs = [\<lparr>smob_aux = SCM_BOOL_F, smob_prev = None, smob_next = None,
                   st_symtab = Some 100\<rparr>],
        objfile_heads = [7 \<mapsto> Some 0]\<rparr>)"
    by (simp add: stscm_gsmob_from_symtab_def stscm_make_symtab_smob_def mk w0_def host_def)
  have s2: "stscm_gsmob_from_symtab host 101 w1 =
      (Symtab_smob 1,
       \<lparr>smobs = [\<lparr>smob_aux = SCM_BOOL_F, smob_prev = Some 1, smob_next = None,
                   st_symtab = Some 100\<rparr>,
                  \<lparr>smob_aux = SCM_BOOL_F, smob_prev = None, smob_next = Some 0,
                   st_symtab = Some 101\<rparr>],
        objfile_heads = [7 \<mapsto> Some 1]\<rparr>)"
    unfolding w1_def s1
    by (simp add: stscm_gsmob_from_symtab_def stscm_make_symtab_smob_def mk host_def)
  have w2: "smobs w2 =
        [\<lparr>smob_aux = SCM_BOOL_F, smob_prev = Some 1, smob_next = None, st_symtab = Some 100\<rparr>,
         \<lparr>smob_aux = SCM_BOOL_F, smob_prev = None, smob_next = Some 0, st_symtab = Some 101\<rparr>]"
    "objfile_data w2 7 = Some 1"
    by (simp_all add: w2_def s2 objfile_data_def)
  have ch: "chain (smobs w2) (Some 1) [1, 0]"
    by (simp add: w2)
  have before: "gdbscm_symtab_filename host g ev (smobs w2) (Symtab_smob 0)
      = Inr (SCM_String ''a.c'')"
    by (simp add: gdbscm_symtab_filename_def stscm_get_valid_symtab_smob_arg_unsafe_def
        get_symtab_smob_arg_raw w2 host_def)
  note st0 = chained_smobs_objfile_teardown [where w = w2 and objfile = 7
      and datum = "Some 1" and as = "[1, 0]" and a = 0 and g = g and ev = ev and host = host
      and b = 1 and self = "Symtab_smob 0",
      THEN conjunct1]
  note st1 = chained_smobs_objfile_teardown [where w = w2 and objfile = 7
      and datum = "Some 1" and as = "[1, 0]" and a = 1 and g = g and ev = ev and host = host
      and b = 0 and self = "Symtab_smob 1",
      THEN conjunct1]
  have w3e: "w3 = stscm_del_objfile_symtab 7 (Some 1) w2"
    by (simp only: w3_def w2)
  have raw: "stscm_scm_to_symtab_gsmob g ev (Symtab_smob a) = Symtab_smob a" for a
    by (rule to_symtab_gsmob_raw)
  have c0: "smobs w3 ! 0 =
      \<lparr>smob_aux = SCM_BOOL_F, smob_prev = None, smob_next = None, st_symtab = None\<rparr>"
    using st0 w2 ch raw unfolding Let_def w3e [symmetric]
    by (intro symtab_smob.equality) simp_all
  have c1: "smobs w3 ! 1 =
      \<lparr>smob_aux = SCM_BOOL_F, smob_prev = None, smob_next = None, st_symtab = None\<rparr>"
    using st1 w2 ch raw unfolding Let_def w3e [symmetric]
    by (intro symtab_smob.equality) simp_all
  have len: "length (smobs w3) = 2"
    using st0 w2 ch raw unfolding Let_def w3e [symmetric] by simp
  have w3: "smobs w3 =
      [\<lparr>smob_aux = SCM_BOOL_F, smob_prev = None, smob_next = None, st_symtab = None\<rparr>,
       \<lparr>smob_aux = SCM_BOOL_F, smob_prev = None, smob_next = None, st_symtab = None\<rparr>]"
    using len c0 c1 by (auto simp: list_eq_iff_nth_eq less_Suc_eq numeral_2_eq_2)
  have rest0: "objfile_heads w3 = objfile_heads w2
    \<and> gdbscm_symtab_valid_p g ev (smobs w3) (Symtab_smob 0) = Inr SCM_BOOL_F
    \<and> gdbscm_symtab_filename host g ev (smobs w3) (Symtab_smob 0)
        = Inl (gdbscm_invalid_object_error (Some ''gdbscm_symtab_filename'') 1 (Symtab_smob 0)
                 ''invalid <gdb:symtab>'')"
    using st0 w2 ch raw unfolding Let_def w3e [symmetric] by simp
  have rest1: "gdbscm_symtab_static_block host g ev (smobs w3) (Symtab_smob 1)
        = Inl (gdbscm_invalid_object_error (Some ''gdbscm_symtab_static_block'') 1
                 (Symtab_smob 1) ''invalid <gdb:symtab>'')"
    using st1 w2 ch raw unfolding Let_def w3e [symmetric] by simp
  have y1s: "syscm_gsmob_from_symbol host 200 y0 =
      (Symbol_smob 0,
       \<lparr>smobs = [\<lparr>smob_aux = SCM_BOOL_F, smob_prev = None, smob_next = None,
                   s_symbol = Some 200\<rparr>],
        objfile_heads = [7 \<mapsto> Some 0]\<rparr>)"
    by (simp add: syscm_gsmob_from_symbol_def syscm_make_symbol_smob_def mk y0_def host_def)
  have y1: "smobs y1 =
        [\<lparr>smob_aux = SCM_BOOL_F, smob_prev = None, smob_next = None, s_symbol = Some 200\<rparr>]"
    "objfile_data y1 7 = Some 0"
    by (simp_all add: y1_def y1s objfile_data_def)
  have ychain: "chain (smobs y1) (Some 0) [0]"
    by (simp add: y1)
  have ybefore: "gdbscm_symbol_name host g ev (smobs y1) (Symbol_smob 0)
      = Inr (SCM_String ''main'')"
    by (simp add: gdbscm_symbol_name_def syscm_get_valid_symbol_smob_arg_unsafe_def
        get_symbol_smob_arg_raw y1 host_def)
  note sy = chained_smobs_objfile_teardown [where wsy = y1
      and objfile = 7 and datum = "Some 0" and as = "[0]" and a = 0 and g = g and ev = ev
      and shost = host and b = 0 and self = "Symbol_smob 0",
      THEN conjunct2, THEN conjunct1]
  have y2e: "y2 = syscm_del_objfile_symbols 7 (Some 0) y1"
    by (simp only: y2_def y1)
  have yraw: "syscm_scm_to_symbol_gsmob g ev (Symbol_smob a) = Symbol_smob a" for a
    by (rule to_symbol_gsmob_raw)
  have yc0: "smobs y2 ! 0 =
      \<lparr>smob_aux = SCM_BOOL_F, smob_prev = None, smob_next = None, s_symbol = None\<rparr>"
    using sy y1 ychain yraw unfolding Let_def y2e [symmetric]
    by (intro symbol_smob.equality) simp_all
  have ylen: "length (smobs y2) = 1"
    using sy y1 ychain yraw unfolding Let_def y2e [symmetric] by simp
  have y2: "smobs y2 =
      [\<lparr>smob_aux = SCM_BOOL_F, smob_prev = None, smob_next = None, s_symbol = None\<rparr>]"
    using ylen yc0 by (auto simp: list_eq_iff_nth_eq)
  have yrest: "gdbscm_symbol_valid_p g ev (smobs y2) (Symbol_smob 0) = Inr SCM_BOOL_F
    \<and> gdbscm_symbol_name host g ev (smobs y2) (Symbol_smob 0)
        = Inl (gdbscm_invalid_object_error (Some ''gdbscm_symbol_name'') 1 (Symbol_smob 0)
                 ''invalid <gdb:symbol>'')
    \<and> gdbscm_symbol_line host g ev (smobs y2) (Symbol_smob 0)
        = Inl (gdbscm_invalid_object_error (Some ''gdbscm_symbol_line'') 1 (Symbol_smob 0)
                 ''invalid <gdb:symbol>'')"
    using sy y1 ychain yraw unfolding Let_def y2e [symmetric] by simp
  have t1s: "tyscm_gsmob_from_type thost (Some 300) t0 =
      (Type_smob 0,
       \<lparr>smobs = [\<lparr>smob_aux = SCM_BOOL_F, smob_prev = None, smob_next = None,
                   t_type = Some 300\<rparr>],
        objfile_heads = [7 \<mapsto> Some 0]\<rparr>)"
    by (simp add: tyscm_gsmob_from_type_def tyscm_make_type_smob_def mk t0_def thost_def)
  have t1: "smobs t1 =
        [\<lparr>smob_aux = SCM_BOOL_F, smob_prev = None, smob_next = None, t_type = Some 300\<rparr>]"
    "objfile_data t1 7 = Some 0"
    by (simp_all add: t1_def t1s objfile_data_def)
  have tchain: "chain (smobs t1) (Some 0) [0]"
    by (simp add: t1)
  note ty = chained_smobs_objfile_teardown [where wty = t1
      and objfile = 7 and datum = "Some 0" and as = "[0]" and a = 0 and g = g and ev = ev
      and thost = thost and b = 0 and self = "Type_smob 0",
      THEN conjunct2, THEN conjunct2]
  have t2e: "t2 = save_objfile_types thost True 7 (Some 0) t1"
    by (simp only: t2_def t1)
  have traw: "tyscm_scm_to_type_gsmob g ev (Type_smob a) = Type_smob a" for a
    by (rule to_type_gsmob_raw)
  have copy: "copy_type_recursive thost 7 (Some 300) = Some 1300"
    "TYPE_CODE thost x = 8" "TYPE_TAG_NAME thost x = Some ''point''" for x
    by (simp_all add: thost_def)
  have tc0: "smobs t2 ! 0 =
      \<lparr>smob_aux = SCM_BOOL_F, smob_prev = None, smob_next = None, t_type = Some 1300\<rparr>"
    using ty t1 tchain traw copy unfolding Let_def t2e [symmetric]
    by (intro type_smob.equality) simp_all
  have tlen: "length (smobs t2) = 1"
    using ty t1 tchain traw unfolding Let_def t2e [symmetric] by simp
  have t2: "smobs t2 =
      [\<lparr>smob_aux = SCM_BOOL_F, smob_prev = None, smob_next = None, t_type = Some 1300\<rparr>]"
    using tlen tc0 by (auto simp: list_eq_iff_nth_eq)
  have trest: "gdbscm_type_code thost g ev (smobs t2) (Type_smob 0) = Inr (SCM_Integer 8)
    \<and> gdbscm_type_tag thost g ev (smobs t2) (Type_smob 0) = Inr (SCM_String ''point'')"
    using ty t1 tchain traw copy unfolding Let_def t2e [symmetric] by simp
  have p1: "printf_d 1 = ''1''"
    by code_simp
  show ?thesis
    unfolding Let_def host_def [symmetric] thost_def [symmetric] g_def [symmetric]
      ev_def [symmetric] w0_def [symmetric] y0_def [symmetric] t0_def [symmetric]
    unfolding w1_def [symmetric] y1_def [symmetric] t1_def [symmetric]
    unfolding w2_def [symmetric] y2_def [symmetric] t2_def [symmetric]
    unfolding w3_def [symmetric]
    using s1 s2 w2 ch before w3 rest0 rest1 y1s y1 ybefore y2 yrest t1s t1 t2 trest
    by (simp add: invalid_object_error_Throw p1 del: decimal.simps)
qed

text \<open>
  C1 as stated fails.  It speaks of every chained handle, but a chained \<^verbatim>\<open><gdb:type>\<close>
  handle keeps a native pointer after its objfile's cleanup has run, \<open>1300\<close> here and not
  \<^verbatim>\<open>NULL\<close>, and its accessors answer instead of throwing \<^verbatim>\<open>gdb:invalid-object-error\<close>.  And
  the cleanup of the \<^verbatim>\<open><gdb:symtab>\<close> chain clears the struct but leaves the objfile's data
  slot pointing at it: the chain head is not cleared by the cleanup.
\<close>

theorem chained_teardown_counterexample:
  "let thost = \<lparr>TYPE_OBJFILE = (\<lambda>t. Some 7),
                 copy_type_recursive =
                   (\<lambda>objfile t. case t of None \<Rightarrow> None | Some x \<Rightarrow> Some (x + 1000)),
                 TYPE_CODE = (\<lambda>t. 8),
                 TYPE_TAG_NAME = (\<lambda>t. Some ''point'')\<rparr>;
       host = \<lparr>symtab_objfile = (\<lambda>s. 7),
                symtab_to_filename_for_display = (\<lambda>s. ''a.c''),
                symtab_to_fullname = (\<lambda>s. ''/src/a.c''),
                symtab_global_block = (\<lambda>s. 0), symtab_static_block = (\<lambda>s. 1),
                ofscm_scm_from_objfile_unsafe = (\<lambda>obj. Inr (Other_smob 0 obj)),
                bkscm_scm_from_block_unsafe = (\<lambda>blk obj. Inr (Other_smob 1 blk))\<rparr>;
       g = \<lparr>registered_gsmobs = {1, 2, 3, 4, 5}, scm_from_smob_var = SCM_BOOL_F,
             scm_to_smob_var = SCM_BOOL_F\<rparr>;
       ev = (\<lambda>proc arg. Returns SCM_BOOL_F);
       t0 = \<lparr>smobs = [], objfile_heads = [7 \<mapsto> None]\<rparr>;
       t1 = snd (tyscm_gsmob_from_type thost (Some 300) t0);
       t2 = save_objfile_types thost True 7 (objfile_data t1 7) t1;
       w0 = \<lparr>smobs = [], objfile_heads = [7 \<mapsto> None]\<rparr>;
       w1 = snd (stscm_gsmob_from_symtab host 100 w0);
       w2 = stscm_del_objfile_symtab 7 (objfile_data w1 7) w1
   in fst (tyscm_gsmob_from_type thost (Some 300) t0) = Type_smob 0
    \<and> chain (smobs t1) (objfile_data t1 7) [0]
    \<and> t_type (smobs t1 ! 0) = Some 300
    \<and> t_type (smobs t2 ! 0) = Some 1300
    \<and> t_type (smobs t2 ! 0) \<noteq> None
    \<and> gdbscm_type_code thost g ev (smobs t2) (Type_smob 0) = Inr (SCM_Integer 8)
    \<and> gdbscm_type_tag thost g ev (smobs t2) (Type_smob 0) = Inr (SCM_String ''point'')
    \<and> fst (stscm_gsmob_from_symtab host 100 w0) = Symtab_smob 0
    \<and> chain (smobs w1) (objfile_data w1 7) [0]
    \<and> st_symtab (smobs w2 ! 0) = None
    \<and> objfile_heads w1 7 = Some (Some 0)
    \<and> objfile_heads w2 7 = Some (Some 0)"
  by (simp add: Let_def tyscm_gsmob_from_type_def tyscm_make_type_smob_def
      stscm_gsmob_from_symtab_def stscm_make_symtab_smob_def
      gdbscm_init_chained_gsmob_def gdbscm_init_gsmob_def gdbscm_add_objfile_ref_def
      update_base_def objfile_data_def set_objfile_data_def save_objfile_types_def
      gdbscm_type_code_def gdbscm_type_tag_def get_type_smob_arg_raw)

end
